theory Spec2Isabelle
  imports Complex_Main
begin

section \<open>Errors and results\<close>

text \<open>
  Every exception the modelled Python code can raise is a value of \<open>error\<close>; a function
  that may raise returns \<open>error + 'a\<close>, with \<open>Inl\<close> for the exception.
\<close>

datatype error =
    KeyError string
  | ValueError string
  | ShapeError string
  | IndexError string
  | AssertionError string
  | ZeroDivisionError string
  | AttributeError string

definition bind :: "error + 'a \<Rightarrow> ('a \<Rightarrow> error + 'b) \<Rightarrow> error + 'b" where
  "bind m f = (case m of Inl e \<Rightarrow> Inl e | Inr v \<Rightarrow> f v)"

definition is_error :: "error + 'a \<Rightarrow> bool" where
  "is_error m = (case m of Inl _ \<Rightarrow> True | Inr _ \<Rightarrow> False)"

section \<open>Floating-point numbers\<close>

text \<open>
  The floating-point type of the module is \<open>dtype_float = paddle.get_default_dtype()\<close>,
  which is \<open>float32\<close>. An elementwise \<open>+\<close>, \<open>-\<close> or \<open>*\<close> of the tensor library
  returns the exact result rounded to the nearest \<open>float32\<close> number, ties to the even
  significand: \<open>float32\<close> is that rounding as a function on the real numbers (24
  significant bits, least exponent \<open>-126\<close>), and \<open>fadd\<close>, \<open>fsub\<close> and \<open>fmul\<close> are the
  three operations. A Python number that meets a tensor in such an operation is rounded to
  \<open>float32\<close> first. Infinities and NaN are not modelled: \<open>float32\<close> rounds as if the
  exponent had no upper bound, so the model describes the computations in which no result
  exceeds the largest finite \<open>float32\<close> number.
\<close>

definition round_half_even :: "real \<Rightarrow> int" where
  "round_half_even x =
     (let f = \<lfloor>x\<rfloor>; d = x - of_int f
      in if d < 1 / 2 then f else if 1 / 2 < d then f + 1 else if even f then f else f + 1)"

definition float32 :: "real \<Rightarrow> real" where
  "float32 x =
     (if x = 0 then 0
      else let e = max \<lfloor>log 2 \<bar>x\<bar>\<rfloor> (- 126); u = 2 powi (e - 23)
           in of_int (round_half_even (x / u)) * u)"

definition fadd :: "real \<Rightarrow> real \<Rightarrow> real" where
  "fadd x y = float32 (x + y)"

definition fsub :: "real \<Rightarrow> real \<Rightarrow> real" where
  "fsub x y = float32 (x - y)"

definition fmul :: "real \<Rightarrow> real \<Rightarrow> real" where
  "fmul x y = float32 (x * y)"

section \<open>Tensors\<close>

text \<open>
  A tensor is its shape and its entries in row-major order, as the tensor library stores
  them: \<open>reshape\<close> keeps the entries and changes the shape only. \<open>ravel\<close> is the offset
  of an index in the row-major order and \<open>unravel\<close> its inverse; every other operation
  is written with \<open>tabulate\<close>, which builds a tensor from a function of the index.
\<close>

record 'a tensor =
  shape :: "nat list"
  data :: "'a list"

definition numel :: "nat list \<Rightarrow> nat" where
  "numel sh = prod_list sh"

definition wf_tensor :: "'a tensor \<Rightarrow> bool" where
  "wf_tensor t \<longleftrightarrow> length (data t) = numel (shape t)"

fun ravel :: "nat list \<Rightarrow> nat list \<Rightarrow> nat" where
  "ravel (d # ds) (i # is) = i * numel ds + ravel ds is"
| "ravel _ _ = 0"

fun unravel :: "nat list \<Rightarrow> nat \<Rightarrow> nat list" where
  "unravel [] n = []"
| "unravel (d # ds) n = (n div numel ds) # unravel ds (n mod numel ds)"

definition valid_index :: "nat list \<Rightarrow> nat list \<Rightarrow> bool" where
  "valid_index sh idx \<longleftrightarrow> list_all2 (\<lambda>i d. i < d) idx sh"

definition tget :: "'a tensor \<Rightarrow> nat list \<Rightarrow> 'a" where
  "tget t idx = data t ! ravel (shape t) idx"

definition tabulate :: "nat list \<Rightarrow> (nat list \<Rightarrow> 'a) \<Rightarrow> 'a tensor" where
  "tabulate sh f = \<lparr>shape = sh, data = map (\<lambda>n. f (unravel sh n)) [0..<numel sh]\<rparr>"

text \<open>
  \<open>paddle.reshape\<close>: a \<open>0\<close> in the target copies the dimension of the input at that
  position, a single \<open>-1\<close> is inferred from the number of entries, and the number of
  entries must not change. A slice \<open>x[..., start:stop, ...]\<close> along one axis clamps its
  bounds as Python does; \<open>paddle.index_select\<close> raises on an empty index tensor and on
  an index out of range.
\<close>

definition reshape :: "'a tensor \<Rightarrow> int list \<Rightarrow> error + 'a tensor" where
  "reshape x target =
     (let n = int (length (data x));
          copied = map (\<lambda>k. if target ! k = 0 \<and> k < length (shape x)
                               then int (shape x ! k) else target ! k)
                       [0..<length target];
          unknown = filter (\<lambda>d. d = - 1) copied;
          known = prod_list (filter (\<lambda>d. d \<noteq> - 1) copied)
      in if list_ex (\<lambda>d. d < - 1) copied \<or> 1 < length unknown
         then Inl (ShapeError ''invalid target shape'')
         else if list_ex (\<lambda>k. target ! k = 0 \<and> length (shape x) \<le> k) [0..<length target]
         then Inl (ShapeError ''index of 0 in shape exceeds the rank of x'')
         else if unknown = []
         then (if known = n
               then Inr \<lparr>shape = map nat copied, data = data x\<rparr>
               else Inl (ShapeError ''number of elements differs''))
         else if 0 < known \<and> n mod known = 0
         then Inr \<lparr>shape = map (\<lambda>d. if d = - 1 then nat (n div known) else nat d) copied,
                   data = data x\<rparr>
         else Inl (ShapeError ''cannot infer the unknown dimension''))"

definition slice_bound :: "int \<Rightarrow> nat \<Rightarrow> nat" where
  "slice_bound b n = (if b < 0 then nat (max 0 (int n + b)) else min (nat b) n)"

definition slice_axis :: "nat \<Rightarrow> int option \<Rightarrow> int option \<Rightarrow> 'a tensor \<Rightarrow> error + 'a tensor" where
  "slice_axis axis start stop x =
     (if axis < length (shape x)
      then (let n = shape x ! axis;
                lo = (case start of None \<Rightarrow> 0 | Some b \<Rightarrow> slice_bound b n);
                hi = (case stop of None \<Rightarrow> n | Some e \<Rightarrow> slice_bound e n)
            in Inr (tabulate ((shape x)[axis := hi - lo])
                      (\<lambda>idx. tget x (idx[axis := idx ! axis + lo]))))
      else Inl (IndexError ''too many indices for tensor''))"

definition arange :: "int \<Rightarrow> int list" where
  "arange n = map int [0..<nat n]"

definition index_select :: "'a tensor \<Rightarrow> int list \<Rightarrow> nat \<Rightarrow> error + 'a tensor" where
  "index_select x index axis =
     (if axis < length (shape x)
      then (if index = [] then Inl (ValueError ''the index tensor is empty'')
            else if list_all (\<lambda>i. 0 \<le> i \<and> i < int (shape x ! axis)) index
            then Inr (tabulate ((shape x)[axis := length index])
                        (\<lambda>idx. tget x (idx[axis := nat (index ! (idx ! axis))])))
            else Inl (IndexError ''index out of range''))
      else Inl (ValueError ''axis out of range''))"

text \<open>
  Further operations of the tensor library, each written with \<open>tabulate\<close>: concatenation of
  two tensors along an axis (a negative axis counts from the end), broadcasting of two
  shapes aligned at their last dimensions, elementwise operations, \<open>unsqueeze\<close>,
  \<open>expand\<close> (where \<open>-1\<close> keeps a dimension and every other element of the target
  must be greater than 0), batched matrix product and
  \<open>arange\<close> with a step. Tensor entries of floating-point type are real numbers here;
  the rounding of an operation is written out where the score of the attention is merged
  and masked (\<open>attn_score\<close>), and left out elsewhere.
  \<open>matmul\<close> is modelled for operands of rank at least two, the only ones the source passes.
\<close>

definition norm_axis :: "int \<Rightarrow> nat \<Rightarrow> nat option" where
  "norm_axis axis rank =
     (if 0 \<le> axis \<and> axis < int rank then Some (nat axis)
      else if - int rank \<le> axis \<and> axis < 0 then Some (nat (axis + int rank))
      else None)"

definition concat2 :: "'a tensor \<Rightarrow> 'a tensor \<Rightarrow> int \<Rightarrow> error + 'a tensor" where
  "concat2 x y axis =
     (case norm_axis axis (length (shape x)) of
        None \<Rightarrow> Inl (ValueError ''axis out of range'')
      | Some ax \<Rightarrow>
          if length (shape x) = length (shape y) \<and> (shape x)[ax := 0] = (shape y)[ax := 0]
          then Inr (tabulate ((shape x)[ax := shape x ! ax + shape y ! ax])
                      (\<lambda>idx. if idx ! ax < shape x ! ax then tget x idx
                             else tget y (idx[ax := idx ! ax - shape x ! ax])))
          else Inl (ShapeError ''shapes of the concatenated tensors differ''))"


fun bshape_rev :: "nat list \<Rightarrow> nat list \<Rightarrow> nat list option" where
  "bshape_rev [] ys = Some ys"
| "bshape_rev (x # xs) [] = Some (x # xs)"
| "bshape_rev (x # xs) (y # ys) =
     (if x = y \<or> y = 1 then map_option ((#) x) (bshape_rev xs ys)
      else if x = 1 then map_option ((#) y) (bshape_rev xs ys)
      else None)"

definition broadcast_shapes :: "nat list \<Rightarrow> nat list \<Rightarrow> nat list option" where
  "broadcast_shapes a b = map_option rev (bshape_rev (rev a) (rev b))"

fun bindex_rev :: "nat list \<Rightarrow> nat list \<Rightarrow> nat list" where
  "bindex_rev (d # ds) (i # is) = (if d = 1 then 0 else i) # bindex_rev ds is"
| "bindex_rev _ _ = []"

definition bindex :: "nat list \<Rightarrow> nat list \<Rightarrow> nat list" where
  "bindex sh idx = rev (bindex_rev (rev sh) (rev idx))"

definition broadcast_op ::
  "('a \<Rightarrow> 'b \<Rightarrow> 'c) \<Rightarrow> 'a tensor \<Rightarrow> 'b tensor \<Rightarrow> error + 'c tensor" where
  "broadcast_op f x y =
     (case broadcast_shapes (shape x) (shape y) of
        None \<Rightarrow> Inl (ShapeError ''operands cannot be broadcast together'')
      | Some sh \<Rightarrow>
          Inr (tabulate sh (\<lambda>idx. f (tget x (bindex (shape x) idx))
                                    (tget y (bindex (shape y) idx)))))"

definition tmap :: "('a \<Rightarrow> 'b) \<Rightarrow> 'a tensor \<Rightarrow> 'b tensor" where
  "tmap f x = tabulate (shape x) (\<lambda>idx. f (tget x idx))"

definition unsqueeze :: "'a tensor \<Rightarrow> int \<Rightarrow> error + 'a tensor" where
  "unsqueeze x axis =
     (case norm_axis axis (length (shape x) + 1) of
        None \<Rightarrow> Inl (ValueError ''axis out of range'')
      | Some ax \<Rightarrow>
          Inr \<lparr>shape = take ax (shape x) @ [1] @ drop ax (shape x), data = data x\<rparr>)"

definition expand :: "'a tensor \<Rightarrow> int list \<Rightarrow> error + 'a tensor" where
  "expand x target =
     (let r = length (shape x); t = length target
      in if t < r then Inl (ShapeError ''fewer target dimensions than the rank of x'')
         else
           let lead = take (t - r) target;
               tail = drop (t - r) target;
               dims = map (\<lambda>(d, e). if e = - 1 then int d else e) (zip (shape x) tail)
           in if list_ex (\<lambda>e. e \<le> 0 \<and> e \<noteq> - 1) target
                 \<or> list_ex (\<lambda>e. e < 0) lead
                 \<or> list_ex (\<lambda>(d, e). d \<noteq> 1 \<and> int d \<noteq> e) (zip (shape x) dims)
              then Inl (ShapeError ''invalid expand shape'')
              else Inr (tabulate (map nat (lead @ dims))
                          (\<lambda>idx. tget x (bindex (shape x) idx))))"

definition matmul :: "real tensor \<Rightarrow> real tensor \<Rightarrow> bool \<Rightarrow> error + real tensor" where
  "matmul x y transpose_y =
     (let rx = length (shape x); ry = length (shape y)
      in if rx < 2 \<or> ry < 2 then Inl (ShapeError ''operand of rank below 2'')
         else
           let bx = take (rx - 2) (shape x); by = take (ry - 2) (shape y);
               m = shape x ! (rx - 2); kx = shape x ! (rx - 1);
               ky = (if transpose_y then shape y ! (ry - 1) else shape y ! (ry - 2));
               n = (if transpose_y then shape y ! (ry - 2) else shape y ! (ry - 1))
           in if kx \<noteq> ky then Inl (ShapeError ''inner dimensions differ'')
              else case broadcast_shapes bx by of
                     None \<Rightarrow> Inl (ShapeError ''batch dimensions cannot be broadcast'')
                   | Some bs \<Rightarrow>
                       Inr (tabulate (bs @ [m, n])
                         (\<lambda>idx. let bi = take (length bs) idx;
                                     i = idx ! length bs;
                                     j = idx ! (length bs + 1)
                                 in (\<Sum>t\<leftarrow>[0..<kx].
                                       tget x (bindex bx bi @ [i, t]) *
                                       tget y (bindex by bi @ (if transpose_y then [j, t] else [t, j]))))))"

definition arange3 :: "int \<Rightarrow> int \<Rightarrow> int \<Rightarrow> int list" where
  "arange3 start stop step =
     (if 0 < step
      then map (\<lambda>i. start + int i * step) [0..<nat ((stop - start + step - 1) div step)]
      else if step < 0
      then map (\<lambda>i. start + int i * step) [0..<nat ((start - stop - step - 1) div (- step))]
      else [])"

definition float_vector :: "int list \<Rightarrow> real tensor" where
  "float_vector xs = \<lparr>shape = [length xs], data = map real_of_int xs\<rparr>"

text \<open>
  \<open>transpose_axes\<close> permutes the axes and raises unless \<open>perm\<close> is a permutation of all of
  them; \<open>unsqueeze_axes\<close> inserts several axes one after the other; \<open>triu\<close> and \<open>tril\<close>
  keep the entries of a matrix on and above (below) a diagonal; \<open>greater_than_zero\<close> is
  the cast of the comparison \<open>x > 0\<close> back to the floating-point type.
\<close>

definition index_of :: "nat list \<Rightarrow> nat \<Rightarrow> nat" where
  "index_of perm d = length (takeWhile (\<lambda>p. p \<noteq> d) perm)"

definition transpose_axes :: "'a tensor \<Rightarrow> nat list \<Rightarrow> error + 'a tensor" where
  "transpose_axes x perm =
     (if length perm = length (shape x) \<and> distinct perm
         \<and> list_all (\<lambda>p. p < length (shape x)) perm
      then Inr (tabulate (map (\<lambda>p. shape x ! p) perm)
                  (\<lambda>idx. tget x (map (\<lambda>d. idx ! index_of perm d) [0..<length perm])))
      else Inl (ValueError ''perm is not a permutation of the axes of the tensor''))"

definition opt_transpose :: "'a tensor option \<Rightarrow> nat list \<Rightarrow> error + 'a tensor option" where
  "opt_transpose x perm =
     (case x of None \<Rightarrow> Inr None | Some t \<Rightarrow> bind (transpose_axes t perm) (\<lambda>t'. Inr (Some t')))"

fun unsqueeze_axes :: "'a tensor \<Rightarrow> int list \<Rightarrow> error + 'a tensor" where
  "unsqueeze_axes x [] = Inr x"
| "unsqueeze_axes x (a # as) = bind (unsqueeze x a) (\<lambda>y. unsqueeze_axes y as)"

definition ones :: "nat list \<Rightarrow> real tensor" where
  "ones sh = tabulate sh (\<lambda>_. 1)"

definition zeros :: "nat list \<Rightarrow> real tensor" where
  "zeros sh = tabulate sh (\<lambda>_. 0)"

definition eye :: "nat \<Rightarrow> real tensor" where
  "eye n = tabulate [n, n] (\<lambda>idx. if idx ! 0 = idx ! 1 then 1 else 0)"

definition triu :: "real tensor \<Rightarrow> int \<Rightarrow> real tensor" where
  "triu x diagonal =
     tabulate (shape x)
       (\<lambda>idx. if diagonal \<le> int (idx ! 1) - int (idx ! 0) then tget x idx else 0)"

definition tril :: "real tensor \<Rightarrow> int \<Rightarrow> real tensor" where
  "tril x diagonal =
     tabulate (shape x)
       (\<lambda>idx. if int (idx ! 1) - int (idx ! 0) \<le> diagonal then tget x idx else 0)"

definition greater_than_zero :: "real tensor \<Rightarrow> real tensor" where
  "greater_than_zero x = tmap (\<lambda>v. if 0 < v then 1 else 0) x"

text \<open>
  \<open>entries_within c t\<close>: every entry of \<open>t\<close> is at most \<open>c\<close> in magnitude.
\<close>

definition entries_within :: "real \<Rightarrow> real tensor \<Rightarrow> bool" where
  "entries_within c t \<longleftrightarrow> list_all (\<lambda>v. \<bar>v\<bar> \<le> c) (data t)"

section \<open>Activation functions\<close>

text \<open>
  The module-level table \<open>ACT2FN\<close> maps a name to a function object. The library functions
  (\<open>F.relu\<close>, \<open>F.gelu\<close>, \<open>F.tanh\<close>, \<open>F.sigmoid\<close>) and the three functions the module
  defines itself are the constructors of \<open>act_fn\<close>; \<open>Callable\<close> is any other function object
  a caller passes in. \<open>call_act\<close> gives each its meaning on one tensor entry; \<open>F.gelu\<close> is
  a function of the tensor library and is taken as a parameter.
\<close>

datatype act_fn =
    F_relu | F_gelu | F_tanh | F_sigmoid
  | Fn_mish | Fn_linear_act | Fn_swish
  | Callable "real \<Rightarrow> real"

definition softplus :: "real \<Rightarrow> real" where
  "softplus x = ln (1 + exp x)"

definition sigmoid :: "real \<Rightarrow> real" where
  "sigmoid x = 1 / (1 + exp (- x))"

definition mish :: "real \<Rightarrow> real" where
  "mish x = x * tanh (softplus x)"

definition linear_act :: "real \<Rightarrow> real" where
  "linear_act x = x"

definition swish :: "real \<Rightarrow> real" where
  "swish x = x * sigmoid x"

fun call_act :: "(real \<Rightarrow> real) \<Rightarrow> act_fn \<Rightarrow> real \<Rightarrow> real" where
  "call_act gelu F_relu x = max 0 x"
| "call_act gelu F_gelu x = gelu x"
| "call_act gelu F_tanh x = tanh x"
| "call_act gelu F_sigmoid x = sigmoid x"
| "call_act gelu Fn_mish x = mish x"
| "call_act gelu Fn_linear_act x = linear_act x"
| "call_act gelu Fn_swish x = swish x"
| "call_act gelu (Callable f) x = f x"

definition ACT2FN :: "(string \<times> act_fn) list" where
  "ACT2FN =
     [(''relu'', F_relu),
      (''gelu'', F_gelu),
      (''tanh'', F_tanh),
      (''sigmoid'', F_sigmoid),
      (''mish'', Fn_mish),
      (''linear'', Fn_linear_act),
      (''swish'', Fn_swish)]"

definition get_activation :: "string \<Rightarrow> error + act_fn" where
  "get_activation activation_string =
     (if activation_string \<in> set (map fst ACT2FN)
      then (case map_of ACT2FN activation_string of
              Some f \<Rightarrow> Inr f
            | None \<Rightarrow> Inl (KeyError activation_string))
      else Inl (KeyError (''function '' @ activation_string @ '' not found in ACT2FN mapping'')))"

text \<open>
  The argument \<open>ff_activation\<close> of \<open>XLNetFeedForward.__init__\<close> is either a string, looked
  up with \<open>ACT2FN[ff_activation]\<close> (a missing key raises \<open>KeyError\<close>), or any other object,
  stored as it is.
\<close>

datatype ff_activation_arg = ActStr string | ActObj "real \<Rightarrow> real"

record XLNetFeedForward =
  ff_d_model :: nat
  ff_d_inner :: nat
  ff_layer_norm_eps :: real
  ff_dropout :: real
  activation_function :: act_fn

definition XLNetFeedForward_init ::
  "nat \<Rightarrow> nat \<Rightarrow> real \<Rightarrow> real \<Rightarrow> ff_activation_arg \<Rightarrow> error + XLNetFeedForward" where
  "XLNetFeedForward_init d_model d_inner layer_norm_eps dropout ff_activation =
     (case ff_activation of
        ActStr s \<Rightarrow>
          (case map_of ACT2FN s of
             None \<Rightarrow> Inl (KeyError s)
           | Some f \<Rightarrow>
               Inr \<lparr>ff_d_model = d_model, ff_d_inner = d_inner,
                    ff_layer_norm_eps = layer_norm_eps, ff_dropout = dropout,
                    activation_function = f\<rparr>)
      | ActObj f \<Rightarrow>
          Inr \<lparr>ff_d_model = d_model, ff_d_inner = d_inner,
               ff_layer_norm_eps = layer_norm_eps, ff_dropout = dropout,
               activation_function = Callable f\<rparr>)"

definition supported_activations :: "string set" where
  "supported_activations =
     {''relu'', ''gelu'', ''tanh'', ''sigmoid'', ''mish'', ''linear'', ''swish''}"

section \<open>Relative shift\<close>

text \<open>
  \<open>XLNetRelativeAttention.rel_shift_bnij\<close>: reshape to \<open>[b, n, p, q]\<close>, drop the first
  slice along axis 2, reshape to \<open>[b, n, q, p - 1]\<close>, select the indices
  \<open>arange(klen)\<close> along axis 3.
\<close>

definition rel_shift_bnij :: "'a tensor \<Rightarrow> int \<Rightarrow> error + 'a tensor" where
  "rel_shift_bnij x klen =
     (let x_size = shape x
      in if length x_size < 4 then Inl (IndexError ''list index out of range'')
         else
           bind (reshape x [int (x_size ! 0), int (x_size ! 1), int (x_size ! 3), int (x_size ! 2)])
             (\<lambda>x1. bind (slice_axis 2 (Some 1) None x1)
             (\<lambda>x2. bind (reshape x2 [int (x_size ! 0), int (x_size ! 1), int (x_size ! 2),
                                      int (x_size ! 3) - 1])
             (\<lambda>x3. index_select x3 (arange klen) 3))))"


text \<open>
  The reading of the relative shift in the specification, for comparison: row \<open>i\<close> of the
  result is row \<open>i\<close> of the input shifted left by \<open>i\<close> positions, cut to \<open>k\<close> entries.
\<close>

definition row_of :: "'a tensor \<Rightarrow> nat \<Rightarrow> nat \<Rightarrow> nat \<Rightarrow> 'a list" where
  "row_of x a c i = map (\<lambda>j. tget x [a, c, i, j]) [0..<shape x ! 3]"

definition shifted_left_by_row_index_spec :: "'a tensor \<Rightarrow> nat \<Rightarrow> nat \<Rightarrow> 'a list" where
  "shifted_left_by_row_index_spec x i k = take k (drop i (row_of x 0 0 i))"

section \<open>Tensor algebra helper\<close>

text \<open>
  \<open>einsum4x4\<close> splits the equation at \<open>,\<close> and \<open>->\<close>, computes from the three index
  strings the permutations that bring the common indices to the front and the contracted
  index to the end, transposes both operands, multiplies them with the second one
  transposed, and permutes the result into the order of the output indices. The source
  builds the index groups with Python sets, whose iteration order is not specified; the
  model lists a set in the order \<open>remdups\<close> leaves (the result of \<open>einsum4x4\<close> does not
  depend on that order, only the layout of the intermediate product does).
  \<open>stack_copies\<close> is \<open>paddle.stack([x] * n, axis=0)\<close>. \<open>softmax\<close> is \<open>F.softmax\<close>, a
  function of the tensor library: along the axis, the exponential of each entry divided by
  the sum of the exponentials, over the real numbers.
\<close>

definition py_set :: "'a list \<Rightarrow> 'a list" where
  "py_set xs = remdups xs"

definition set_minus :: "'a list \<Rightarrow> 'a list \<Rightarrow> 'a list" where
  "set_minus xs ys = filter (\<lambda>c. c \<notin> set ys) xs"

definition set_inter :: "'a list \<Rightarrow> 'a list \<Rightarrow> 'a list" where
  "set_inter xs ys = filter (\<lambda>c. c \<in> set ys) xs"

fun re_split :: "string \<Rightarrow> string \<Rightarrow> string list" where
  "re_split acc [] = [rev acc]"
| "re_split acc [c] = (if c = CHR '','' then [rev acc, []] else [rev (c # acc)])"
| "re_split acc (c # d # cs) =
     (if c = CHR '','' then rev acc # re_split [] (d # cs)
      else if c = CHR ''-'' \<and> d = CHR ''>'' then rev acc # re_split [] cs
      else re_split (c # acc) (d # cs))"

fun py_indices :: "'a list \<Rightarrow> 'a list \<Rightarrow> error + nat list" where
  "py_indices xs [] = Inr []"
| "py_indices xs (c # cs) =
     (if c \<in> set xs
      then bind (py_indices xs cs) (\<lambda>rest. Inr (length (takeWhile (\<lambda>p. p \<noteq> c) xs) # rest))
      else Inl (ValueError ''substring not found''))"

definition einsum4x4 :: "string \<Rightarrow> real tensor \<Rightarrow> real tensor \<Rightarrow> error + real tensor" where
  "einsum4x4 equation x y =
     (case re_split [] equation of
        [idx_x, idx_y, idx_z] \<Rightarrow>
          (let repeated_idx = set_minus (py_set (idx_x @ idx_y)) idx_z;
               unique_idx_x = set_minus (py_set idx_x) idx_y;
               unique_idx_y = set_minus (py_set idx_y) idx_x;
               common_idx = set_inter (py_set idx_x) (set_minus (py_set idx_y) repeated_idx);
               new_idx_x = common_idx @ unique_idx_x @ repeated_idx;
               new_idx_y = common_idx @ unique_idx_y @ repeated_idx;
               new_idx_z = common_idx @ unique_idx_x @ unique_idx_y
           in bind (py_indices idx_x new_idx_x) (\<lambda>perm_x.
              bind (py_indices idx_y new_idx_y) (\<lambda>perm_y.
              bind (py_indices new_idx_z idx_z) (\<lambda>perm_z.
              bind (transpose_axes x perm_x) (\<lambda>x.
              bind (transpose_axes y perm_y) (\<lambda>y.
              bind (matmul x y True) (\<lambda>z.
                transpose_axes z perm_z)))))))
      | _ \<Rightarrow> Inl (ValueError ''wrong number of values to unpack''))"

definition stack_copies :: "nat \<Rightarrow> 'a tensor \<Rightarrow> error + 'a tensor" where
  "stack_copies n x =
     (if n = 0 then Inl (ValueError ''stack of an empty list'')
      else Inr (tabulate (n # shape x) (\<lambda>idx. tget x (tl idx))))"

definition softmax :: "real tensor \<Rightarrow> int \<Rightarrow> error + real tensor" where
  "softmax x axis =
     (case norm_axis axis (length (shape x)) of
        None \<Rightarrow> Inl (ValueError ''axis out of range'')
      | Some ax \<Rightarrow>
          Inr (tabulate (shape x)
                 (\<lambda>idx. exp (tget x idx) /
                          (\<Sum>j\<leftarrow>[0..<shape x ! ax]. exp (tget x (idx[ax := j]))))))"

section \<open>Relative attention\<close>

text \<open>
  \<open>XLNetRelativeAttention\<close>: the record holds the attributes of the layer; the parameters
  (created by \<open>create_parameter\<close> in the source) and the two library layers
  \<open>nn.LayerNorm\<close> and \<open>nn.Dropout\<close> are arguments of the constructor. \<open>scale\<close> is
  \<open>1 / (d_head ** 0.5)\<close>, kept as a real number: it is rounded to \<open>float32\<close> where it
  multiplies the score (its rounding to a Python float before that is not modelled).
  \<open>rel_attn_core\<close> is written in three steps, in the order of the
  source: the content, position and segment scores (\<open>rel_attn_scores\<close>, where the segment
  score is \<open>None\<close> for the Python number \<open>0\<close>), the merged, scaled and masked score
  (\<open>attn_score\<close>, with the \<open>float32\<close> operations \<open>(ac + bd + ef) * scale\<close> and
  \<open>attn_score - 1e30 * attn_mask\<close> written out), and the softmax, dropout, head mask and
  weighted sum of the values.
  In \<open>XLNetRelativeAttention_forward\<close>, \<open>heads x w target\<close> is the recurring pair
  \<open>paddle.reshape(paddle.matmul(x, w), shape=target)\<close> and \<open>concat_mems\<close> the computation of
  \<open>cat\<close>; the first branch is the two-stream path (\<open>g\<close> given), the second the
  content-only path.
\<close>

record XLNetRelativeAttention =
  n_head :: nat
  d_head :: nat
  attn_d_model :: nat
  scale :: real
  w_q :: "real tensor"
  w_k :: "real tensor"
  w_v :: "real tensor"
  w_o :: "real tensor"
  w_r :: "real tensor"
  r_r_bias :: "real tensor"
  r_s_bias :: "real tensor"
  r_w_bias :: "real tensor"
  seg_embed :: "real tensor"
  layer_norm :: "real tensor \<Rightarrow> real tensor"
  dropout :: "real tensor \<Rightarrow> real tensor"


definition XLNetRelativeAttention_init ::
  "nat \<Rightarrow> nat \<Rightarrow> nat \<Rightarrow> (real tensor \<Rightarrow> real tensor) \<Rightarrow> (real tensor \<Rightarrow> real tensor) \<Rightarrow>
   real tensor \<Rightarrow> real tensor \<Rightarrow> real tensor \<Rightarrow> real tensor \<Rightarrow> real tensor \<Rightarrow>
   real tensor \<Rightarrow> real tensor \<Rightarrow> real tensor \<Rightarrow> real tensor \<Rightarrow>
   error + XLNetRelativeAttention" where
  "XLNetRelativeAttention_init nh dh dm ln_fn drop_fn pq pk pv po pr rr rs rw se =
     (if dh = 0 then Inl (ZeroDivisionError ''float division by zero'')
      else Inr \<lparr>n_head = nh, d_head = dh, attn_d_model = dm,
                scale = 1 / (real dh powr (1 / 2)),
                w_q = pq, w_k = pk, w_v = pv, w_o = po, w_r = pr,
                r_r_bias = rr, r_s_bias = rs, r_w_bias = rw, seg_embed = se,
                layer_norm = ln_fn, dropout = drop_fn\<rparr>)"

definition rel_attn_scores ::
  "XLNetRelativeAttention \<Rightarrow> real tensor \<Rightarrow> real tensor \<Rightarrow> real tensor \<Rightarrow>
   real tensor option \<Rightarrow> error + (real tensor \<times> real tensor \<times> real tensor option)" where
  "rel_attn_scores self q_head k_head_h k_head_r seg_mat =
     bind (broadcast_op (+) q_head (r_w_bias self)) (\<lambda>q_w.
     bind (einsum4x4 ''ibnd,jbnd->bnij'' q_w k_head_h) (\<lambda>ac.
     bind (broadcast_op (+) q_head (r_r_bias self)) (\<lambda>q_r.
     bind (einsum4x4 ''ibnd,jbnd->bnij'' q_r k_head_r) (\<lambda>bd.
     bind (if length (shape ac) < 4 then Inl (IndexError ''list index out of range'')
           else rel_shift_bnij bd (int (shape ac ! 3))) (\<lambda>bd.
     bind (case seg_mat of
             None \<Rightarrow> Inr None
           | Some sm \<Rightarrow>
               bind (if shape q_head = [] then Inl (IndexError ''list index out of range'')
                     else stack_copies (shape q_head ! 0) (seg_embed self)) (\<lambda>seg_embed_i.
               bind (broadcast_op (+) q_head (r_s_bias self)) (\<lambda>q_s.
               bind (einsum4x4 ''ibnd,isnd->ibns'' q_s seg_embed_i) (\<lambda>ef.
               bind (einsum4x4 ''ijbs,ibns->bnij'' sm ef) (\<lambda>ef. Inr (Some ef)))))) (\<lambda>ef.
       Inr (ac, bd, ef)))))))"

definition attn_score ::
  "XLNetRelativeAttention \<Rightarrow> real tensor \<Rightarrow> real tensor \<Rightarrow> real tensor option \<Rightarrow>
   real tensor option \<Rightarrow> error + real tensor" where
  "attn_score self ac bd ef attn_mask =
     bind (broadcast_op fadd ac bd) (\<lambda>acbd.
     bind (case ef of
             None \<Rightarrow> Inr (tmap (\<lambda>v. fadd v 0) acbd)
           | Some e \<Rightarrow> broadcast_op fadd acbd e) (\<lambda>merged.
       let score = tmap (\<lambda>v. fmul v (float32 (scale self))) merged
       in case attn_mask of
            None \<Rightarrow> Inr score
          | Some am \<Rightarrow>
              bind (transpose_axes am [2, 3, 0, 1]) (\<lambda>am.
                broadcast_op fsub score (tmap (\<lambda>v. fmul (float32 (10 ^ 30)) v) am))))"

definition rel_attn_core ::
  "XLNetRelativeAttention \<Rightarrow> real tensor \<Rightarrow> real tensor \<Rightarrow> real tensor \<Rightarrow> real tensor \<Rightarrow>
   real tensor option \<Rightarrow> real tensor option \<Rightarrow> real tensor option \<Rightarrow> bool \<Rightarrow>
   error + (real tensor \<times> real tensor option)" where
  "rel_attn_core self q_head k_head_h v_head_h k_head_r seg_mat attn_mask head_mask
       output_attentions =
     bind (rel_attn_scores self q_head k_head_h k_head_r seg_mat) (\<lambda>(ac, bd, ef).
     bind (attn_score self ac bd ef attn_mask) (\<lambda>score.
     bind (softmax score 3) (\<lambda>attn_prob.
     bind (case head_mask of
             None \<Rightarrow> Inr (dropout self attn_prob)
           | Some hm \<Rightarrow>
               bind (transpose_axes hm [2, 3, 0, 1]) (\<lambda>hm.
                 broadcast_op (*) (dropout self attn_prob) hm)) (\<lambda>attn_prob.
     bind (einsum4x4 ''bnij,jbnd->ibnd'' attn_prob v_head_h) (\<lambda>attn_vec.
       if output_attentions
       then bind (transpose_axes attn_prob [2, 3, 0, 1]) (\<lambda>p. Inr (attn_vec, Some p))
       else Inr (attn_vec, None))))))"

definition post_attention ::
  "XLNetRelativeAttention \<Rightarrow> real tensor \<Rightarrow> real tensor \<Rightarrow> bool \<Rightarrow> error + real tensor" where
  "post_attention self h attn_vec residual =
     (let sh = shape attn_vec
      in if length sh < 2 then Inl (IndexError ''list index out of range'')
         else
           bind (reshape attn_vec [int (sh ! 0 * sh ! 1), - 1]) (\<lambda>attn_vec.
           bind (matmul attn_vec (w_o self) True) (\<lambda>attn_out.
           bind (reshape attn_out [int (sh ! 0), int (sh ! 1), - 1]) (\<lambda>attn_out.
           bind (if residual then broadcast_op (+) (dropout self attn_out) h
                 else Inr (dropout self attn_out)) (\<lambda>attn_out.
             Inr (layer_norm self attn_out))))))"

datatype attentions = NoAttentions | ContentAttention "real tensor"
  | TwoStreamAttention "real tensor" "real tensor"

definition heads :: "real tensor \<Rightarrow> real tensor \<Rightarrow> int list \<Rightarrow> error + real tensor" where
  "heads x w target = bind (matmul x w False) (\<lambda>y. reshape y target)"

definition concat_mems :: "real tensor option \<Rightarrow> real tensor \<Rightarrow> error + real tensor" where
  "concat_mems mems h =
     (case mems of
        None \<Rightarrow> Inr h
      | Some m \<Rightarrow> if 1 < length (shape m) then concat2 m h 0 else Inr h)"

definition XLNetRelativeAttention_forward ::
  "XLNetRelativeAttention \<Rightarrow> real tensor \<Rightarrow> real tensor option \<Rightarrow> real tensor option \<Rightarrow>
   real tensor option \<Rightarrow> real tensor \<Rightarrow> real tensor option \<Rightarrow> real tensor option \<Rightarrow>
   real tensor option \<Rightarrow> real tensor option \<Rightarrow> bool \<Rightarrow>
   error + (real tensor \<times> real tensor option \<times> attentions)" where
  "XLNetRelativeAttention_forward self h g attn_mask_h attn_mask_g r seg_mat mems
       target_mapping head_mask output_attentions =
     (let nh = int (n_head self); dh = int (d_head self)
      in case g of
        Some g \<Rightarrow>
          bind (concat_mems mems h) (\<lambda>cat.
          bind (heads cat (w_k self) [int (shape cat ! 0), int (shape cat ! 1), nh, dh]) (\<lambda>k_head_h.
          bind (heads cat (w_v self) [int (shape cat ! 0), int (shape cat ! 1), nh, dh]) (\<lambda>v_head_h.
          bind (heads r (w_r self) [int (shape cat ! 0), int (shape cat ! 1), nh, dh]) (\<lambda>k_head_r.
          bind (heads h (w_q self) [int (shape cat ! 0), int (shape cat ! 1), nh, dh]) (\<lambda>q_head_h.
          bind (rel_attn_core self q_head_h k_head_h v_head_h k_head_r seg_mat attn_mask_h
                  head_mask output_attentions) (\<lambda>(attn_vec_h, attn_prob_h).
          bind (post_attention self h attn_vec_h True) (\<lambda>output_h.
          bind (heads g (w_q self) [int (shape g ! 0), int (shape g ! 1), nh, dh]) (\<lambda>q_head_g.
          bind (case target_mapping of
                  Some tm \<Rightarrow>
                    bind (transpose_axes q_head_g [1, 2, 3, 0]) (\<lambda>q_head_g.
                    bind (transpose_axes tm [2, 0, 1]) (\<lambda>tm.
                    bind (matmul q_head_g tm False) (\<lambda>q_head_g.
                    bind (transpose_axes q_head_g [3, 0, 1, 2]) (\<lambda>q_head_g.
                    bind (rel_attn_core self q_head_g k_head_h v_head_h k_head_r seg_mat
                            attn_mask_g head_mask output_attentions) (\<lambda>(attn_vec_g, attn_prob_g).
                    bind (transpose_axes attn_vec_g [1, 2, 3, 0]) (\<lambda>attn_vec_g.
                    bind (transpose_axes tm [2, 1, 0]) (\<lambda>tm.
                    bind (matmul attn_vec_g tm False) (\<lambda>attn_vec_g.
                    bind (transpose_axes attn_vec_g [3, 0, 1, 2]) (\<lambda>attn_vec_g.
                      Inr (attn_vec_g, attn_prob_g))))))))))
                | None \<Rightarrow>
                    rel_attn_core self q_head_g k_head_h v_head_h k_head_r seg_mat
                      attn_mask_g head_mask output_attentions) (\<lambda>(attn_vec_g, attn_prob_g).
          bind (post_attention self g attn_vec_g True) (\<lambda>output_g.
            Inr (output_h, Some output_g,
                 case (attn_prob_h, attn_prob_g) of
                   (Some ph, Some pg) \<Rightarrow> TwoStreamAttention ph pg
                 | _ \<Rightarrow> NoAttentions)))))))))))
      | None \<Rightarrow>
          bind (concat_mems mems h) (\<lambda>cat.
          bind (heads h (w_q self) [int (shape h ! 0), int (shape h ! 1), nh, dh]) (\<lambda>q_head_h.
          bind (heads cat (w_k self) [int (shape h ! 0), int (shape h ! 1), nh, dh]) (\<lambda>k_head_h.
          bind (heads cat (w_v self) [int (shape h ! 0), int (shape h ! 1), nh, dh]) (\<lambda>v_head_h.
          bind (matmul r (w_r self) False) (\<lambda>k_head_r.
          bind (reshape k_head_r [int (shape k_head_r ! 0), - 1, nh, dh]) (\<lambda>k_head_r.
          bind (rel_attn_core self q_head_h k_head_h v_head_h k_head_r seg_mat attn_mask_h
                  head_mask output_attentions) (\<lambda>(attn_vec, attn_prob).
          bind (post_attention self h attn_vec True) (\<lambda>output_h.
            Inr (output_h, None,
                 case attn_prob of Some p \<Rightarrow> ContentAttention p | None \<Rightarrow> NoAttentions))))))))))"

section \<open>The model object\<close>

text \<open>
  \<open>XLNetModel.__init__\<close> stores its keyword arguments as attributes. An argument that is
  not passed takes the default of the signature; the default of \<open>bi_data\<close> is the string
  \<open>"False"\<close>, so \<open>bi_data\<close> is a Python value whose truth is tested later.
  \<open>XLNetModel_kwargs\<close> holds the keyword arguments of a call (\<open>None\<close>: not passed). The
  layers are built in the constructor, which is where \<open>d_head = 0\<close> (in the scale of
  the attention layer) and an unknown \<open>ff_activation\<close> raise; of each layer the record
  keeps the feed-forward block.
  \<open>pretrained_init_configuration\<close> is the table of the five pretrained configurations, each
  with its \<open>vocab_size\<close>.
\<close>

datatype pyval = PyNone | PyBool bool | PyInt int | PyStr string

fun truthy :: "pyval \<Rightarrow> bool" where
  "truthy PyNone = False"
| "truthy (PyBool b) = b"
| "truthy (PyInt i) = (i \<noteq> 0)"
| "truthy (PyStr s) = (s \<noteq> [])"

record XLNetModel =
  mem_len :: "int option"
  reuse_len :: "int option"
  d_model :: nat
  same_length :: bool
  attn_type :: string
  bi_data :: pyval
  clamp_len :: int
  n_layer :: nat
  layer_ff :: "XLNetFeedForward list"

record XLNetModel_kwargs =
  kw_mem_len :: "int option"
  kw_reuse_len :: "int option"
  kw_d_model :: "nat option"
  kw_same_length :: "bool option"
  kw_attn_type :: "string option"
  kw_bi_data :: "pyval option"
  kw_clamp_len :: "int option"
  kw_n_layer :: "nat option"
  kw_dropout :: "real option"
  kw_classifier_dropout :: "real option"
  kw_n_head :: "nat option"
  kw_d_head :: "nat option"
  kw_layer_norm_eps :: "real option"
  kw_d_inner :: "nat option"
  kw_ff_activation :: "ff_activation_arg option"
  kw_initializer_range :: "real option"

definition no_kwargs :: XLNetModel_kwargs where
  "no_kwargs =
     \<lparr>kw_mem_len = None, kw_reuse_len = None, kw_d_model = None, kw_same_length = None,
      kw_attn_type = None, kw_bi_data = None, kw_clamp_len = None, kw_n_layer = None,
      kw_dropout = None, kw_classifier_dropout = None, kw_n_head = None, kw_d_head = None,
      kw_layer_norm_eps = None, kw_d_inner = None, kw_ff_activation = None,
      kw_initializer_range = None\<rparr>"

definition arg_or :: "'a option \<Rightarrow> 'a \<Rightarrow> 'a" where
  "arg_or passed dflt = (case passed of None \<Rightarrow> dflt | Some v \<Rightarrow> v)"

definition XLNetModel_init :: "nat \<Rightarrow> XLNetModel_kwargs \<Rightarrow> error + XLNetModel" where
  "XLNetModel_init vocab_size kw =
     (let dm = arg_or (kw_d_model kw) 768;
          nl = arg_or (kw_n_layer kw) 12;
          made = XLNetFeedForward_init dm (arg_or (kw_d_inner kw) 3072)
                   (arg_or (kw_layer_norm_eps kw) (1 / 10 ^ 12))
                   (arg_or (kw_dropout kw) (1 / 10))
                   (arg_or (kw_ff_activation kw) (ActStr ''gelu''))
      in case (if nl = 0 then Inr []
               else if arg_or (kw_d_head kw) 64 = 0
               then Inl (ZeroDivisionError ''float division by zero'')
               else map_sum id (replicate nl) made) of
           Inl e \<Rightarrow> Inl e
         | Inr ffs \<Rightarrow>
             Inr \<lparr>mem_len = kw_mem_len kw,
                  reuse_len = kw_reuse_len kw,
                  d_model = dm,
                  same_length = arg_or (kw_same_length kw) False,
                  attn_type = arg_or (kw_attn_type kw) ''bi'',
                  bi_data = arg_or (kw_bi_data kw) (PyStr ''False''),
                  clamp_len = arg_or (kw_clamp_len kw) (- 1),
                  n_layer = nl,
                  layer_ff = ffs\<rparr>)"

definition pretrained_kwargs ::
  "nat \<Rightarrow> nat \<Rightarrow> nat \<Rightarrow> string \<Rightarrow> nat \<Rightarrow> nat \<Rightarrow> XLNetModel_kwargs" where
  "pretrained_kwargs dh di dm act nh nl =
     \<lparr>kw_mem_len = None, kw_reuse_len = None, kw_d_model = Some dm,
      kw_same_length = Some False, kw_attn_type = Some ''bi'',
      kw_bi_data = Some (PyBool False), kw_clamp_len = Some (- 1), kw_n_layer = Some nl,
      kw_dropout = Some (1 / 10), kw_classifier_dropout = Some (1 / 10),
      kw_n_head = Some nh, kw_d_head = Some dh,
      kw_layer_norm_eps = Some (1 / 10 ^ 12), kw_d_inner = Some di,
      kw_ff_activation = Some (ActStr act),
      kw_initializer_range = Some (2 / 100)\<rparr>"

definition pretrained_init_configuration :: "(string \<times> nat \<times> XLNetModel_kwargs) list" where
  "pretrained_init_configuration =
     [(''xlnet-base-cased'', 32000, pretrained_kwargs 64 3072 768 ''gelu'' 12 12),
      (''xlnet-large-cased'', 32000, pretrained_kwargs 64 4096 1024 ''gelu'' 16 24),
      (''chinese-xlnet-base'', 32000, pretrained_kwargs 64 3072 768 ''relu'' 12 12),
      (''chinese-xlnet-mid'', 32000, pretrained_kwargs 64 3072 768 ''relu'' 12 24),
      (''chinese-xlnet-large'', 32000, pretrained_kwargs 64 4096 1024 ''relu'' 16 24)]"

section \<open>Memory cache\<close>

text \<open>
  \<open>XLNetModel.cache_mem\<close>: keep the first \<open>reuse_len\<close> positions of the current output if
  \<open>reuse_len\<close> is set and positive, append to the previous memory if there is one, and keep
  the slice \<open>[cutoff:]\<close> along axis 0, with \<open>cutoff = 0\<close> if \<open>mem_len\<close> is \<open>None\<close> or
  \<open>0\<close> and \<open>cutoff = -mem_len\<close> otherwise. \<open>detach\<close> does not change the value.
\<close>

definition cache_mem :: "'m XLNetModel_scheme \<Rightarrow> 'a tensor \<Rightarrow> 'a tensor option \<Rightarrow> error + 'a tensor" where
  "cache_mem self curr_out prev_mem =
     bind (case reuse_len self of
             None \<Rightarrow> Inr curr_out
           | Some r \<Rightarrow> if 0 < r then slice_axis 0 None (Some r) curr_out else Inr curr_out)
       (\<lambda>curr_out.
          let cutoff = (case mem_len self of
                          None \<Rightarrow> 0
                        | Some m \<Rightarrow> if m = 0 then 0 else - m)
          in case prev_mem of
               None \<Rightarrow> slice_axis 0 (Some cutoff) None curr_out
             | Some prev \<Rightarrow>
                 bind (concat2 prev curr_out 0) (\<lambda>cat. slice_axis 0 (Some cutoff) None cat))"



section \<open>Positional encoding\<close>

text \<open>
  \<open>XLNetModel.positional_embedding\<close> and \<open>XLNetModel.relative_positional_encoding\<close>.
  With a positive \<open>clamp_len\<close> the source calls the method \<open>clamp\<close> of a tensor, which
  the tensor library does not have (its clipping function is \<open>clip\<close>), so the call raises
  \<open>AttributeError\<close> once the position sequences are built.
\<close>

definition positional_embedding ::
  "real tensor \<Rightarrow> real tensor \<Rightarrow> nat option \<Rightarrow> error + real tensor" where
  "positional_embedding pos_seq inv_freq bsz =
     bind (reshape pos_seq [- 1, 1]) (\<lambda>col.
     bind (reshape inv_freq [1, - 1]) (\<lambda>row.
     bind (matmul col row False) (\<lambda>sinusoid_inp.
     bind (concat2 (tmap sin sinusoid_inp) (tmap cos sinusoid_inp) (- 1)) (\<lambda>pos_emb.
     bind (unsqueeze pos_emb 1) (\<lambda>pos_emb.
       case bsz of
         None \<Rightarrow> Inr pos_emb
       | Some b \<Rightarrow> expand pos_emb [- 1, int b, - 1])))))"

definition relative_positional_encoding ::
  "'m XLNetModel_scheme \<Rightarrow> nat \<Rightarrow> nat \<Rightarrow> nat option \<Rightarrow> error + real tensor" where
  "relative_positional_encoding self qlen klen bsz =
     (let freq_seq = float_vector (arange3 0 (int (d_model self)) 2);
          inv_freq = tmap (\<lambda>f. 1 / (10000 powr (f / real (d_model self)))) freq_seq
      in bind (if attn_type self = ''bi'' then Inr (int klen, - int qlen)
               else if attn_type self = ''uni'' then Inr (int klen, - 1)
               else Inl (ValueError (''Unknown `attn_type` '' @ attn_type self)))
           (\<lambda>(beg, end).
              if truthy (bi_data self)
              then
                let fwd_pos_seq = float_vector (arange3 beg end (- 1));
                    bwd_pos_seq = float_vector (arange3 (- beg) (- end) 1);
                    half = map_option (\<lambda>b. b div 2) bsz
                in if 0 < clamp_len self
                   then Inl (AttributeError ''Tensor object has no attribute clamp'')
                   else
                     bind (positional_embedding fwd_pos_seq inv_freq half) (\<lambda>fwd_pos_emb.
                     bind (positional_embedding bwd_pos_seq inv_freq half) (\<lambda>bwd_pos_emb.
                       concat2 fwd_pos_emb bwd_pos_emb 1))
              else
                let fwd_pos_seq = float_vector (arange3 beg end (- 1))
                in if 0 < clamp_len self
                   then Inl (AttributeError ''Tensor object has no attribute clamp'')
                   else positional_embedding fwd_pos_seq inv_freq bsz))"

section \<open>Encoder stack: inputs and masks\<close>

text \<open>
  The first part of \<open>XLNetModel.forward\<close>, up to the two attention masks, in the order of
  the source: the choice of \<open>use_mems\<close>, the check that exactly one of \<open>input_ids\<close> and
  \<open>inputs_embeds\<close> is given (\<open>forward_inputs\<close>), the transpositions of the optional
  inputs, \<open>mlen\<close> and \<open>klen\<close>, the causal mask (\<open>create_mask\<close>, for \<open>attn_type = "uni"\<close>),
  the data mask from \<open>input_mask\<close>, \<open>attention_mask\<close> and \<open>perm_mask\<close>, the combined
  mask cast to \<open>0\<close> or \<open>1\<close>, and the mask of the content stream (\<open>non_tgt_mask\<close>).
  \<open>forward_prepare\<close> runs them one after the other; \<open>training\<close> is the attribute
  \<open>self.training\<close>.
\<close>

definition create_mask :: "'m XLNetModel_scheme \<Rightarrow> nat \<Rightarrow> nat \<Rightarrow> error + real tensor" where
  "create_mask self qlen mlen =
     (let attn_mask = ones [qlen, qlen];
          mask_up = triu attn_mask 1;
          attn_mask_pad = zeros [qlen, mlen]
      in bind (concat2 attn_mask_pad mask_up 1) (\<lambda>ret.
           if same_length self
           then
             let mask_lo = tril attn_mask (- 1)
             in bind (slice_axis 1 None (Some (int qlen)) ret) (\<lambda>left.
                bind (slice_axis 1 (Some (int qlen)) None ret) (\<lambda>right.
                bind (broadcast_op (+) left mask_lo) (\<lambda>lower.
                  concat2 lower right 1)))
           else Inr ret))"

definition forward_inputs ::
  "int tensor option \<Rightarrow> real tensor option \<Rightarrow>
     error + (int tensor option \<times> real tensor option \<times> nat \<times> nat)" where
  "forward_inputs input_ids inputs_embeds =
     (if input_ids \<noteq> None \<and> inputs_embeds \<noteq> None
      then Inl (ValueError ''You cannot specify both input_ids and inputs_embeds at the same time'')
      else case input_ids of
        Some ids \<Rightarrow>
          bind (transpose_axes ids [1, 0]) (\<lambda>ids'.
            Inr (Some ids', inputs_embeds, shape ids' ! 0, shape ids' ! 1))
      | None \<Rightarrow>
          (case inputs_embeds of
             Some emb \<Rightarrow>
               bind (transpose_axes emb [1, 0]) (\<lambda>emb'.
                 Inr (input_ids, Some emb', shape emb' ! 0, shape emb' ! 1))
           | None \<Rightarrow>
               Inl (ValueError ''You have to specify either input_ids or inputs_embeds'')))"

definition forward_mlen :: "'a tensor option list option \<Rightarrow> error + nat" where
  "forward_mlen mems =
     (case mems of
        None \<Rightarrow> Inr 0
      | Some ms \<Rightarrow>
          (case ms of
             [] \<Rightarrow> Inl (IndexError ''list index out of range'')
           | m0 # _ \<Rightarrow>
               (case m0 of
                  None \<Rightarrow> Inr 0
                | Some t \<Rightarrow>
                    (case shape t of
                       [] \<Rightarrow> Inl (IndexError ''list index out of range'')
                     | d # _ \<Rightarrow> Inr d))))"

definition forward_causal_mask ::
  "'m XLNetModel_scheme \<Rightarrow> nat \<Rightarrow> nat \<Rightarrow> error + real tensor option" where
  "forward_causal_mask self qlen mlen =
     (if attn_type self = ''uni''
      then bind (create_mask self qlen mlen) (\<lambda>attn_mask.
           bind (unsqueeze_axes attn_mask [2, 3]) (\<lambda>attn_mask. Inr (Some attn_mask)))
      else if attn_type self = ''bi'' then Inr None
      else Inl (ValueError (''Unsupported attention type: '' @ attn_type self)))"

definition forward_data_mask ::
  "real tensor option \<Rightarrow> real tensor option \<Rightarrow> real tensor option \<Rightarrow>
     error + real tensor option" where
  "forward_data_mask input_mask attention_mask perm_mask =
     (if \<not> (input_mask = None \<or> attention_mask = None)
      then Inl (AssertionError ''You can only use one of input_mask (uses 1 for padding) '')
      else
        let input_mask = (case (input_mask, attention_mask) of
                            (None, Some am) \<Rightarrow> Some (tmap (\<lambda>v. 1 - v) am)
                          | _ \<Rightarrow> input_mask)
        in case (input_mask, perm_mask) of
             (Some im, Some pm) \<Rightarrow>
               bind (unsqueeze im 0) (\<lambda>im'.
               bind (broadcast_op (+) im' pm) (\<lambda>data_mask. Inr (Some data_mask)))
           | (Some im, None) \<Rightarrow> bind (unsqueeze im 0) (\<lambda>data_mask. Inr (Some data_mask))
           | (None, Some pm) \<Rightarrow> Inr (Some pm)
           | (None, None) \<Rightarrow> Inr None)"

definition forward_attn_mask ::
  "real tensor option \<Rightarrow> real tensor option \<Rightarrow> nat \<Rightarrow> nat \<Rightarrow> error + real tensor option" where
  "forward_attn_mask attn_mask data_mask mlen bsz =
     bind (case data_mask of
             None \<Rightarrow> Inr attn_mask
           | Some dm \<Rightarrow>
               bind (if 0 < mlen
                     then (case shape dm of
                             [] \<Rightarrow> Inl (IndexError ''list index out of range'')
                           | d0 # _ \<Rightarrow> concat2 (zeros [d0, mlen, bsz]) dm 1)
                     else Inr dm) (\<lambda>dm.
               bind (unsqueeze dm (- 1)) (\<lambda>dm4.
                 case attn_mask of
                   None \<Rightarrow> Inr (Some dm4)
                 | Some am \<Rightarrow> bind (broadcast_op (+) am dm4) (\<lambda>am'. Inr (Some am')))))
       (\<lambda>attn_mask. Inr (map_option greater_than_zero attn_mask))"

definition forward_non_tgt_mask ::
  "real tensor option \<Rightarrow> nat \<Rightarrow> nat \<Rightarrow> error + real tensor option" where
  "forward_non_tgt_mask attn_mask qlen mlen =
     (case attn_mask of
        None \<Rightarrow> Inr None
      | Some am \<Rightarrow>
          bind (if 0 < mlen
                then concat2 (zeros [qlen, mlen]) (tmap uminus (eye qlen)) (- 1)
                else Inr (tmap uminus (eye qlen))) (\<lambda>non_tgt_mask.
          bind (unsqueeze_axes non_tgt_mask [2, 3]) (\<lambda>non_tgt_mask.
          bind (broadcast_op (+) am non_tgt_mask) (\<lambda>summed.
            Inr (Some (greater_than_zero summed))))))"

record forward_prepared =
  use_mems :: bool
  fp_input_ids :: "int tensor option"
  fp_inputs_embeds :: "real tensor option"
  fp_qlen :: nat
  fp_bsz :: nat
  fp_token_type_ids :: "int tensor option"
  fp_target_mapping :: "real tensor option"
  fp_mlen :: nat
  fp_klen :: nat
  fp_attn_mask :: "real tensor option"
  fp_non_tgt_mask :: "real tensor option"

definition forward_prepare ::
  "'m XLNetModel_scheme \<Rightarrow> bool \<Rightarrow> int tensor option \<Rightarrow> int tensor option \<Rightarrow>
   real tensor option \<Rightarrow> real tensor option list option \<Rightarrow> real tensor option \<Rightarrow>
   real tensor option \<Rightarrow> real tensor option \<Rightarrow> real tensor option \<Rightarrow> bool \<Rightarrow> bool \<Rightarrow>
   error + forward_prepared" where
  "forward_prepare self training input_ids token_type_ids attention_mask mems perm_mask
       target_mapping input_mask inputs_embeds use_mems_train use_mems_eval =
     (let use_mems_now = (if training then use_mems_train else use_mems_eval)
      in bind (forward_inputs input_ids inputs_embeds) (\<lambda>(input_ids, inputs_embeds, qlen, bsz).
         bind (opt_transpose token_type_ids [1, 0]) (\<lambda>token_type_ids.
         bind (opt_transpose input_mask [1, 0]) (\<lambda>input_mask.
         bind (opt_transpose attention_mask [1, 0]) (\<lambda>attention_mask.
         bind (opt_transpose perm_mask [1, 2, 0]) (\<lambda>perm_mask.
         bind (opt_transpose target_mapping [1, 2, 0]) (\<lambda>target_mapping.
         bind (forward_mlen mems) (\<lambda>mlen.
         bind (forward_causal_mask self qlen mlen) (\<lambda>attn_mask.
         bind (forward_data_mask input_mask attention_mask perm_mask) (\<lambda>data_mask.
         bind (forward_attn_mask attn_mask data_mask mlen bsz) (\<lambda>attn_mask.
         bind (forward_non_tgt_mask attn_mask qlen mlen) (\<lambda>non_tgt_mask.
           Inr \<lparr>use_mems = use_mems_now,
                fp_input_ids = input_ids,
                fp_inputs_embeds = inputs_embeds,
                fp_qlen = qlen,
                fp_bsz = bsz,
                fp_token_type_ids = token_type_ids,
                fp_target_mapping = target_mapping,
                fp_mlen = mlen,
                fp_klen = mlen + qlen,
                fp_attn_mask = attn_mask,
                fp_non_tgt_mask = non_tgt_mask\<rparr>))))))))))))"

section \<open>Basic facts about tensors\<close>

lemma ravel_less:
  "list_all2 (\<lambda>i d. i < d) idx sh \<Longrightarrow> ravel sh idx < numel sh"
proof (induction idx sh rule: list_all2_induct)
  case Nil
  then show ?case by (simp add: numel_def)
next
  case (Cons i idx d sh)
  have "i * numel sh + ravel sh idx < i * numel sh + numel sh"
    using Cons.IH by simp
  also have "\<dots> = Suc i * numel sh" by simp
  also have "\<dots> \<le> d * numel sh"
    using Cons.hyps(1) by (intro mult_le_mono1) simp
  finally show ?case by (simp add: numel_def)
qed

lemma unravel_ravel:
  "list_all2 (\<lambda>i d. i < d) idx sh \<Longrightarrow> unravel sh (ravel sh idx) = idx"
proof (induction idx sh rule: list_all2_induct)
  case Nil
  then show ?case by simp
next
  case (Cons i idx d sh)
  have r: "ravel sh idx < numel sh"
    using Cons.hyps(2) by (rule ravel_less)
  then show ?case using Cons.IH by simp
qed

lemma shape_tabulate [simp]: "shape (tabulate sh f) = sh"
  by (simp add: tabulate_def)

lemma wf_tabulate [simp]: "wf_tensor (tabulate sh f)"
  by (simp add: tabulate_def wf_tensor_def)

lemma tget_tabulate:
  "valid_index sh idx \<Longrightarrow> tget (tabulate sh f) idx = f idx"
  unfolding valid_index_def
  by (simp add: tget_def tabulate_def ravel_less unravel_ravel)


lemma unravel_step:
  "r < numel ds \<Longrightarrow> unravel (d # ds) (i * numel ds + r) = i # unravel ds r"
  by simp

lemma unravel4:
  assumes "c < n" "m < r * s"
  shows "unravel [b, n, r, s] (a * (n * (r * s)) + (c * (r * s) + m)) = [a, c, m div s, m mod s]"
proof -
  have n3: "numel [n, r, s] = n * (r * s)" and n2: "numel [r, s] = r * s"
    by (simp_all add: numel_def)
  have "c * (r * s) + m < c * (r * s) + r * s"
    using assms(2) by simp
  also have "\<dots> = Suc c * (r * s)" by simp
  also have "\<dots> \<le> n * (r * s)"
    using assms(1) by (intro mult_le_mono1) simp
  finally have lt: "c * (r * s) + m < numel [n, r, s]"
    by (simp add: n3)
  have "unravel [b, n, r, s] (a * numel [n, r, s] + (c * numel [r, s] + m))
        = a # unravel [n, r, s] (c * numel [r, s] + m)"
    using lt by (intro unravel_step) (simp add: n2)
  also have "unravel [n, r, s] (c * numel [r, s] + m) = c # unravel [r, s] m"
    using assms(2) by (intro unravel_step) (simp add: n2)
  also have "unravel [r, s] m = [m div s, m mod s]"
    by (simp add: numel_def)
  finally show ?thesis by (simp add: n2 n3)
qed

lemma ravel4:
  "ravel [b, n, r, s] [a, c, i, j] = a * (n * (r * s)) + (c * (r * s) + (i * s + j))"
  by (simp add: numel_def)

lemma data_tabulate_nth:
  "m < numel sh \<Longrightarrow> data (tabulate sh f) ! m = f (unravel sh m)"
  by (simp add: tabulate_def)

lemma reshape4_ok:
  assumes "wf_tensor x" "shape x = [b, n, r, s]" "r * s = r' * s'" "0 < r'" "0 < s'"
  shows "reshape x [int b, int n, int r', int s'] = Inr \<lparr>shape = [b, n, r', s'], data = data x\<rparr>"
proof -
  have len: "int (length (data x)) = int b * (int n * (int r' * int s'))"
    using assms(1,2,3) by (simp add: wf_tensor_def numel_def flip: of_nat_mult)
  have upt4: "[0..<4] = [0, 1, 2, 3::nat]"
    by (simp add: upt_rec)
  show ?thesis
    using assms(4,5) len
    by (simp add: reshape_def Let_def assms(2) upt4)
qed


lemma rel_shift_bnij_Inr:
  assumes wf: "wf_tensor x" and sh: "shape x = [b, n, q, p]"
    and q: "0 < q" and p: "1 < p" and k0: "0 < k" and kp: "k \<le> int p - 1"
  shows "rel_shift_bnij x k =
     Inr (tabulate [b, n, q, nat k]
       (\<lambda>idx. tget \<lparr>shape = [b, n, q, p - 1],
                     data = data (tabulate [b, n, p - 1, q]
                       (\<lambda>idx. tget \<lparr>shape = [b, n, p, q], data = data x\<rparr>
                                  (idx[2 := idx ! 2 + 1])))\<rparr>
                (idx[3 := nat (arange k ! (idx ! 3))])))"
proof -
  let ?x1 = "\<lparr>shape = [b, n, p, q], data = data x\<rparr>"
  let ?x2 = "tabulate [b, n, p - 1, q] (\<lambda>idx. tget ?x1 (idx[2 := idx ! 2 + 1]))"
  let ?x3 = "\<lparr>shape = [b, n, q, p - 1], data = data ?x2\<rparr>"
  have r1: "reshape x [int b, int n, int p, int q] = Inr ?x1"
    using wf sh q p by (intro reshape4_ok [where r = q and s = p]) (simp_all add: mult.commute)
  have r2: "slice_axis 2 (Some 1) None ?x1 = Inr ?x2"
    using p by (simp add: slice_axis_def slice_bound_def Let_def)
  have pm: "int p - 1 = int (p - 1)"
    using p by simp
  have r3: "reshape ?x2 [int b, int n, int q, int p - 1] = Inr ?x3"
    unfolding pm using q p
    by (intro reshape4_ok [where r = "p - 1" and s = q]) (simp_all add: mult.commute)
  have idx_ok: "list_all (\<lambda>i. 0 \<le> i \<and> i < int (p - 1)) (arange k)"
    using kp k0 by (auto simp: arange_def list_all_iff)
  have r4: "index_select ?x3 (arange k) 3 =
      Inr (tabulate [b, n, q, nat k] (\<lambda>idx. tget ?x3 (idx[3 := nat (arange k ! (idx ! 3))])))"
    using idx_ok k0 by (simp add: index_select_def arange_def)
  show ?thesis
    using r1 r2 r3 r4 by (simp add: rel_shift_bnij_def sh bind_def Let_def)
qed

lemma rel_shift_entry:
  assumes q: "0 < q" and p: "1 < p" and k0: "0 < k" and kp: "k \<le> int p - 1"
    and a: "a < b" and c: "c < n" and i: "i < q" and j: "j < nat k"
  shows "tget \<lparr>shape = [b, n, q, p - 1],
                     data = data (tabulate [b, n, p - 1, q]
                       (\<lambda>idx. tget \<lparr>shape = [b, n, p, q], data = (xs :: 'a list)\<rparr>
                                  (idx[2 := idx ! 2 + 1])))\<rparr>
                [a, c, i, j]
         = xs ! (a * (n * (q * p)) + (c * (q * p) + (q + i * (p - 1) + j)))"
proof -
  let ?m = "i * (p - 1) + j"
  have jp: "j < p - 1" using j kp k0 by linarith
  have "?m < i * (p - 1) + (p - 1)" using jp by simp
  also have "\<dots> = Suc i * (p - 1)" by simp
  also have "\<dots> \<le> q * (p - 1)" using i by (intro mult_le_mono1) simp
  finally have m: "?m < (p - 1) * q" by (simp add: mult.commute)
  have rav: "ravel [b, n, q, p - 1] [a, c, i, j]
      = a * (n * ((p - 1) * q)) + (c * ((p - 1) * q) + ?m)"
    by (simp only: ravel4) (simp add: mult.commute)
  have un: "unravel [b, n, p - 1, q] (a * (n * ((p - 1) * q)) + (c * ((p - 1) * q) + ?m))
      = [a, c, ?m div q, ?m mod q]"
    using c m by (rule unravel4)
  have "c * ((p - 1) * q) + ?m < c * ((p - 1) * q) + (p - 1) * q" using m by simp
  also have "\<dots> = Suc c * ((p - 1) * q)" by simp
  also have "\<dots> \<le> n * ((p - 1) * q)" using c by (intro mult_le_mono1) simp
  finally have cm: "c * ((p - 1) * q) + ?m < n * ((p - 1) * q)" .
  have "a * (n * ((p - 1) * q)) + (c * ((p - 1) * q) + ?m)
        < a * (n * ((p - 1) * q)) + n * ((p - 1) * q)" using cm by simp
  also have "\<dots> = Suc a * (n * ((p - 1) * q))" by simp
  also have "\<dots> \<le> b * (n * ((p - 1) * q))" using a by (intro mult_le_mono1) simp
  finally have lt: "a * (n * ((p - 1) * q)) + (c * ((p - 1) * q) + ?m) < numel [b, n, p - 1, q]"
    by (simp add: numel_def)
  have dm: "(?m div q + 1) * q + ?m mod q = q + ?m"
    by (simp add: algebra_simps)
  have pq: "p * q = q * p" by (rule mult.commute)
  have e1: "[a, c, ?m div q, ?m mod q][2 := [a, c, ?m div q, ?m mod q] ! 2 + 1]
      = [a, c, ?m div q + 1, ?m mod q]"
    by simp
  have e2: "tget \<lparr>shape = [b, n, p, q], data = xs\<rparr> [a, c, ?m div q + 1, ?m mod q]
      = xs ! (a * (n * (q * p)) + (c * (q * p) + (q + ?m)))"
    by (simp only: tget_def tensor.simps ravel4 dm pq)
  have "tget \<lparr>shape = [b, n, q, p - 1],
                data = data (tabulate [b, n, p - 1, q]
                  (\<lambda>idx. tget \<lparr>shape = [b, n, p, q], data = xs\<rparr> (idx[2 := idx ! 2 + 1])))\<rparr>
             [a, c, i, j]
        = data (tabulate [b, n, p - 1, q]
                  (\<lambda>idx. tget \<lparr>shape = [b, n, p, q], data = xs\<rparr> (idx[2 := idx ! 2 + 1])))
            ! (a * (n * ((p - 1) * q)) + (c * ((p - 1) * q) + ?m))"
    by (simp only: tget_def tensor.simps rav)
  also have "\<dots> = tget \<lparr>shape = [b, n, p, q], data = xs\<rparr>
                      ([a, c, ?m div q, ?m mod q][2 := [a, c, ?m div q, ?m mod q] ! 2 + 1])"
    by (simp only: data_tabulate_nth [OF lt] un)
  also have "\<dots> = xs ! (a * (n * (q * p)) + (c * (q * p) + (q + ?m)))"
    by (simp only: e1 e2)
  finally show ?thesis
    by (simp only: add.assoc)
qed

section \<open>Relative shift: what it computes\<close>

lemma rel_shift_bnij_entries:
  assumes "wf_tensor x" and "shape x = [b, n, q, p]"
    and "0 < q" and "1 < p" and "0 < k" and "k \<le> int p - 1"
  shows "\<exists>y. rel_shift_bnij x k = Inr y \<and> shape y = [b, n, q, nat k] \<and> wf_tensor y \<and>
    (\<forall>a<b. \<forall>c<n. \<forall>i<q. \<forall>j<nat k.
       tget y [a, c, i, j] = data x ! (ravel [b, n, q, p] [a, c, 0, 0] + (q + i * (p - 1) + j))
       \<and> (q - i + j < p \<longrightarrow> tget y [a, c, i, j] = tget x [a, c, i, q - i + j]))"
proof -
  let ?g = "\<lambda>idx. tget \<lparr>shape = [b, n, q, p - 1],
                     data = data (tabulate [b, n, p - 1, q]
                       (\<lambda>idx. tget \<lparr>shape = [b, n, p, q], data = data x\<rparr>
                                  (idx[2 := idx ! 2 + 1])))\<rparr>
                (idx[3 := nat (arange k ! (idx ! 3))])"
  let ?y = "tabulate [b, n, q, nat k] ?g"
  have res: "rel_shift_bnij x k = Inr ?y"
    using assms by (rule rel_shift_bnij_Inr)
  have entry: "tget ?y [a, c, i, j]
      = data x ! (ravel [b, n, q, p] [a, c, 0, 0] + (q + i * (p - 1) + j))"
    if "a < b" "c < n" "i < q" "j < nat k" for a c i j
  proof -
    have v: "valid_index [b, n, q, nat k] [a, c, i, j]"
      using that by (simp add: valid_index_def)
    have ar: "nat (arange k ! j) = j"
      using that(4) by (simp add: arange_def)
    have "tget ?y [a, c, i, j] = ?g [a, c, i, j]"
      using v by (rule tget_tabulate)
    also have "\<dots> = tget \<lparr>shape = [b, n, q, p - 1],
                     data = data (tabulate [b, n, p - 1, q]
                       (\<lambda>idx. tget \<lparr>shape = [b, n, p, q], data = data x\<rparr>
                                  (idx[2 := idx ! 2 + 1])))\<rparr> [a, c, i, j]"
      by (simp add: ar)
    also have "\<dots> = data x ! (a * (n * (q * p)) + (c * (q * p) + (q + i * (p - 1) + j)))"
      using assms(3-6) that by (rule rel_shift_entry)
    also have "a * (n * (q * p)) + (c * (q * p) + (q + i * (p - 1) + j))
        = ravel [b, n, q, p] [a, c, 0, 0] + (q + i * (p - 1) + j)"
      unfolding ravel4 by simp
    finally show ?thesis .
  qed
  have inrow: "tget ?y [a, c, i, j] = tget x [a, c, i, q - i + j]"
    if "a < b" "c < n" "i < q" "j < nat k" "q - i + j < p" for a c i j
  proof -
    have "i * p = i * (p - 1) + i"
      using assms(4) by (cases p) simp_all
    then have "i * p + (q - i + j) = q + i * (p - 1) + j"
      using that(3) by simp
    then have "ravel [b, n, q, p] [a, c, i, q - i + j]
        = ravel [b, n, q, p] [a, c, 0, 0] + (q + i * (p - 1) + j)"
      unfolding ravel4 by simp
    moreover have "tget x [a, c, i, q - i + j] = data x ! ravel [b, n, q, p] [a, c, i, q - i + j]"
      by (simp only: tget_def assms(2))
    ultimately show ?thesis
      using entry [OF that(1-4)] by (simp only:)
  qed
  show ?thesis
    using res entry inrow by (intro exI [of _ ?y]) simp
qed

text \<open>
  Claim C1, as amended. For an input of shape \<open>[b, n, q, p]\<close> with \<open>q \<ge> 1\<close>, \<open>p \<ge> 2\<close>
  and \<open>1 \<le> k \<le> p - 1\<close>, \<open>rel_shift_bnij\<close> returns a tensor of shape \<open>[b, n, q, k]\<close>.
  Its entry \<open>(a, c, i, j)\<close> is the entry of the input at offset \<open>q + i (p - 1) + j\<close>
  of the block \<open>(a, c)\<close> in row-major order: the input is reshaped, not transposed.
  Where \<open>q - i + j < p\<close> this is the entry \<open>q - i + j\<close> of row \<open>i\<close>, so row \<open>i\<close> is
  shifted left by \<open>q - i\<close> positions (not by \<open>i\<close>) before it is cut to \<open>k\<close> entries.
\<close>

theorem rel_shift_bnij_shifts_rows:
  assumes "wf_tensor x" and "shape x = [b, n, q, p]"
    and "0 < q" and "1 < p" and "0 < k" and "k \<le> int p - 1"
  shows "\<exists>y. rel_shift_bnij x k = Inr y \<and> shape y = [b, n, q, nat k] \<and> wf_tensor y \<and>
    (\<forall>a<b. \<forall>c<n. \<forall>i<q. \<forall>j<nat k.
       tget y [a, c, i, j] = data x ! (ravel [b, n, q, p] [a, c, 0, 0] + (q + i * (p - 1) + j))
       \<and> (q - i + j < p \<longrightarrow> tget y [a, c, i, j] = tget x [a, c, i, q - i + j]))"
  using assms by (rule rel_shift_bnij_entries)

theorem rel_shift_bnij_shifts_rows_witness:
  "\<exists>y. rel_shift_bnij \<lparr>shape = [1, 1, 2, 4], data = [10, 11, 12, 13, 20, 21, 22, 23::int]\<rparr> 3 = Inr y
       \<and> shape y = [1, 1, 2, 3]
       \<and> tget y [0, 0, 0, 0] = 12 \<and> tget y [0, 0, 0, 1] = 13 \<and> tget y [0, 0, 0, 2] = 20
       \<and> tget y [0, 0, 1, 0] = 21 \<and> tget y [0, 0, 1, 1] = 22 \<and> tget y [0, 0, 1, 2] = 23"
proof -
  let ?x = "\<lparr>shape = [1, 1, 2, 4], data = [10, 11, 12, 13, 20, 21, 22, 23::int]\<rparr>"
  have wf: "wf_tensor ?x"
    by (simp add: wf_tensor_def numel_def)
  obtain y where y: "rel_shift_bnij ?x 3 = Inr y" "shape y = [1, 1, 2, nat 3]"
    and e: "\<forall>a<1. \<forall>c<1. \<forall>i<2. \<forall>j<nat 3.
       tget y [a, c, i, j] = data ?x ! (ravel [1, 1, 2, 4] [a, c, 0, 0] + (2 + i * (4 - 1) + j))
       \<and> (2 - i + j < 4 \<longrightarrow> tget y [a, c, i, j] = tget ?x [a, c, i, 2 - i + j])"
    using rel_shift_bnij_shifts_rows [of ?x 1 1 2 4 3, OF wf] by auto
  have "tget y [0, 0, i, j] = data ?x ! (2 + i * 3 + j)" if "i < 2" "j < 3" for i j
    using e that by (simp add: numel_def)
  then have "tget y [0, 0, 0, 0] = 12" "tget y [0, 0, 0, 1] = 13" "tget y [0, 0, 0, 2] = 20"
    "tget y [0, 0, 1, 0] = 21" "tget y [0, 0, 1, 1] = 22" "tget y [0, 0, 1, 2] = 23"
    by simp_all
  with y show ?thesis by simp
qed

text \<open>
  The claim as it is written fails on the input of shape \<open>[1, 1, 2, 4]\<close> with rows
  \<open>[10, 11, 12, 13]\<close> and \<open>[20, 21, 22, 23]\<close>: with \<open>k = 3\<close> row \<open>0\<close> of the result is
  \<open>[12, 13, 20]\<close>, not row \<open>0\<close> shifted by \<open>0\<close> positions, and with \<open>k = p = 4\<close> the
  index selection raises.
\<close>

theorem rel_shift_bnij_counterexample:
  "rel_shift_bnij \<lparr>shape = [1, 1, 2, 4], data = [10, 11, 12, 13, 20, 21, 22, 23::int]\<rparr> 3
     = Inr \<lparr>shape = [1, 1, 2, 3], data = [12, 13, 20, 21, 22, 23]\<rparr>
   \<and> row_of \<lparr>shape = [1, 1, 2, 3], data = [12, 13, 20, 21, 22, 23::int]\<rparr> 0 0 0 = [12, 13, 20]
   \<and> shifted_left_by_row_index_spec
        \<lparr>shape = [1, 1, 2, 4], data = [10, 11, 12, 13, 20, 21, 22, 23::int]\<rparr> 0 3 = [10, 11, 12]
   \<and> rel_shift_bnij \<lparr>shape = [1, 1, 2, 4], data = [10, 11, 12, 13, 20, 21, 22, 23::int]\<rparr> 4
     = Inl (IndexError ''index out of range'')"
  by code_simp

section \<open>Feed-forward construction\<close>

lemma map_of_ACT2FN_None:
  "s \<notin> supported_activations \<Longrightarrow> map_of ACT2FN s = None"
  by (simp add: ACT2FN_def supported_activations_def)

lemma map_of_ACT2FN_Some:
  "map_of ACT2FN ''relu'' = Some F_relu"
  "map_of ACT2FN ''gelu'' = Some F_gelu"
  "map_of ACT2FN ''tanh'' = Some F_tanh"
  "map_of ACT2FN ''sigmoid'' = Some F_sigmoid"
  "map_of ACT2FN ''mish'' = Some Fn_mish"
  "map_of ACT2FN ''linear'' = Some Fn_linear_act"
  "map_of ACT2FN ''swish'' = Some Fn_swish"
  by (simp_all add: ACT2FN_def)

text \<open>
  Claim C9. Constructing \<open>XLNetFeedForward\<close> with a name outside
  \<open>{relu, gelu, tanh, sigmoid, mish, linear, swish}\<close> raises \<open>KeyError\<close> during
  construction; each of the seven names is resolved to its function, and each of those
  functions acts on one tensor entry at a time (the module's own \<open>mish\<close>, \<open>linear_act\<close>
  and \<open>swish\<close> by the formulas of the source).
\<close>

theorem XLNetFeedForward_init_activation:
  "(\<forall>s. s \<notin> supported_activations \<longrightarrow>
        XLNetFeedForward_init dm di eps dr (ActStr s) = Inl (KeyError s))
   \<and> (\<forall>s \<in> supported_activations. \<not> is_error (XLNetFeedForward_init dm di eps dr (ActStr s)))
   \<and> map (\<lambda>s. case XLNetFeedForward_init dm di eps dr (ActStr s) of
                 Inr ff \<Rightarrow> Some (activation_function ff) | Inl _ \<Rightarrow> None)
        [''relu'', ''gelu'', ''tanh'', ''sigmoid'', ''mish'', ''linear'', ''swish'']
      = [Some F_relu, Some F_gelu, Some F_tanh, Some F_sigmoid,
         Some Fn_mish, Some Fn_linear_act, Some Fn_swish]
   \<and> call_act gelu F_relu x = max 0 x
   \<and> call_act gelu F_gelu x = gelu x
   \<and> call_act gelu F_tanh x = tanh x
   \<and> call_act gelu F_sigmoid x = 1 / (1 + exp (- x))
   \<and> call_act gelu Fn_mish x = x * tanh (ln (1 + exp x))
   \<and> call_act gelu Fn_linear_act x = x
   \<and> call_act gelu Fn_swish x = x * (1 / (1 + exp (- x)))"
proof -
  have unsupported: "\<forall>s. s \<notin> supported_activations \<longrightarrow>
        XLNetFeedForward_init dm di eps dr (ActStr s) = Inl (KeyError s)"
    by (simp add: XLNetFeedForward_init_def map_of_ACT2FN_None)
  have each: "map (\<lambda>s. case XLNetFeedForward_init dm di eps dr (ActStr s) of
                 Inr ff \<Rightarrow> Some (activation_function ff) | Inl _ \<Rightarrow> None)
        [''relu'', ''gelu'', ''tanh'', ''sigmoid'', ''mish'', ''linear'', ''swish'']
      = [Some F_relu, Some F_gelu, Some F_tanh, Some F_sigmoid,
         Some Fn_mish, Some Fn_linear_act, Some Fn_swish]"
    by (simp add: XLNetFeedForward_init_def map_of_ACT2FN_Some)
  have supported: "\<forall>s \<in> supported_activations.
        \<not> is_error (XLNetFeedForward_init dm di eps dr (ActStr s))"
    by (simp add: supported_activations_def XLNetFeedForward_init_def
        map_of_ACT2FN_Some is_error_def)
  have sem: "call_act gelu F_relu x = max 0 x"
    "call_act gelu F_gelu x = gelu x"
    "call_act gelu F_tanh x = tanh x"
    "call_act gelu F_sigmoid x = 1 / (1 + exp (- x))"
    "call_act gelu Fn_mish x = x * tanh (ln (1 + exp x))"
    "call_act gelu Fn_linear_act x = x"
    "call_act gelu Fn_swish x = x * (1 / (1 + exp (- x)))"
    by (simp_all add: mish_def softplus_def sigmoid_def linear_act_def swish_def)
  from unsupported supported each sem show ?thesis
    by blast
qed

theorem XLNetFeedForward_init_activation_witness:
  "''elu'' \<notin> supported_activations
   \<and> XLNetFeedForward_init 8 32 0 0 (ActStr ''elu'') = Inl (KeyError ''elu'')
   \<and> ''mish'' \<in> supported_activations
   \<and> \<not> is_error (XLNetFeedForward_init 8 32 0 0 (ActStr ''mish''))"
proof -
  have a: "''elu'' \<notin> supported_activations"
    by (simp add: supported_activations_def)
  have b: "''mish'' \<in> supported_activations"
    by (simp add: supported_activations_def)
  from XLNetFeedForward_init_activation [of 8 32 0 0] a b show ?thesis
    by blast
qed

section \<open>Memory cache: the trailing window\<close>

lemma valid_index_Cons [simp]:
  "valid_index (d # ds) (i # is) \<longleftrightarrow> i < d \<and> valid_index ds is"
  by (simp add: valid_index_def)

lemma valid_index_Nil [simp]: "valid_index [] []"
  by (simp add: valid_index_def)

lemma slice_axis0_to:
  assumes "shape x = s # rest" and "0 < r"
  shows "\<exists>y. slice_axis 0 None (Some r) x = Inr y \<and> shape y = min (nat r) s # rest \<and>
    (\<forall>i<min (nat r) s. \<forall>ix. valid_index rest ix \<longrightarrow> tget y (i # ix) = tget x (i # ix))"
  using assms
  by (simp add: slice_axis_def slice_bound_def tget_tabulate)

lemma slice_axis0_from:
  assumes "shape x = s # rest" and "c \<le> 0"
    and "keep = (if c = 0 then s else min (nat (- c)) s)"
  shows "\<exists>y. slice_axis 0 (Some c) None x = Inr y \<and> shape y = keep # rest \<and>
    (\<forall>i<keep. \<forall>ix. valid_index rest ix \<longrightarrow> tget y (i # ix) = tget x ((s - keep + i) # ix))"
proof -
  let ?lo = "slice_bound c s"
  have lo: "?lo = s - keep" and k: "s - ?lo = keep"
    using assms(2,3) by (auto simp: slice_bound_def)
  have "slice_axis 0 (Some c) None x
      = Inr (tabulate (keep # rest) (\<lambda>idx. tget x (idx[0 := idx ! 0 + ?lo])))"
    using assms(1) k by (simp add: slice_axis_def)
  then show ?thesis
    using lo by (simp add: tget_tabulate add.commute)
qed

lemma concat2_axis0:
  assumes "shape x = a # rest" and "shape y = b # rest"
  shows "\<exists>z. concat2 x y 0 = Inr z \<and> shape z = (a + b) # rest \<and>
    (\<forall>i<a + b. \<forall>ix. valid_index rest ix \<longrightarrow>
       tget z (i # ix) = (if i < a then tget x (i # ix) else tget y ((i - a) # ix)))"
  using assms
  by (simp add: concat2_def norm_axis_def tget_tabulate)

text \<open>
  Claim C4. Let the current output have \<open>cs\<close> positions and the previous memory \<open>ps\<close>
  positions (\<open>0\<close> if there is none), and let \<open>e\<close> be the number of eligible positions of the
  current output: the first \<open>reuse_len\<close> if \<open>reuse_len\<close> is set (and positive), all of them
  otherwise. With \<open>mem_len\<close> set to a positive value \<open>cache_mem\<close> returns the last
  \<open>min mem_len (ps + e)\<close> positions of the previous memory followed by the eligible current
  output, so at most \<open>mem_len\<close> positions; with \<open>mem_len\<close> unset or zero it returns all
  \<open>ps + e\<close> positions.
\<close>

theorem cache_mem_keeps_trailing:
  assumes sh: "shape curr_out = cs # rest"
    and pv: "case prev_mem of None \<Rightarrow> ps = 0 | Some prev \<Rightarrow> shape prev = ps # rest"
    and ml: "case mem_len self of None \<Rightarrow> True | Some m \<Rightarrow> 0 \<le> m"
    and e: "e = (case reuse_len self of
                   None \<Rightarrow> cs
                 | Some r \<Rightarrow> if 0 < r then min (nat r) cs else cs)"
    and keep: "keep = (case mem_len self of
                   None \<Rightarrow> ps + e
                 | Some m \<Rightarrow> if m = 0 then ps + e else min (nat m) (ps + e))"
  shows "\<exists>new_mem. cache_mem self curr_out prev_mem = Inr new_mem
      \<and> shape new_mem = keep # rest
      \<and> (case mem_len self of None \<Rightarrow> True | Some m \<Rightarrow> m = 0 \<or> keep \<le> nat m)
      \<and> (\<forall>i<keep. \<forall>ix. valid_index rest ix \<longrightarrow>
            tget new_mem (i # ix) =
              (let t = ps + e - keep + i
               in case prev_mem of
                    None \<Rightarrow> tget curr_out (t # ix)
                  | Some prev \<Rightarrow> if t < ps then tget prev (t # ix)
                                else tget curr_out ((t - ps) # ix)))"
proof -
  define cutoff where "cutoff = (case mem_len self of
                          None \<Rightarrow> 0
                        | Some m \<Rightarrow> if m = 0 then 0 else - m)"
  have c0: "cutoff \<le> 0"
    using ml by (auto simp: cutoff_def split: option.splits)
  have keep': "keep = (if cutoff = 0 then ps + e else min (nat (- cutoff)) (ps + e))"
    using ml by (auto simp: keep cutoff_def split: option.splits)
  obtain el where el: "(case reuse_len self of
             None \<Rightarrow> Inr curr_out
           | Some r \<Rightarrow> if 0 < r then slice_axis 0 None (Some r) curr_out else Inr curr_out) = Inr el"
    and el_sh: "shape el = e # rest"
    and el_get: "\<forall>i<e. \<forall>ix. valid_index rest ix \<longrightarrow> tget el (i # ix) = tget curr_out (i # ix)"
  proof (cases "reuse_len self")
    case None
    then show ?thesis using that [of curr_out] sh e by simp
  next
    case (Some r)
    show ?thesis
    proof (cases "0 < r")
      case True
      from slice_axis0_to [OF sh True] obtain y where
        "slice_axis 0 None (Some r) curr_out = Inr y" "shape y = min (nat r) cs # rest"
        "\<forall>i<min (nat r) cs. \<forall>ix. valid_index rest ix \<longrightarrow> tget y (i # ix) = tget curr_out (i # ix)"
        by blast
      then show ?thesis using that [of y] Some True e by simp
    next
      case False
      then show ?thesis using that [of curr_out] Some sh e by simp
    qed
  qed
  have bound: "case mem_len self of None \<Rightarrow> True | Some m \<Rightarrow> m = 0 \<or> keep \<le> nat m"
    by (auto simp: keep split: option.splits)
  show ?thesis
  proof (cases prev_mem)
    case None
    then have ps: "ps = 0" using pv by simp
    have keep0: "keep = (if cutoff = 0 then e else min (nat (- cutoff)) e)"
      using keep' ps by simp
    from slice_axis0_from [OF el_sh c0 keep0] obtain y where
      y: "slice_axis 0 (Some cutoff) None el = Inr y" "shape y = keep # rest"
      "\<forall>i<keep. \<forall>ix. valid_index rest ix \<longrightarrow> tget y (i # ix) = tget el ((e - keep + i) # ix)"
      by blast
    have kle: "keep \<le> e" using keep' ps by (simp split: if_splits)
    have "cache_mem self curr_out prev_mem = Inr y"
      using el y(1) None by (simp add: cache_mem_def bind_def cutoff_def)
    moreover have "tget y (i # ix) = tget curr_out ((ps + e - keep + i) # ix)"
      if "i < keep" "valid_index rest ix" for i ix
    proof -
      have "e - keep + i < e" using that(1) kle by simp
      then show ?thesis using y(3) el_get that ps by simp
    qed
    ultimately show ?thesis
      using y(2) bound None by (intro exI [of _ y]) (simp add: Let_def)
  next
    case (Some prev)
    then have psh: "shape prev = ps # rest" using pv by simp
    from concat2_axis0 [OF psh el_sh] obtain cat where
      cat: "concat2 prev el 0 = Inr cat" "shape cat = (ps + e) # rest"
      "\<forall>i<ps + e. \<forall>ix. valid_index rest ix \<longrightarrow>
         tget cat (i # ix) = (if i < ps then tget prev (i # ix) else tget el ((i - ps) # ix))"
      by blast
    from slice_axis0_from [OF cat(2) c0 keep'] obtain y where
      y: "slice_axis 0 (Some cutoff) None cat = Inr y" "shape y = keep # rest"
      "\<forall>i<keep. \<forall>ix. valid_index rest ix \<longrightarrow> tget y (i # ix) = tget cat ((ps + e - keep + i) # ix)"
      by blast
    have kle: "keep \<le> ps + e" using keep' by (simp split: if_splits)
    have "cache_mem self curr_out prev_mem = Inr y"
      using el cat(1) y(1) Some by (simp add: cache_mem_def bind_def cutoff_def)
    moreover have "tget y (i # ix) =
        (if ps + e - keep + i < ps then tget prev ((ps + e - keep + i) # ix)
         else tget curr_out ((ps + e - keep + i - ps) # ix))"
      if "i < keep" "valid_index rest ix" for i ix
    proof -
      have lt: "ps + e - keep + i < ps + e" using that(1) kle by simp
      then have "ps + e - keep + i - ps < e" if "\<not> ps + e - keep + i < ps"
        using that by simp
      then show ?thesis using y(3) cat(3) el_get that lt by simp
    qed
    ultimately show ?thesis
      using y(2) bound Some by (intro exI [of _ y]) (simp add: Let_def)
  qed
qed



theorem cache_mem_keeps_trailing_witness:
  "\<exists>new_mem.
     cache_mem \<lparr>mem_len = Some 3, reuse_len = None, d_model = 1, same_length = False,
                attn_type = ''bi'', bi_data = PyBool False, clamp_len = - 1, n_layer = 1,
                layer_ff = []\<rparr>
       \<lparr>shape = [2, 1, 1], data = [5, 6::int]\<rparr>
       (Some \<lparr>shape = [3, 1, 1], data = [2, 3, 4]\<rparr>) = Inr new_mem
     \<and> shape new_mem = [3, 1, 1]
     \<and> tget new_mem [0, 0, 0] = 4 \<and> tget new_mem [1, 0, 0] = 5 \<and> tget new_mem [2, 0, 0] = 6"
proof -
  let ?self = "\<lparr>mem_len = Some 3, reuse_len = None, d_model = 1, same_length = False,
                attn_type = ''bi'', bi_data = PyBool False, clamp_len = - 1, n_layer = 1,
                layer_ff = []\<rparr>"
  let ?cur = "\<lparr>shape = [2, 1, 1], data = [5, 6::int]\<rparr>"
  let ?prev = "\<lparr>shape = [3, 1, 1], data = [2, 3, 4::int]\<rparr>"
  have sh: "shape ?cur = 2 # [1, 1]" by simp
  have pv: "case Some ?prev of None \<Rightarrow> (3::nat) = 0 | Some prev \<Rightarrow> shape prev = 3 # [1, 1]"
    by simp
  have ml: "case mem_len ?self of None \<Rightarrow> True | Some m \<Rightarrow> 0 \<le> m" by simp
  have e: "(2::nat) = (case reuse_len ?self of None \<Rightarrow> 2
                 | Some r \<Rightarrow> if 0 < r then min (nat r) 2 else 2)"
    by simp
  have keep: "(3::nat) = (case mem_len ?self of None \<Rightarrow> 3 + 2
                 | Some m \<Rightarrow> if m = 0 then 3 + 2 else min (nat m) (3 + 2))"
    by simp
  from cache_mem_keeps_trailing [OF sh pv ml e keep]
  obtain new_mem where r: "cache_mem ?self ?cur (Some ?prev) = Inr new_mem"
    "shape new_mem = 3 # [1, 1]"
    and g: "\<forall>i<3. \<forall>ix. valid_index [1, 1] ix \<longrightarrow>
            tget new_mem (i # ix) =
              (let t = 3 + 2 - 3 + i
               in case Some ?prev of
                    None \<Rightarrow> tget ?cur (t # ix)
                  | Some prev \<Rightarrow> if t < 3 then tget prev (t # ix)
                                else tget ?cur ((t - 3) # ix))"
    by blast
  have v: "valid_index [1, 1] [0, 0]" by simp
  from g [rule_format, of 0, OF _ v] g [rule_format, of 1, OF _ v] g [rule_format, of 2, OF _ v]
  have "tget new_mem [0, 0, 0] = 4" "tget new_mem [1, 0, 0] = 5" "tget new_mem [2, 0, 0] = 6"
    by (simp_all add: tget_def numel_def)
  with r show ?thesis by simp
qed

text \<open>The example of the specification: three outputs of length 2 with \<open>mem_len = 3\<close>.\<close>

lemma cache_mem_three_feeds:
  "cache_mem \<lparr>mem_len = Some 3, reuse_len = None, d_model = 1, same_length = False,
                attn_type = ''bi'', bi_data = PyBool False, clamp_len = - 1, n_layer = 1,
                layer_ff = []\<rparr>
       \<lparr>shape = [2, 1, 1], data = [1, 2::int]\<rparr> None
     = Inr \<lparr>shape = [2, 1, 1], data = [1, 2]\<rparr>"
  "cache_mem \<lparr>mem_len = Some 3, reuse_len = None, d_model = 1, same_length = False,
                attn_type = ''bi'', bi_data = PyBool False, clamp_len = - 1, n_layer = 1,
                layer_ff = []\<rparr>
       \<lparr>shape = [2, 1, 1], data = [3, 4::int]\<rparr> (Some \<lparr>shape = [2, 1, 1], data = [1, 2]\<rparr>)
     = Inr \<lparr>shape = [3, 1, 1], data = [2, 3, 4]\<rparr>"
  "cache_mem \<lparr>mem_len = Some 3, reuse_len = None, d_model = 1, same_length = False,
                attn_type = ''bi'', bi_data = PyBool False, clamp_len = - 1, n_layer = 1,
                layer_ff = []\<rparr>
       \<lparr>shape = [2, 1, 1], data = [5, 6::int]\<rparr> (Some \<lparr>shape = [3, 1, 1], data = [2, 3, 4]\<rparr>)
     = Inr \<lparr>shape = [3, 1, 1], data = [4, 5, 6]\<rparr>"
  by code_simp+

section \<open>Positional encoding: range and values\<close>

lemma wf_tensor_vec: "wf_tensor x \<Longrightarrow> shape x = [n] \<Longrightarrow> length (data x) = n"
  by (simp add: wf_tensor_def numel_def)

lemma upt2: "[0..<2] = [0, 1::nat]"
  by (simp add: upt_rec)

lemma reshape_column:
  assumes "wf_tensor x" "shape x = [n]"
  shows "reshape x [- 1, 1] = Inr \<lparr>shape = [n, 1], data = data x\<rparr>"
  using wf_tensor_vec [OF assms]
  by (simp add: reshape_def Let_def upt2)

lemma reshape_row:
  assumes "wf_tensor x" "shape x = [n]"
  shows "reshape x [1, - 1] = Inr \<lparr>shape = [1, n], data = data x\<rparr>"
  using wf_tensor_vec [OF assms]
  by (simp add: reshape_def Let_def upt2)

lemma matmul_outer:
  "matmul \<lparr>shape = [n, 1], data = xs\<rparr> \<lparr>shape = [1, m], data = ys\<rparr> False
     = Inr (tabulate [n, m] (\<lambda>idx. xs ! (idx ! 0) * ys ! (idx ! 1)))"
  by (simp add: matmul_def Let_def broadcast_shapes_def bindex_def tget_def numel_def)


lemma tget_tmap:
  "valid_index (shape x) idx \<Longrightarrow> tget (tmap f x) idx = f (tget x idx)"
  by (simp add: tmap_def tget_tabulate)

lemma shape_tmap [simp]: "shape (tmap f x) = shape x"
  by (simp add: tmap_def)

lemma wf_tmap [simp]: "wf_tensor (tmap f x)"
  by (simp add: tmap_def)


lemma matmul_outer_entries:
  assumes "shape x = [n, 1]" "shape y = [1, m]"
  shows "\<exists>z. matmul x y False = Inr z \<and> shape z = [n, m] \<and>
     (\<forall>i<n. \<forall>d<m. tget z [i, d] = tget x [i, 0] * tget y [0, d])"
  using assms
  by (simp add: matmul_def Let_def broadcast_shapes_def bindex_def tget_tabulate)

lemma concat2_last_2d:
  assumes "shape x = [n, a]" "shape y = [n, b]"
  shows "\<exists>z. concat2 x y (- 1) = Inr z \<and> shape z = [n, a + b] \<and>
     (\<forall>i<n. (\<forall>d<a. tget z [i, d] = tget x [i, d]) \<and> (\<forall>d<b. tget z [i, a + d] = tget y [i, d]))"
  using assms
  by (simp add: concat2_def norm_axis_def tget_tabulate)

lemma unsqueeze1_2d:
  assumes "shape x = [n, c]"
  shows "\<exists>z. unsqueeze x 1 = Inr z \<and> shape z = [n, 1, c] \<and>
     (\<forall>i d. tget z [i, 0, d] = tget x [i, d])"
  using assms
  by (simp add: unsqueeze_def norm_axis_def tget_def numel_def)

lemma expand_middle:
  assumes "shape x = [n, 1, c]" and "0 < b"
  shows "\<exists>z. expand x [- 1, int b, - 1] = Inr z \<and> shape z = [n, b, c] \<and>
     (\<forall>i<n. \<forall>bb<b. \<forall>d<c. tget z [i, bb, d] = tget x [i, 0, d])"
proof -
  have bi: "bindex [n, Suc 0, c] [i, bb, d] = [i, 0, d]" if "i < n" "d < c" for i bb d
    using that by (auto simp: bindex_def)
  show ?thesis
    using assms by (simp add: expand_def Let_def tget_tabulate bi)
qed

lemma expand_middle_zero:
  assumes "shape x = [n, 1, c]"
  shows "expand x [- 1, 0, - 1] = Inl (ShapeError ''invalid expand shape'')"
  using assms by (simp add: expand_def Let_def)

lemma positional_embedding_steps:
  assumes wfp: "wf_tensor pos_seq" and shp: "shape pos_seq = [n]"
    and wff: "wf_tensor inv_freq" and shf: "shape inv_freq = [m]"
  shows "\<exists>un. positional_embedding pos_seq inv_freq bsz =
        (case bsz of None \<Rightarrow> Inr un | Some b \<Rightarrow> expand un [- 1, int b, - 1])
      \<and> shape un = [n, 1, m + m]
      \<and> (\<forall>i<n. \<forall>d<m.
            tget un [i, 0, d] = sin (tget pos_seq [i] * tget inv_freq [d])
          \<and> tget un [i, 0, m + d] = cos (tget pos_seq [i] * tget inv_freq [d]))"
proof -
  let ?col = "\<lparr>shape = [n, 1], data = data pos_seq\<rparr>"
  let ?row = "\<lparr>shape = [1, m], data = data inv_freq\<rparr>"
  have col: "tget ?col [i, 0] = tget pos_seq [i]" for i
    by (simp add: tget_def shp numel_def)
  have row: "tget ?row [0, d] = tget inv_freq [d]" for d
    by (simp add: tget_def shf numel_def)
  obtain si where si: "matmul ?col ?row False = Inr si" "shape si = [n, m]"
    "\<forall>i<n. \<forall>d<m. tget si [i, d] = tget ?col [i, 0] * tget ?row [0, d]"
    using matmul_outer_entries [of ?col n ?row m] by auto
  obtain cc where cc: "concat2 (tmap sin si) (tmap cos si) (- 1) = Inr cc" "shape cc = [n, m + m]"
    "\<forall>i<n. (\<forall>d<m. tget cc [i, d] = tget (tmap sin si) [i, d])
          \<and> (\<forall>d<m. tget cc [i, m + d] = tget (tmap cos si) [i, d])"
    using concat2_last_2d [of "tmap sin si" n m "tmap cos si" m] si(2) by auto
  obtain un where un: "unsqueeze cc 1 = Inr un" "shape un = [n, 1, m + m]"
    "\<forall>i d. tget un [i, 0, d] = tget cc [i, d]"
    using unsqueeze1_2d [OF cc(2)] by blast
  have steps: "positional_embedding pos_seq inv_freq bsz =
      (case bsz of None \<Rightarrow> Inr un | Some b \<Rightarrow> expand un [- 1, int b, - 1])"
    by (simp only: positional_embedding_def bind_def reshape_column [OF wfp shp]
        reshape_row [OF wff shf] si(1) cc(1) un(1) sum.case)
  have e1: "tget un [i, 0, d] = sin (tget pos_seq [i] * tget inv_freq [d])"
    and e2: "tget un [i, 0, m + d] = cos (tget pos_seq [i] * tget inv_freq [d])"
    if "i < n" "d < m" for i d
    using that un(3) cc(3) si(2,3) col row by (simp_all add: tget_tmap)
  show ?thesis
    using steps un(2) e1 e2 by (intro exI [of _ un]) simp
qed

lemma positional_embedding_entries:
  assumes wfp: "wf_tensor pos_seq" and shp: "shape pos_seq = [n]"
    and wff: "wf_tensor inv_freq" and shf: "shape inv_freq = [m]"
    and B: "B = (case bsz of None \<Rightarrow> 1 | Some b \<Rightarrow> b)" and pos: "0 < B"
  shows "\<exists>pe. positional_embedding pos_seq inv_freq bsz = Inr pe
      \<and> shape pe = [n, B, m + m]
      \<and> (\<forall>i<n. \<forall>b<B. \<forall>d<m.
            tget pe [i, b, d] = sin (tget pos_seq [i] * tget inv_freq [d])
          \<and> tget pe [i, b, m + d] = cos (tget pos_seq [i] * tget inv_freq [d]))"
proof -
  from positional_embedding_steps [OF wfp shp wff shf, of bsz]
  obtain un where steps: "positional_embedding pos_seq inv_freq bsz =
        (case bsz of None \<Rightarrow> Inr un | Some b \<Rightarrow> expand un [- 1, int b, - 1])"
    and un: "shape un = [n, 1, m + m]"
    and e: "\<forall>i<n. \<forall>d<m.
            tget un [i, 0, d] = sin (tget pos_seq [i] * tget inv_freq [d])
          \<and> tget un [i, 0, m + d] = cos (tget pos_seq [i] * tget inv_freq [d])"
    by blast
  show ?thesis
  proof (cases bsz)
    case None
    then show ?thesis
      using steps B un e by simp
  next
    case (Some b)
    then have b: "0 < b" using B pos by simp
    obtain ex where ex: "expand un [- 1, int b, - 1] = Inr ex" "shape ex = [n, b, m + m]"
      "\<forall>i<n. \<forall>bb<b. \<forall>d<m + m. tget ex [i, bb, d] = tget un [i, 0, d]"
      using expand_middle [OF un b] by blast
    show ?thesis
      using steps Some B ex e by simp
  qed
qed

lemma positional_embedding_zero:
  assumes "wf_tensor pos_seq" and "shape pos_seq = [n]"
    and "wf_tensor inv_freq" and "shape inv_freq = [m]"
  shows "positional_embedding pos_seq inv_freq (Some 0) = Inl (ShapeError ''invalid expand shape'')"
proof -
  from positional_embedding_steps [OF assms, of "Some 0"]
  obtain un where "positional_embedding pos_seq inv_freq (Some 0) = expand un [- 1, int 0, - 1]"
    and "shape un = [n, 1, m + m]"
    by auto
  then show ?thesis
    using expand_middle_zero [of un n "m + m"] by simp
qed


lemma concat2_axis1_3d:
  assumes "shape x = [n, a, c]" "shape y = [n, b, c]"
  shows "\<exists>z. concat2 x y 1 = Inr z \<and> shape z = [n, a + b, c] \<and>
     (\<forall>i<n. \<forall>d<c. (\<forall>j<a. tget z [i, j, d] = tget x [i, j, d])
                  \<and> (\<forall>j<b. tget z [i, a + j, d] = tget y [i, j, d]))"
  using assms
  by (simp add: concat2_def norm_axis_def tget_tabulate)

lemma arange3_down:
  "arange3 (int klen) (- int qlen) (- 1) = map (\<lambda>i. int klen - int i) [0..<klen + qlen]"
  by (simp add: arange3_def nat_add_distrib)

lemma arange3_down_uni:
  "arange3 (int klen) (- 1) (- 1) = map (\<lambda>i. int klen - int i) [0..<klen + 1]"
  by (simp add: arange3_def nat_add_distrib)

lemma arange3_up:
  "arange3 (- int klen) (int qlen) 1 = map (\<lambda>i. - int klen + int i) [0..<klen + qlen]"
  by (simp add: arange3_def nat_add_distrib add.commute)

lemma arange3_up_uni:
  "arange3 (- int klen) 1 1 = map (\<lambda>i. - int klen + int i) [0..<klen + 1]"
  by (simp add: arange3_def nat_add_distrib)

lemma arange3_freq:
  "arange3 0 (int dm) 2 = map (\<lambda>i. 2 * int i) [0..<(dm + 1) div 2]"
proof -
  have "nat ((1 + int dm) div 2) = Suc dm div 2"
    by linarith
  then show ?thesis
    by (simp add: arange3_def mult.commute)
qed

lemma float_vector_facts [simp]:
  "wf_tensor (float_vector xs)"
  "shape (float_vector xs) = [length xs]"
  by (simp_all add: float_vector_def wf_tensor_def numel_def)

lemma tget_float_vector:
  "tget (float_vector xs) [i] = (map real_of_int xs) ! i"
  by (simp add: float_vector_def tget_def numel_def)


lemma relative_positional_encoding_unfold:
  fixes self :: "'m XLNetModel_scheme"
  assumes at: "attn_type self = ''bi'' \<or> attn_type self = ''uni''"
    and L: "L = (if attn_type self = ''bi'' then klen + qlen else klen + 1)"
    and inv: "inv_freq = tmap (\<lambda>f. 1 / (10000 powr (f / real (d_model self))))
                (float_vector (arange3 0 (int (d_model self)) 2))"
    and fwd: "fwd = float_vector (map (\<lambda>i. int klen - int i) [0..<L])"
    and bwd: "bwd = float_vector (map (\<lambda>i. - int klen + int i) [0..<L])"
  shows "relative_positional_encoding self qlen klen bsz =
     (if 0 < clamp_len self then Inl (AttributeError ''Tensor object has no attribute clamp'')
      else if truthy (bi_data self)
      then bind (positional_embedding fwd inv_freq (map_option (\<lambda>b. b div 2) bsz))
             (\<lambda>fwd_pos_emb.
                bind (positional_embedding bwd inv_freq (map_option (\<lambda>b. b div 2) bsz))
                  (\<lambda>bwd_pos_emb. concat2 fwd_pos_emb bwd_pos_emb 1))
      else positional_embedding fwd inv_freq bsz)"
proof (cases "attn_type self = ''bi''")
  case True
  then show ?thesis
    unfolding relative_positional_encoding_def Let_def inv fwd bwd L
    by (simp add: bind_def arange3_down arange3_up cong: sum.case_cong)
next
  case False
  then have u: "attn_type self = ''uni''" using at by simp
  show ?thesis
    unfolding relative_positional_encoding_def Let_def inv fwd bwd L
    using u by (simp add: bind_def arange3_down_uni arange3_up_uni cong: sum.case_cong)
qed


lemma relative_positional_encoding_entries:
  fixes self :: "'m XLNetModel_scheme"
  assumes at: "attn_type self = ''bi'' \<or> attn_type self = ''uni''"
    and L: "L = (if attn_type self = ''bi'' then klen + qlen else klen + 1)"
    and m: "m = (d_model self + 1) div 2"
    and H: "H = (if truthy (bi_data self)
                 then (case bsz of None \<Rightarrow> 1 | Some b \<Rightarrow> b div 2)
                 else (case bsz of None \<Rightarrow> 1 | Some b \<Rightarrow> b))"
    and cl: "clamp_len self \<le> 0" and Hpos: "0 < H"
    and fr: "fr = (\<lambda>d. 1 / (10000 powr (real_of_int (2 * int d) / real (d_model self))))"
  shows "\<exists>pe. relative_positional_encoding self qlen klen bsz = Inr pe
      \<and> shape pe = [L, if truthy (bi_data self) then H + H else H, m + m]
      \<and> (\<forall>i<L. \<forall>b<H. \<forall>d<m.
            tget pe [i, b, d] = sin (real_of_int (int klen - int i) * fr d)
          \<and> tget pe [i, b, m + d] = cos (real_of_int (int klen - int i) * fr d)
          \<and> (truthy (bi_data self) \<longrightarrow>
                tget pe [i, H + b, d] = sin (real_of_int (- int klen + int i) * fr d)
              \<and> tget pe [i, H + b, m + d] = cos (real_of_int (- int klen + int i) * fr d)))"
proof -
  define inv_freq where "inv_freq = tmap (\<lambda>f. 1 / (10000 powr (f / real (d_model self))))
                (float_vector (arange3 0 (int (d_model self)) 2))"
  define fwd where "fwd = float_vector (map (\<lambda>i. int klen - int i) [0..<L])"
  define bwd where "bwd = float_vector (map (\<lambda>i. - int klen + int i) [0..<L])"
  note unf = relative_positional_encoding_unfold [OF at L inv_freq_def fwd_def bwd_def]
  have wi: "wf_tensor inv_freq" and si: "shape inv_freq = [m]"
    by (simp_all add: inv_freq_def arange3_freq m)
  have gi: "tget inv_freq [d] = fr d" if "d < m" for d
    using that unfolding inv_freq_def fr
    by (subst tget_tmap) (simp_all add: arange3_freq m tget_float_vector)
  have wfw: "wf_tensor fwd" and sfw: "shape fwd = [L]"
    and wbw: "wf_tensor bwd" and sbw: "shape bwd = [L]"
    by (simp_all add: fwd_def bwd_def)
  have gf: "tget fwd [i] = real_of_int (int klen - int i)" if "i < L" for i
    using that by (simp add: fwd_def tget_float_vector)
  have gb: "tget bwd [i] = real_of_int (- int klen + int i)" if "i < L" for i
    using that by (simp add: bwd_def tget_float_vector)
  show ?thesis
  proof (cases "truthy (bi_data self)")
    case False
    have B: "H = (case bsz of None \<Rightarrow> 1 | Some b \<Rightarrow> b)"
      using False H by simp
    from positional_embedding_entries [OF wfw sfw wi si B Hpos]
    obtain pe where pe: "positional_embedding fwd inv_freq bsz = Inr pe"
      "shape pe = [L, H, m + m]"
      "\<forall>i<L. \<forall>b<H. \<forall>d<m.
            tget pe [i, b, d] = sin (tget fwd [i] * tget inv_freq [d])
          \<and> tget pe [i, b, m + d] = cos (tget fwd [i] * tget inv_freq [d])"
      by blast
    have "relative_positional_encoding self qlen klen bsz = Inr pe"
      using unf False pe(1) cl by simp
    then show ?thesis
      using False pe(2,3) gf gi by (intro exI [of _ pe]) simp
  next
    case True
    have B: "H = (case map_option (\<lambda>b. b div 2) bsz of None \<Rightarrow> 1 | Some b \<Rightarrow> b)"
      using True H by (simp split: option.splits)
    from positional_embedding_entries [OF wfw sfw wi si B Hpos]
    obtain pf where pf: "positional_embedding fwd inv_freq (map_option (\<lambda>b. b div 2) bsz) = Inr pf"
      "shape pf = [L, H, m + m]"
      "\<forall>i<L. \<forall>b<H. \<forall>d<m.
            tget pf [i, b, d] = sin (tget fwd [i] * tget inv_freq [d])
          \<and> tget pf [i, b, m + d] = cos (tget fwd [i] * tget inv_freq [d])"
      by blast
    from positional_embedding_entries [OF wbw sbw wi si B Hpos]
    obtain pb where pb: "positional_embedding bwd inv_freq (map_option (\<lambda>b. b div 2) bsz) = Inr pb"
      "shape pb = [L, H, m + m]"
      "\<forall>i<L. \<forall>b<H. \<forall>d<m.
            tget pb [i, b, d] = sin (tget bwd [i] * tget inv_freq [d])
          \<and> tget pb [i, b, m + d] = cos (tget bwd [i] * tget inv_freq [d])"
      by blast
    from concat2_axis1_3d [OF pf(2) pb(2)]
    obtain pe where pe: "concat2 pf pb 1 = Inr pe" "shape pe = [L, H + H, m + m]"
      "\<forall>i<L. \<forall>d<m + m. (\<forall>j<H. tget pe [i, j, d] = tget pf [i, j, d])
                  \<and> (\<forall>j<H. tget pe [i, H + j, d] = tget pb [i, j, d])"
      by blast
    have "relative_positional_encoding self qlen klen bsz = Inr pe"
      using unf True pf(1) pb(1) pe(1) cl by (simp add: bind_def)
    moreover have "tget pe [i, b, d] = sin (real_of_int (int klen - int i) * fr d)"
      "tget pe [i, b, m + d] = cos (real_of_int (int klen - int i) * fr d)"
      "tget pe [i, H + b, d] = sin (real_of_int (- int klen + int i) * fr d)"
      "tget pe [i, H + b, m + d] = cos (real_of_int (- int klen + int i) * fr d)"
      if "i < L" "b < H" "d < m" for i b d
      using that pe(3) pf(3) pb(3) gf gb gi by simp_all
    ultimately show ?thesis
      using True pe(2) by (intro exI [of _ pe]) simp
  qed
qed

lemma relative_positional_encoding_empty_half:
  fixes self :: "'m XLNetModel_scheme"
  assumes t: "truthy (bi_data self)" and b: "b div 2 = 0"
  shows "is_error (relative_positional_encoding self qlen klen (Some b))"
proof (cases "attn_type self = ''bi'' \<or> attn_type self = ''uni''")
  case False
  then show ?thesis
    by (simp add: relative_positional_encoding_def Let_def bind_def is_error_def)
next
  case True
  define L where "L = (if attn_type self = ''bi'' then klen + qlen else klen + 1)"
  define inv_freq where "inv_freq = tmap (\<lambda>f. 1 / (10000 powr (f / real (d_model self))))
                (float_vector (arange3 0 (int (d_model self)) 2))"
  define fwd where "fwd = float_vector (map (\<lambda>i. int klen - int i) [0..<L])"
  define bwd where "bwd = float_vector (map (\<lambda>i. - int klen + int i) [0..<L])"
  note unf = relative_positional_encoding_unfold [OF True L_def inv_freq_def fwd_def bwd_def]
  have "positional_embedding fwd inv_freq (Some 0) = Inl (ShapeError ''invalid expand shape'')"
    by (rule positional_embedding_zero [where n = L and m = "(d_model self + 1) div 2"])
      (simp_all add: fwd_def inv_freq_def arange3_freq)
  then show ?thesis
    using unf [of "Some b"] t b by (simp add: bind_def is_error_def)
qed


text \<open>
  Claim C6. For \<open>attn_type = "bi"\<close> the position sequence is \<open>klen, klen - 1, \<dots>\<close> down to
  \<open>-qlen + 1\<close>, of length \<open>klen + qlen\<close>; for \<open>"uni"\<close> it runs down to \<open>0\<close>. When
  \<open>clamp_len\<close> is not positive and the batch size handed to the embedding is not \<open>0\<close>, the
  encoding has one row for each position; without \<open>bi_data\<close> row \<open>i\<close> holds the sines and
  then the cosines of \<open>(klen - i) \<cdot> inv_freq\<close>, and in every case the row of position \<open>0\<close>
  (row \<open>klen\<close>) is \<open>0\<close> on the sine half and \<open>1\<close> on the cosine half.
\<close>

theorem relative_positional_encoding_range:
  fixes self :: "'m XLNetModel_scheme"
  assumes at: "attn_type self = ''bi'' \<or> attn_type self = ''uni''"
    and L: "L = (if attn_type self = ''bi'' then klen + qlen else klen + 1)"
    and m: "m = (d_model self + 1) div 2"
    and B: "B = (case bsz of None \<Rightarrow> 1 | Some b \<Rightarrow> b)"
    and fr: "fr = (\<lambda>d. 1 / (10000 powr (real_of_int (2 * int d) / real (d_model self))))"
    and cl: "clamp_len self \<le> 0"
    and bs: "case bsz of None \<Rightarrow> True
             | Some b \<Rightarrow> 0 < (if truthy (bi_data self) then b div 2 else b)"
  shows "arange3 (int klen) (- int qlen) (- 1) = map (\<lambda>i. int klen - int i) [0..<klen + qlen]
    \<and> (qlen = klen \<longrightarrow> length (arange3 (int klen) (- int qlen) (- 1)) = qlen + klen)
    \<and> arange3 (int klen) (- 1) (- 1) = map (\<lambda>i. int klen - int i) [0..<klen + 1]
    \<and> (\<exists>pe. relative_positional_encoding self qlen klen bsz = Inr pe
          \<and> length (shape pe) = 3 \<and> shape pe ! 0 = L \<and> shape pe ! 2 = m + m
          \<and> (\<not> truthy (bi_data self) \<longrightarrow> shape pe = [L, B, m + m])
          \<and> (\<not> truthy (bi_data self) \<longrightarrow>
                (\<forall>i<L. \<forall>b<B. \<forall>d<m.
                    tget pe [i, b, d] = sin (real_of_int (int klen - int i) * fr d)
                  \<and> tget pe [i, b, m + d] = cos (real_of_int (int klen - int i) * fr d)))
          \<and> (klen < L \<longrightarrow>
                (\<forall>b<shape pe ! 1. \<forall>d<m.
                    tget pe [klen, b, d] = 0 \<and> tget pe [klen, b, m + d] = 1)))"
proof -
  define H where "H = (if truthy (bi_data self)
                 then (case bsz of None \<Rightarrow> 1 | Some b \<Rightarrow> b div 2)
                 else (case bsz of None \<Rightarrow> 1 | Some b \<Rightarrow> b))"
  have Hpos: "0 < H"
    using bs by (simp add: H_def split: option.splits if_splits)
  from relative_positional_encoding_entries [OF at L m H_def cl Hpos fr]
  obtain pe where pe: "relative_positional_encoding self qlen klen bsz = Inr pe"
    "shape pe = [L, if truthy (bi_data self) then H + H else H, m + m]"
    and ent: "\<forall>i<L. \<forall>b<H. \<forall>d<m.
            tget pe [i, b, d] = sin (real_of_int (int klen - int i) * fr d)
          \<and> tget pe [i, b, m + d] = cos (real_of_int (int klen - int i) * fr d)
          \<and> (truthy (bi_data self) \<longrightarrow>
                tget pe [i, H + b, d] = sin (real_of_int (- int klen + int i) * fr d)
              \<and> tget pe [i, H + b, m + d] = cos (real_of_int (- int klen + int i) * fr d))"
    by blast
  have plainB: "H = B" if "\<not> truthy (bi_data self)"
    using that by (simp add: H_def B)
  have plain: "tget pe [i, b, d] = sin (real_of_int (int klen - int i) * fr d)"
    "tget pe [i, b, m + d] = cos (real_of_int (int klen - int i) * fr d)"
    if "\<not> truthy (bi_data self)" "i < L" "b < B" "d < m" for i b d
    using that ent plainB by simp_all
  have zero: "tget pe [klen, b, d] = 0 \<and> tget pe [klen, b, m + d] = 1"
    if "klen < L" "b < shape pe ! 1" "d < m" for b d
  proof (cases "b < H")
    case True
    then show ?thesis using ent that by simp
  next
    case False
    then have t: "truthy (bi_data self)" and b: "b = H + (b - H)" "b - H < H"
      using that(2) pe(2) by (auto split: if_splits)
    have "tget pe [klen, H + (b - H), d] = 0 \<and> tget pe [klen, H + (b - H), m + d] = 1"
      using ent that(1,3) b(2) t by simp
    then show ?thesis using b(1) by simp
  qed
  have "\<exists>pe. relative_positional_encoding self qlen klen bsz = Inr pe
          \<and> length (shape pe) = 3 \<and> shape pe ! 0 = L \<and> shape pe ! 2 = m + m
          \<and> (\<not> truthy (bi_data self) \<longrightarrow> shape pe = [L, B, m + m])
          \<and> (\<not> truthy (bi_data self) \<longrightarrow>
                (\<forall>i<L. \<forall>b<B. \<forall>d<m.
                    tget pe [i, b, d] = sin (real_of_int (int klen - int i) * fr d)
                  \<and> tget pe [i, b, m + d] = cos (real_of_int (int klen - int i) * fr d)))
          \<and> (klen < L \<longrightarrow>
                (\<forall>b<shape pe ! 1. \<forall>d<m.
                    tget pe [klen, b, d] = 0 \<and> tget pe [klen, b, m + d] = 1))"
    using pe plainB plain zero by (intro exI [of _ pe]) simp
  then show ?thesis
    by (simp add: arange3_down arange3_down_uni)
qed


theorem relative_positional_encoding_range_witness:
  "\<exists>pe. relative_positional_encoding
          \<lparr>mem_len = None, reuse_len = None, d_model = 4, same_length = False,
           attn_type = ''bi'', bi_data = PyBool False, clamp_len = - 1, n_layer = 1,
           layer_ff = []\<rparr> 4 4 (Some 2) = Inr pe
      \<and> shape pe = [8, 2, 4]
      \<and> tget pe [4, 0, 0] = 0 \<and> tget pe [4, 0, 1] = 0
      \<and> tget pe [4, 0, 2] = 1 \<and> tget pe [4, 0, 3] = 1"
proof -
  let ?self = "\<lparr>mem_len = None, reuse_len = None, d_model = 4, same_length = False,
           attn_type = ''bi'', bi_data = PyBool False, clamp_len = - 1, n_layer = 1,
           layer_ff = []\<rparr>"
  have at: "attn_type ?self = ''bi'' \<or> attn_type ?self = ''uni''"
    by simp
  have L: "(8::nat) = (if attn_type ?self = ''bi'' then 4 + 4 else 4 + 1)"
    by simp
  have m: "(2::nat) = (d_model ?self + 1) div 2"
    by simp
  have B: "(2::nat) = (case Some 2 of None \<Rightarrow> 1 | Some b \<Rightarrow> b)"
    by simp
  have cl: "clamp_len ?self \<le> 0"
    by simp
  have bs: "case Some (2::nat) of None \<Rightarrow> True
             | Some b \<Rightarrow> 0 < (if truthy (bi_data ?self) then b div 2 else b)"
    by simp
  from relative_positional_encoding_range [OF at L m B refl cl bs]
  obtain pe where pe: "relative_positional_encoding ?self 4 4 (Some 2) = Inr pe"
    "\<not> truthy (bi_data ?self) \<longrightarrow> shape pe = [8, 2, 2 + 2]"
    "4 < (8::nat) \<longrightarrow> (\<forall>b<shape pe ! 1. \<forall>d<2.
         tget pe [4, b, d] = 0 \<and> tget pe [4, b, 2 + d] = 1)"
    by blast
  have sh: "shape pe = [8, 2, 4]"
    using pe(2) by simp
  have a: "\<forall>d<2. tget pe [4, 0, d] = 0 \<and> tget pe [4, 0, 2 + d] = 1"
    using pe(3) sh by simp
  from a [rule_format, of 0] a [rule_format, of 1]
  have "tget pe [4, 0, 0] = 0" "tget pe [4, 0, 2] = 1"
    "tget pe [4, 0, 1] = 0" "tget pe [4, 0, 3] = 1"
    by simp_all
  then show ?thesis
    using pe(1) sh by simp
qed

text \<open>
  With a positive \<open>clamp_len\<close> the call raises instead: the tensor has no method
  \<open>clamp\<close>.
\<close>

lemma relative_positional_encoding_clamp_raises:
  fixes self :: "'m XLNetModel_scheme"
  assumes "attn_type self = ''bi'' \<or> attn_type self = ''uni''" and "0 < clamp_len self"
  shows "relative_positional_encoding self qlen klen bsz
     = Inl (AttributeError ''Tensor object has no attribute clamp'')"
  using relative_positional_encoding_unfold [OF assms(1) refl refl refl refl] assms(2)
  by simp

section \<open>The default of bi_data\<close>

lemma XLNetModel_init_bi_data:
  assumes "XLNetModel_init vocab_size kw = Inr model"
  shows "bi_data model = arg_or (kw_bi_data kw) (PyStr ''False'')"
    and "XLNetModel_init vocab_size (kw\<lparr>kw_bi_data := passed\<rparr>)
           = Inr (model\<lparr>bi_data := arg_or passed (PyStr ''False'')\<rparr>)"
  using assms
  by (auto simp: XLNetModel_init_def Let_def split: sum.splits if_splits)

lemma XLNetModel_init_no_kwargs:
  "XLNetModel_init vocab_size (no_kwargs\<lparr>kw_bi_data := passed\<rparr>) =
     Inr \<lparr>mem_len = None, reuse_len = None, d_model = 768, same_length = False,
          attn_type = ''bi'', bi_data = arg_or passed (PyStr ''False''), clamp_len = - 1,
          n_layer = 12,
          layer_ff = replicate 12
            \<lparr>ff_d_model = 768, ff_d_inner = 3072, ff_layer_norm_eps = 1 / 10 ^ 12,
             ff_dropout = 1 / 10, activation_function = F_gelu\<rparr>\<rparr>"
  by (simp add: XLNetModel_init_def no_kwargs_def arg_or_def XLNetFeedForward_init_def
      map_of_ACT2FN_Some Let_def)

text \<open>
  Claim C10. A model constructed without \<open>bi_data\<close>, whatever its other arguments, stores
  the string \<open>"False"\<close>, which is truthy. Where the encoding is computed at all
  (\<open>attn_type\<close> is \<open>"bi"\<close> or \<open>"uni"\<close>, \<open>clamp_len\<close> is not positive), it holds the
  embedding of the forward positions for \<open>bsz div 2\<close> batch entries followed by the
  embedding of the backward positions for \<open>bsz div 2\<close> more, and the call raises when
  \<open>bsz div 2 = 0\<close>. The same construction with the boolean \<open>False\<close>, which all five
  pretrained configurations pass, holds the forward embedding alone for \<open>bsz\<close> batch
  entries.
\<close>

theorem XLNetModel_default_bi_data_truthy:
  assumes nb: "kw_bi_data kw = None"
    and init: "XLNetModel_init vocab_size kw = Inr model"
    and L: "L = (if attn_type model = ''bi'' then klen + qlen else klen + 1)"
    and m: "m = (d_model model + 1) div 2"
    and fr: "fr = (\<lambda>d. 1 / (10000 powr (real_of_int (2 * int d) / real (d_model model))))"
  shows "bi_data model = PyStr ''False'' \<and> truthy (bi_data model)
     \<and> XLNetModel_init vocab_size (kw\<lparr>kw_bi_data := Some (PyBool False)\<rparr>)
         = Inr (model\<lparr>bi_data := PyBool False\<rparr>)
     \<and> \<not> truthy (bi_data (model\<lparr>bi_data := PyBool False\<rparr>))
     \<and> ((attn_type model = ''bi'' \<or> attn_type model = ''uni'') \<and> clamp_len model \<le> 0 \<longrightarrow>
          (0 < bsz div 2 \<longrightarrow>
             (\<exists>pe. relative_positional_encoding model qlen klen (Some bsz) = Inr pe
                \<and> shape pe = [L, bsz div 2 + bsz div 2, m + m]
                \<and> (\<forall>i<L. \<forall>b<bsz div 2. \<forall>d<m.
                      tget pe [i, b, d] = sin (real_of_int (int klen - int i) * fr d)
                    \<and> tget pe [i, b, m + d] = cos (real_of_int (int klen - int i) * fr d)
                    \<and> tget pe [i, bsz div 2 + b, d] = sin (real_of_int (- int klen + int i) * fr d)
                    \<and> tget pe [i, bsz div 2 + b, m + d]
                        = cos (real_of_int (- int klen + int i) * fr d))))
        \<and> (0 < bsz \<longrightarrow>
             (\<exists>pe. relative_positional_encoding (model\<lparr>bi_data := PyBool False\<rparr>) qlen klen (Some bsz)
                     = Inr pe
                \<and> shape pe = [L, bsz, m + m]
                \<and> (\<forall>i<L. \<forall>b<bsz. \<forall>d<m.
                      tget pe [i, b, d] = sin (real_of_int (int klen - int i) * fr d)
                    \<and> tget pe [i, b, m + d] = cos (real_of_int (int klen - int i) * fr d)))))
     \<and> (bsz div 2 = 0 \<longrightarrow> is_error (relative_positional_encoding model qlen klen (Some bsz)))
     \<and> list_all (\<lambda>(name, vocab, kw). kw_bi_data kw = Some (PyBool False))
          pretrained_init_configuration"
proof -
  let ?e = "model\<lparr>bi_data := PyBool False\<rparr>"
  have bd: "bi_data model = PyStr ''False''"
    using XLNetModel_init_bi_data(1) [OF init] nb by (simp add: arg_or_def)
  have t: "truthy (bi_data model)"
    by (simp add: bd)
  have e: "XLNetModel_init vocab_size (kw\<lparr>kw_bi_data := Some (PyBool False)\<rparr>) = Inr ?e"
    using XLNetModel_init_bi_data(2) [OF init, of "Some (PyBool False)"] by (simp add: arg_or_def)
  have pd: "\<exists>pe. relative_positional_encoding model qlen klen (Some bsz) = Inr pe
                \<and> shape pe = [L, bsz div 2 + bsz div 2, m + m]
                \<and> (\<forall>i<L. \<forall>b<bsz div 2. \<forall>d<m.
                      tget pe [i, b, d] = sin (real_of_int (int klen - int i) * fr d)
                    \<and> tget pe [i, b, m + d] = cos (real_of_int (int klen - int i) * fr d)
                    \<and> tget pe [i, bsz div 2 + b, d] = sin (real_of_int (- int klen + int i) * fr d)
                    \<and> tget pe [i, bsz div 2 + b, m + d]
                        = cos (real_of_int (- int klen + int i) * fr d))"
    if at: "attn_type model = ''bi'' \<or> attn_type model = ''uni''" and cl: "clamp_len model \<le> 0"
      and h: "0 < bsz div 2"
  proof -
    have H: "bsz div 2 = (if truthy (bi_data model)
                 then (case Some bsz of None \<Rightarrow> 1 | Some b \<Rightarrow> b div 2)
                 else (case Some bsz of None \<Rightarrow> 1 | Some b \<Rightarrow> b))"
      using t by simp
    from relative_positional_encoding_entries [OF at L m H cl h fr]
    show ?thesis
      using t by simp
  qed
  have pe: "\<exists>pe. relative_positional_encoding ?e qlen klen (Some bsz) = Inr pe
                \<and> shape pe = [L, bsz, m + m]
                \<and> (\<forall>i<L. \<forall>b<bsz. \<forall>d<m.
                      tget pe [i, b, d] = sin (real_of_int (int klen - int i) * fr d)
                    \<and> tget pe [i, b, m + d] = cos (real_of_int (int klen - int i) * fr d))"
    if at: "attn_type model = ''bi'' \<or> attn_type model = ''uni''" and cl: "clamp_len model \<le> 0"
      and h: "0 < bsz"
  proof -
    have at': "attn_type ?e = ''bi'' \<or> attn_type ?e = ''uni''"
      using at by simp
    have L': "L = (if attn_type ?e = ''bi'' then klen + qlen else klen + 1)"
      using L by simp
    have m': "m = (d_model ?e + 1) div 2"
      using m by simp
    have H: "bsz = (if truthy (bi_data ?e)
                 then (case Some bsz of None \<Rightarrow> 1 | Some b \<Rightarrow> b div 2)
                 else (case Some bsz of None \<Rightarrow> 1 | Some b \<Rightarrow> b))"
      by simp
    have cl': "clamp_len ?e \<le> 0"
      using cl by simp
    have fr': "fr = (\<lambda>d. 1 / (10000 powr (real_of_int (2 * int d) / real (d_model ?e))))"
      using fr by simp
    from relative_positional_encoding_entries [OF at' L' m' H cl' h fr']
    show ?thesis
      by simp
  qed
  have z: "is_error (relative_positional_encoding model qlen klen (Some bsz))" if "bsz div 2 = 0"
    using t that by (rule relative_positional_encoding_empty_half)
  have cfg: "list_all (\<lambda>(name, vocab, kw). kw_bi_data kw = Some (PyBool False))
          pretrained_init_configuration"
    by (simp add: pretrained_init_configuration_def pretrained_kwargs_def)
  show ?thesis
    using bd t e pd pe z cfg by simp
qed

theorem XLNetModel_default_bi_data_truthy_witness:
  "\<exists>dflt. XLNetModel_init 32000 no_kwargs = Inr dflt
     \<and> kw_bi_data no_kwargs = None
     \<and> bi_data dflt = PyStr ''False'' \<and> truthy (bi_data dflt)
     \<and> XLNetModel_init 32000 (no_kwargs\<lparr>kw_bi_data := Some (PyBool False)\<rparr>)
         = Inr (dflt\<lparr>bi_data := PyBool False\<rparr>)
     \<and> (\<exists>pe. relative_positional_encoding dflt 2 2 (Some 3) = Inr pe \<and> shape pe = [4, 2, 768])
     \<and> (\<exists>pe. relative_positional_encoding (dflt\<lparr>bi_data := PyBool False\<rparr>) 2 2 (Some 3) = Inr pe
           \<and> shape pe = [4, 3, 768])
     \<and> is_error (relative_positional_encoding dflt 2 2 (Some 1))"
proof -
  let ?d = "\<lparr>mem_len = None, reuse_len = None, d_model = 768, same_length = False,
          attn_type = ''bi'', bi_data = PyStr ''False'', clamp_len = - 1,
          n_layer = 12,
          layer_ff = replicate 12
            \<lparr>ff_d_model = 768, ff_d_inner = 3072, ff_layer_norm_eps = 1 / 10 ^ 12,
             ff_dropout = 1 / 10, activation_function = F_gelu\<rparr>\<rparr>"
  have nb: "kw_bi_data no_kwargs = None"
    by (simp add: no_kwargs_def)
  have d: "XLNetModel_init 32000 no_kwargs = Inr ?d"
    using XLNetModel_init_no_kwargs [of 32000 None]
    by (simp add: arg_or_def no_kwargs_def)
  have L: "(4::nat) = (if attn_type ?d = ''bi'' then 2 + 2 else 2 + 1)"
    by simp
  have m: "(384::nat) = (d_model ?d + 1) div 2"
    by simp
  have h: "(3::nat) div 2 = 1" "(1::nat) div 2 = 0" "(384::nat) + 384 = 768"
    by simp_all
  from XLNetModel_default_bi_data_truthy [OF nb d L m refl, of 3]
    XLNetModel_default_bi_data_truthy [OF nb d L m refl, of 1]
  show ?thesis
    using d nb unfolding h by (intro exI [of _ ?d]) auto
qed

section \<open>The mask of the content stream\<close>

lemma bindex_rev_same:
  "list_all2 (\<lambda>i d. i < d) idx sh \<Longrightarrow> list_all2 (\<lambda>i d. i < d) (bindex_rev sh idx) sh"
  by (induction idx sh rule: list_all2_induct) auto

lemma bshape_rev_valid:
  "bshape_rev a b = Some s \<Longrightarrow> list_all2 (\<lambda>i d. i < d) idx s \<Longrightarrow>
     list_all2 (\<lambda>i d. i < d) (bindex_rev a idx) a \<and> list_all2 (\<lambda>i d. i < d) (bindex_rev b idx) b"
proof (induction a b arbitrary: s idx rule: bshape_rev.induct)
  case (1 ys)
  then show ?case by (simp add: bindex_rev_same)
next
  case (2 x xs)
  then show ?case by (simp add: bindex_rev_same)
next
  case (3 x xs y ys)
  from "3.prems"(1) obtain z s' where s: "s = z # s'" and r: "bshape_rev xs ys = Some s'"
    and z: "(x = y \<or> y = 1) \<and> z = x \<or> x = 1 \<and> z = y"
    by (auto split: if_splits)
  from "3.prems"(2) s obtain i idx' where idx: "idx = i # idx'" and i: "i < z"
    and rest: "list_all2 (\<lambda>i d. i < d) idx' s'"
    by (auto simp: list_all2_Cons2)
  have ih: "list_all2 (\<lambda>i d. i < d) (bindex_rev xs idx') xs
      \<and> list_all2 (\<lambda>i d. i < d) (bindex_rev ys idx') ys"
  proof (cases "x = y \<or> y = 1")
    case True
    then show ?thesis using "3.IH"(1) [OF True r rest] by simp
  next
    case False
    then have "x = 1" using z by auto
    then show ?thesis using "3.IH"(2) [OF False _ r rest] by simp
  qed
  show ?case
    using ih i z by (auto simp: idx)
qed

lemma valid_index_bindex:
  assumes "broadcast_shapes a b = Some s" "valid_index s idx"
  shows "valid_index a (bindex a idx)" "valid_index b (bindex b idx)"
proof -
  from assms(1) obtain r where r: "bshape_rev (rev a) (rev b) = Some r" and s: "s = rev r"
    by (auto simp: broadcast_shapes_def)
  have "list_all2 (\<lambda>i d. i < d) (rev idx) r"
    using assms(2) s by (simp add: valid_index_def list_all2_rev1)
  from bshape_rev_valid [OF r this]
  show "valid_index a (bindex a idx)" "valid_index b (bindex b idx)"
    by (simp_all add: valid_index_def bindex_def list_all2_rev1)
qed

lemma broadcast_op_entry:
  assumes "broadcast_op f x y = Inr z" "valid_index (shape z) idx"
  shows "tget z idx = f (tget x (bindex (shape x) idx)) (tget y (bindex (shape y) idx))"
    and "valid_index (shape x) (bindex (shape x) idx)"
    and "valid_index (shape y) (bindex (shape y) idx)"
proof -
  from assms(1) obtain sh where sh: "broadcast_shapes (shape x) (shape y) = Some sh"
    and z: "z = tabulate sh (\<lambda>idx. f (tget x (bindex (shape x) idx))
                                    (tget y (bindex (shape y) idx)))"
    by (auto simp: broadcast_op_def split: option.splits)
  have v: "valid_index sh idx" using assms(2) z by simp
  show "tget z idx = f (tget x (bindex (shape x) idx)) (tget y (bindex (shape y) idx))"
    using v by (simp add: z tget_tabulate)
  show "valid_index (shape x) (bindex (shape x) idx)"
    "valid_index (shape y) (bindex (shape y) idx)"
    using valid_index_bindex [OF sh v] by simp_all
qed


lemma greater_than_zero_facts [simp]:
  "shape (greater_than_zero x) = shape x"
  by (simp add: greater_than_zero_def)

lemma tget_greater_than_zero:
  "valid_index (shape x) idx \<Longrightarrow>
     tget (greater_than_zero x) idx = (if 0 < tget x idx then 1 else 0)"
  by (simp add: greater_than_zero_def tget_tmap)

lemma unsqueeze_2_3:
  assumes "shape x = [n, k]"
  shows "unsqueeze_axes x [2, 3] = Inr \<lparr>shape = [n, k, 1, 1], data = data x\<rparr>"
  using assms by (simp add: unsqueeze_def norm_axis_def bind_def)

lemma non_tgt_diagonal:
  assumes "i < qlen"
  shows "\<exists>nt. (if 0 < mlen
                then concat2 (zeros [qlen, mlen]) (tmap uminus (eye qlen)) (- 1)
                else Inr (tmap uminus (eye qlen))) = Inr nt
      \<and> shape nt = [qlen, mlen + qlen] \<and> tget nt [i, mlen + i] = - 1"
proof (cases "0 < mlen")
  case True
  have e: "tget (tmap uminus (eye qlen)) [i, i] = - 1"
    using assms by (simp add: tget_tmap eye_def tget_tabulate)
  from concat2_last_2d [of "zeros [qlen, mlen]" qlen mlen "tmap uminus (eye qlen)" qlen]
  obtain z where z: "concat2 (zeros [qlen, mlen]) (tmap uminus (eye qlen)) (- 1) = Inr z"
    "shape z = [qlen, mlen + qlen]"
    "\<forall>i<qlen. (\<forall>d<mlen. tget z [i, d] = tget (zeros [qlen, mlen]) [i, d])
        \<and> (\<forall>d<qlen. tget z [i, mlen + d] = tget (tmap uminus (eye qlen)) [i, d])"
    by (auto simp: zeros_def eye_def)
  then show ?thesis using True assms e by simp
next
  case False
  then show ?thesis
    using assms by (simp add: tget_tmap eye_def tget_tabulate)
qed

lemma forward_non_tgt_mask_diagonal:
  assumes r: "forward_non_tgt_mask (Some (greater_than_zero a)) qlen mlen = Inr (Some m)"
    and i: "i < qlen"
    and v: "valid_index (shape m) [i, mlen + i, b, c]"
  shows "tget m [i, mlen + i, b, c] = 0"
proof -
  from non_tgt_diagonal [OF i, of mlen] obtain nt where
    nt: "(if 0 < mlen
          then concat2 (zeros [qlen, mlen]) (tmap uminus (eye qlen)) (- 1)
          else Inr (tmap uminus (eye qlen))) = Inr nt"
    "shape nt = [qlen, mlen + qlen]" "tget nt [i, mlen + i] = - 1"
    by blast
  let ?nt4 = "\<lparr>shape = [qlen, mlen + qlen, 1, 1], data = data nt\<rparr>"
  have u: "unsqueeze_axes nt [2, 3] = Inr ?nt4"
    using nt(2) by (rule unsqueeze_2_3)
  from r obtain summed where s: "broadcast_op (+) (greater_than_zero a) ?nt4 = Inr summed"
    and m: "m = greater_than_zero summed"
    unfolding forward_non_tgt_mask_def
    by (simp only: option.case nt(1) u bind_def sum.case) (auto split: sum.splits)
  have vs: "valid_index (shape summed) [i, mlen + i, b, c]"
    using v m by simp
  have bi: "bindex (shape ?nt4) [i, mlen + i, b, c] = [i, mlen + i, 0, 0]"
    using i by (auto simp: bindex_def)
  have nt4: "tget ?nt4 [i, mlen + i, 0, 0] = - 1"
    using nt(2,3) by (simp add: tget_def numel_def)
  let ?ia = "bindex (shape (greater_than_zero a)) [i, mlen + i, b, c]"
  have va: "valid_index (shape a) ?ia"
    using broadcast_op_entry(2) [OF s vs] by simp
  have "tget (greater_than_zero a) ?ia \<le> 1"
    using va by (simp add: tget_greater_than_zero)
  moreover have "tget summed [i, mlen + i, b, c] = tget (greater_than_zero a) ?ia + (- 1)"
    using broadcast_op_entry(1) [OF s vs] bi nt4 by simp
  ultimately have "\<not> 0 < tget summed [i, mlen + i, b, c]"
    by simp
  then show ?thesis
    using vs by (simp add: m tget_greater_than_zero)
qed

text \<open>
  Claim C7. Whenever \<open>XLNetModel.forward\<close> builds the mask of the content stream, its
  entry for query position \<open>i\<close> and key position \<open>mlen + i\<close> is \<open>0\<close>, for every batch
  and broadcast index: the combined mask is \<open>0\<close> or \<open>1\<close> there and \<open>-1\<close> is added to it
  before the comparison with \<open>0\<close>.
\<close>

theorem non_tgt_mask_allows_self_attention:
  assumes "forward_prepare self training input_ids token_type_ids attention_mask mems perm_mask
       target_mapping input_mask inputs_embeds use_mems_train use_mems_eval = Inr prepared"
    and "fp_non_tgt_mask prepared = Some m"
    and "i < fp_qlen prepared"
    and "valid_index (shape m) [i, fp_mlen prepared + i, b, c]"
  shows "tget m [i, fp_mlen prepared + i, b, c] = 0"
proof -
  from assms(1,2) obtain am qlen mlen where
    f: "forward_non_tgt_mask (map_option greater_than_zero am) qlen mlen = Inr (Some m)"
    and q: "fp_qlen prepared = qlen" and ml: "fp_mlen prepared = mlen"
    unfolding forward_prepare_def Let_def forward_attn_mask_def
    by (auto simp: bind_def split: sum.splits prod.splits)
  from f obtain a where "am = Some a"
    by (cases am) (auto simp: forward_non_tgt_mask_def)
  with f have "forward_non_tgt_mask (Some (greater_than_zero a)) qlen mlen = Inr (Some m)"
    by simp
  from forward_non_tgt_mask_diagonal [OF this] assms(3,4) q ml show ?thesis
    by simp
qed


theorem non_tgt_mask_allows_self_attention_witness:
  "\<exists>prepared a m.
     forward_prepare
       \<lparr>mem_len = None, reuse_len = None, d_model = 4, same_length = False,
        attn_type = ''bi'', bi_data = PyBool False, clamp_len = - 1, n_layer = 1,
        layer_ff = []\<rparr>
       False (Some \<lparr>shape = [1, 2], data = [7, 8]\<rparr>) None
       (Some \<lparr>shape = [1, 2], data = [1, 0]\<rparr>) None None None None None False False
       = Inr prepared
     \<and> fp_attn_mask prepared = Some a \<and> tget a [0, 1, 0, 0] = 1
     \<and> fp_non_tgt_mask prepared = Some m \<and> tget m [1, 1, 0, 0] = 0"
proof -
  let ?p = "\<lparr>use_mems = False,
      fp_input_ids = Some \<lparr>shape = [2, 1], data = [7, 8]\<rparr>,
      fp_inputs_embeds = None, fp_qlen = 2, fp_bsz = 1,
      fp_token_type_ids = None, fp_target_mapping = None, fp_mlen = 0, fp_klen = 2,
      fp_attn_mask = Some \<lparr>shape = [1, 2, 1, 1], data = [0, 1]\<rparr>,
      fp_non_tgt_mask = Some \<lparr>shape = [2, 2, 1, 1], data = [0, 1, 0, 0]\<rparr>\<rparr>"
  have ev: "forward_prepare
       \<lparr>mem_len = None, reuse_len = None, d_model = 4, same_length = False,
        attn_type = ''bi'', bi_data = PyBool False, clamp_len = - 1, n_layer = 1,
        layer_ff = []\<rparr>
       False (Some \<lparr>shape = [1, 2], data = [7, 8]\<rparr>) None
       (Some \<lparr>shape = [1, 2], data = [1, 0]\<rparr>) None None None None None False False
       = Inr ?p"
    by code_simp
  have m: "fp_non_tgt_mask ?p = Some \<lparr>shape = [2, 2, 1, 1], data = [0, 1, 0, 0]\<rparr>"
    by simp
  have i: "1 < fp_qlen ?p" by simp
  have v: "valid_index (shape \<lparr>shape = [2, 2, 1, 1], data = [0, 1, 0, 0::real]\<rparr>)
             [1, fp_mlen ?p + 1, 0, 0]"
    by simp
  have "tget \<lparr>shape = [2, 2, 1, 1], data = [0, 1, 0, 0::real]\<rparr> [1, fp_mlen ?p + 1, 0, 0] = 0"
    using non_tgt_mask_allows_self_attention [OF ev m i v] .
  then have "tget \<lparr>shape = [2, 2, 1, 1], data = [0, 1, 0, 0::real]\<rparr> [1, 1, 0, 0] = 0"
    by simp
  moreover have "tget \<lparr>shape = [1, 2, 1, 1], data = [0, 1::real]\<rparr> [0, 1, 0, 0] = 1"
    by (simp add: tget_def numel_def)
  ultimately show ?thesis
    using ev by simp
qed


section \<open>Validation of the inputs\<close>

lemma bind_Inl: "bind (Inl e) f = Inl e"
  and bind_Inr: "bind (Inr v) f = f v"
  by (simp_all add: bind_def)

lemma bind_not_error:
  "m \<noteq> Inl e \<Longrightarrow> (\<And>v. f v \<noteq> Inl e) \<Longrightarrow> bind m f \<noteq> Inl e"
  by (cases m) (simp_all add: bind_def)

lemma library_not_validation_error:
  assumes "e = ValueError ''You cannot specify both input_ids and inputs_embeds at the same time''
         \<or> e = ValueError ''You have to specify either input_ids or inputs_embeds''"
  shows "transpose_axes x perm \<noteq> Inl e"
    and "concat2 y z axis \<noteq> Inl e"
    and "unsqueeze y axis \<noteq> Inl e"
    and "broadcast_op f u w \<noteq> Inl e"
    and "slice_axis ax start stop y \<noteq> Inl e"
  using assms
  by (auto simp: transpose_axes_def concat2_def unsqueeze_def broadcast_op_def slice_axis_def Let_def
      split: option.splits if_splits)

lemma opt_transpose_not_validation_error:
  assumes "e = ValueError ''You cannot specify both input_ids and inputs_embeds at the same time''
         \<or> e = ValueError ''You have to specify either input_ids or inputs_embeds''"
  shows "opt_transpose x perm \<noteq> Inl e"
  unfolding opt_transpose_def
  by (cases x) (simp_all add: bind_not_error library_not_validation_error(1) [OF assms])

lemma unsqueeze_axes_not_validation_error:
  assumes "e = ValueError ''You cannot specify both input_ids and inputs_embeds at the same time''
         \<or> e = ValueError ''You have to specify either input_ids or inputs_embeds''"
  shows "unsqueeze_axes x axes \<noteq> Inl e"
  by (induction axes arbitrary: x)
    (simp_all add: bind_not_error library_not_validation_error(3) [OF assms])

lemma stages_not_validation_error:
  fixes self :: "'m XLNetModel_scheme"
  assumes "e = ValueError ''You cannot specify both input_ids and inputs_embeds at the same time''
         \<or> e = ValueError ''You have to specify either input_ids or inputs_embeds''"
  shows "forward_mlen (mems :: real tensor option list option) \<noteq> Inl e"
    and "create_mask self qlen mlen \<noteq> Inl e"
    and "forward_causal_mask self qlen mlen \<noteq> Inl e"
    and "forward_data_mask input_mask attention_mask perm_mask \<noteq> Inl e"
    and "forward_attn_mask attn_mask data_mask mlen bsz \<noteq> Inl e"
    and "forward_non_tgt_mask attn_mask qlen mlen \<noteq> Inl e"
proof -
  note lib = library_not_validation_error [OF assms] unsqueeze_axes_not_validation_error [OF assms]
  show "forward_mlen mems \<noteq> Inl e"
    using assms by (auto simp: forward_mlen_def split: option.splits list.splits)
  show cm: "create_mask self qlen mlen \<noteq> Inl e"
    unfolding create_mask_def Let_def
    by (simp add: bind_not_error lib)
  show "forward_causal_mask self qlen mlen \<noteq> Inl e"
    unfolding forward_causal_mask_def using assms
    by (auto simp: bind_not_error lib cm)
  show "forward_data_mask input_mask attention_mask perm_mask \<noteq> Inl e"
    unfolding forward_data_mask_def Let_def using assms
    by (auto simp: bind_not_error lib split: option.splits)
  show "forward_attn_mask attn_mask data_mask mlen bsz \<noteq> Inl e"
    unfolding forward_attn_mask_def using assms
    by (auto simp: bind_not_error bind_Inl bind_Inr lib split: option.splits list.splits)
  show "forward_non_tgt_mask attn_mask qlen mlen \<noteq> Inl e"
    unfolding forward_non_tgt_mask_def using assms
    by (auto simp: bind_not_error lib split: option.splits)
qed


lemma forward_inputs_one_supplied:
  assumes "e = ValueError ''You cannot specify both input_ids and inputs_embeds at the same time''
         \<or> e = ValueError ''You have to specify either input_ids or inputs_embeds''"
    and "(input_ids = None) \<noteq> (inputs_embeds = None)"
  shows "forward_inputs input_ids inputs_embeds \<noteq> Inl e"
  using assms(2) unfolding forward_inputs_def
  by (cases input_ids; cases inputs_embeds)
    (simp_all add: bind_not_error library_not_validation_error(1) [OF assms(1)])

lemma transpose_matrix:
  assumes "shape x = [b, q]"
  shows "\<exists>y. transpose_axes x [1, 0] = Inr y \<and> shape y = [q, b]"
  using assms by (simp add: transpose_axes_def)

text \<open>
  Claim C8. With both \<open>input_ids\<close> and \<open>inputs_embeds\<close>, and with neither, the forward
  pass ends with the corresponding \<open>ValueError\<close> whatever the other arguments are; with
  exactly one of them it never ends with either of these two errors, and a matrix of
  shape \<open>[bsz, qlen]\<close> passes the check and gives \<open>qlen\<close> and \<open>bsz\<close>.
\<close>

theorem forward_validates_inputs:
  fixes self :: "'m XLNetModel_scheme"
  shows
  "(input_ids \<noteq> None \<and> inputs_embeds \<noteq> None \<longrightarrow>
      forward_prepare self training input_ids token_type_ids attention_mask mems perm_mask
        target_mapping input_mask inputs_embeds use_mems_train use_mems_eval
      = Inl (ValueError ''You cannot specify both input_ids and inputs_embeds at the same time''))
   \<and> (input_ids = None \<and> inputs_embeds = None \<longrightarrow>
      forward_prepare self training input_ids token_type_ids attention_mask mems perm_mask
        target_mapping input_mask inputs_embeds use_mems_train use_mems_eval
      = Inl (ValueError ''You have to specify either input_ids or inputs_embeds''))
   \<and> ((input_ids = None) \<noteq> (inputs_embeds = None) \<longrightarrow>
      forward_prepare self training input_ids token_type_ids attention_mask mems perm_mask
        target_mapping input_mask inputs_embeds use_mems_train use_mems_eval
      \<noteq> Inl (ValueError ''You cannot specify both input_ids and inputs_embeds at the same time'')
    \<and> forward_prepare self training input_ids token_type_ids attention_mask mems perm_mask
        target_mapping input_mask inputs_embeds use_mems_train use_mems_eval
      \<noteq> Inl (ValueError ''You have to specify either input_ids or inputs_embeds''))
   \<and> (\<forall>ids b q. input_ids = Some ids \<and> inputs_embeds = None \<and> shape ids = [b, q] \<longrightarrow>
        (\<exists>ids'. forward_inputs input_ids inputs_embeds = Inr (Some ids', None, q, b)))
   \<and> (\<forall>emb b q. input_ids = None \<and> inputs_embeds = Some emb \<and> shape emb = [b, q] \<longrightarrow>
        (\<exists>emb'. forward_inputs input_ids inputs_embeds = Inr (None, Some emb', q, b)))"
proof -
  let ?fp = "forward_prepare self training input_ids token_type_ids attention_mask mems perm_mask
        target_mapping input_mask inputs_embeds use_mems_train use_mems_eval"
  have both: "?fp = Inl (ValueError ''You cannot specify both input_ids and inputs_embeds at the same time'')"
    if "input_ids \<noteq> None \<and> inputs_embeds \<noteq> None"
    using that by (simp add: forward_prepare_def forward_inputs_def bind_Inl)
  have neither: "?fp = Inl (ValueError ''You have to specify either input_ids or inputs_embeds'')"
    if "input_ids = None \<and> inputs_embeds = None"
    using that by (simp add: forward_prepare_def forward_inputs_def bind_Inl)
  have one: "?fp \<noteq> Inl e"
    if e: "e = ValueError ''You cannot specify both input_ids and inputs_embeds at the same time''
         \<or> e = ValueError ''You have to specify either input_ids or inputs_embeds''"
      and x: "(input_ids = None) \<noteq> (inputs_embeds = None)" for e
    unfolding forward_prepare_def Let_def
    by (intro bind_not_error forward_inputs_one_supplied [OF e x])
      (simp add: split_def bind_not_error opt_transpose_not_validation_error [OF e]
        stages_not_validation_error [OF e])
  have ids: "\<exists>ids'. forward_inputs input_ids inputs_embeds = Inr (Some ids', None, q, b)"
    if "input_ids = Some ids \<and> inputs_embeds = None \<and> shape ids = [b, q]" for ids b q
  proof -
    from that transpose_matrix [of ids b q] obtain y where
      "transpose_axes ids [1, 0] = Inr y" "shape y = [q, b]" by blast
    then show ?thesis using that by (simp add: forward_inputs_def bind_Inr)
  qed
  have emb: "\<exists>emb'. forward_inputs input_ids inputs_embeds = Inr (None, Some emb', q, b)"
    if "input_ids = None \<and> inputs_embeds = Some emb \<and> shape emb = [b, q]" for emb b q
  proof -
    from that transpose_matrix [of emb b q] obtain y where
      "transpose_axes emb [1, 0] = Inr y" "shape y = [q, b]" by blast
    then show ?thesis using that by (simp add: forward_inputs_def bind_Inr)
  qed
  from both neither one ids emb show ?thesis
    by blast
qed

theorem forward_validates_inputs_witness:
  "forward_prepare
     \<lparr>mem_len = None, reuse_len = None, d_model = 4, same_length = False,
      attn_type = ''bi'', bi_data = PyBool False, clamp_len = - 1, n_layer = 1,
      layer_ff = []\<rparr>
     False (Some \<lparr>shape = [1, 2], data = [7, 8]\<rparr>) None None None None None None
     (Some \<lparr>shape = [1, 2], data = [1, 2]\<rparr>) False False
     = Inl (ValueError ''You cannot specify both input_ids and inputs_embeds at the same time'')
   \<and> forward_prepare
     \<lparr>mem_len = None, reuse_len = None, d_model = 4, same_length = False,
      attn_type = ''bi'', bi_data = PyBool False, clamp_len = - 1, n_layer = 1,
      layer_ff = []\<rparr>
     False None None None None None None None None False False
     = Inl (ValueError ''You have to specify either input_ids or inputs_embeds'')
   \<and> (\<exists>ids'. forward_inputs (Some \<lparr>shape = [1, 2], data = [7, 8]\<rparr>) None
          = Inr (Some ids', None, 2, 1))"
proof -
  let ?self = "\<lparr>mem_len = None, reuse_len = None, d_model = 4, same_length = False,
      attn_type = ''bi'', bi_data = PyBool False, clamp_len = - 1, n_layer = 1,
      layer_ff = []\<rparr>"
  let ?ids = "\<lparr>shape = [1, 2], data = [7, 8::int]\<rparr>"
  let ?emb = "\<lparr>shape = [1, 2], data = [1, 2::real]\<rparr>"
  have a: "forward_prepare ?self False (Some ?ids) None None None None None None (Some ?emb)
      False False
     = Inl (ValueError ''You cannot specify both input_ids and inputs_embeds at the same time'')"
    using forward_validates_inputs [of "Some ?ids" "Some ?emb" ?self False None None None None
        None None False False]
    by simp
  have b: "forward_prepare ?self False None None None None None None None None False False
     = Inl (ValueError ''You have to specify either input_ids or inputs_embeds'')"
    using forward_validates_inputs [of None None ?self False None None None None
        None None False False]
    by simp
  have c: "\<exists>ids'. forward_inputs (Some ?ids) None = Inr (Some ids', None, 2, 1)"
    using forward_validates_inputs [of "Some ?ids" None ?self False None None None None
        None None False False]
    by simp
  from a b c show ?thesis by simp
qed

section \<open>Rounding to float32\<close>

lemma round_half_even_near:
  assumes "\<bar>d\<bar> < 1 / 2"
  shows "round_half_even (of_int n + d) = n"
proof (cases "0 \<le> d")
  case True
  then have "\<lfloor>of_int n + d\<rfloor> = n" using assms by linarith
  then show ?thesis using assms True by (simp add: round_half_even_def Let_def)
next
  case False
  then have "\<lfloor>of_int n + d\<rfloor> = n - 1" using assms by linarith
  then show ?thesis using assms False by (simp add: round_half_even_def Let_def)
qed

lemma round_half_even_of_int [simp]: "round_half_even (of_int n) = n"
  using round_half_even_near [of 0 n] by simp

lemma float32_0 [simp]: "float32 0 = 0"
  by (simp add: float32_def)

lemma float32_exponent:
  assumes lo: "2 powi e \<le> \<bar>x\<bar>" and hi: "\<bar>x\<bar> < 2 powi (e + 1)" and e: "- 126 \<le> e"
  shows "float32 x = of_int (round_half_even (x / 2 powi (e - 23))) * 2 powi (e - 23)"
proof -
  have pos: "0 < \<bar>x\<bar>"
    using lo by (smt (verit) zero_less_power_int)
  have a: "(2::real) powr (of_int e) = 2 powi e"
    by (simp add: powr_real_of_int')
  have b: "(2::real) powr (of_int e + 1) = 2 powi (e + 1)"
    using powr_real_of_int' [of 2 "e + 1"] by simp
  have "\<lfloor>log 2 \<bar>x\<bar>\<rfloor> = e"
    using lo hi pos by (subst floor_log_eq_powr_iff) (simp_all add: a b)
  then show ?thesis
    using pos e by (simp add: float32_def Let_def max_def)
qed

text \<open>
  A number with a significand of 24 bits and an exponent of at least \<open>-126\<close> is a
  \<open>float32\<close> number: rounding leaves it as it is.
\<close>

lemma float32_representable:
  assumes x: "x = of_int M * 2 powi (e - 23)" and M: "2 ^ 23 \<le> \<bar>M\<bar>" "\<bar>M\<bar> < 2 ^ 24"
    and e: "- 126 \<le> e"
  shows "float32 x = x"
proof -
  have u: "(0::real) < 2 powi (e - 23)" by simp
  have ax: "\<bar>x\<bar> = of_int \<bar>M\<bar> * 2 powi (e - 23)"
    by (simp add: x abs_mult)
  have p1: "(2::real) powi e = 2 ^ 23 * 2 powi (e - 23)"
    using power_int_add [of "2::real" 23 "e - 23"] by simp
  have p2: "(2::real) powi (e + 1) = 2 ^ 24 * 2 powi (e - 23)"
    using power_int_add [of "2::real" 24 "e - 23"] by (simp add: add.commute)
  have "(2::real) ^ 23 \<le> of_int \<bar>M\<bar>"
    using of_int_le_iff [of "2 ^ 23" "\<bar>M\<bar>", where ?'a = real] M(1) by simp
  then have lo: "2 powi e \<le> \<bar>x\<bar>"
    unfolding ax p1 using u by (intro mult_right_mono) simp_all
  have "of_int \<bar>M\<bar> < (2::real) ^ 24"
    using of_int_less_iff [of "\<bar>M\<bar>" "2 ^ 24", where ?'a = real] M(2) by simp
  then have hi: "\<bar>x\<bar> < 2 powi (e + 1)"
    unfolding ax p2 using u by (intro mult_strict_right_mono) simp_all
  have "x / 2 powi (e - 23) = of_int M"
    using u by (simp add: x)
  then show ?thesis
    using float32_exponent [OF lo hi e] by (simp add: x)
qed

text \<open>
  The constant \<open>1e30\<close> rounds to \<open>13234890 \<cdot> 2^76\<close>, and a number below \<open>2^75\<close> in
  magnitude is absorbed when that constant is subtracted from it: the spacing of the
  \<open>float32\<close> numbers near \<open>1e30\<close> is \<open>2^76\<close>.
\<close>

lemma float32_1e30: "float32 (10 ^ 30) = 13234890 * 2 ^ 76"
proof -
  have lo: "(2::real) powi 99 \<le> \<bar>10 ^ 30\<bar>" by simp
  have hi: "\<bar>(10::real) ^ 30\<bar> < 2 powi (99 + 1)" by simp
  have "(10::real) ^ 30 / 2 powi (99 - 23) = of_int 13234890 + (10 ^ 30 / 2 ^ 76 - 13234890)"
    by simp
  moreover have "\<bar>(10::real) ^ 30 / 2 ^ 76 - 13234890\<bar> < 1 / 2"
    by (simp add: field_simps)
  ultimately have "round_half_even ((10::real) ^ 30 / 2 powi (99 - 23)) = 13234890"
    using round_half_even_near by metis
  then show ?thesis
    using float32_exponent [OF lo hi] by simp
qed

lemma float32_1e30_representable: "float32 (13234890 * 2 ^ 76) = 13234890 * 2 ^ 76"
  by (rule float32_representable [where M = 13234890 and e = 99]) simp_all

lemma float32_absorbed:
  assumes "\<bar>s\<bar> < 2 ^ 75"
  shows "float32 (s - 13234890 * 2 ^ 76) = - (13234890 * 2 ^ 76)"
proof -
  let ?x = "s - 13234890 * 2 ^ 76"
  have lo: "(2::real) powi 99 \<le> \<bar>?x\<bar>"
    using assms by simp
  have hi: "\<bar>?x\<bar> < 2 powi (99 + 1)"
    using assms by simp
  have "?x / 2 powi (99 - 23) = of_int (- 13234890) + s / 2 ^ 76"
    by (simp add: field_simps)
  moreover have "\<bar>s / 2 ^ 76\<bar> < 1 / 2"
    using assms by (simp add: field_simps)
  ultimately have "round_half_even (?x / 2 powi (99 - 23)) = - 13234890"
    using round_half_even_near by metis
  then show ?thesis
    using float32_exponent [OF lo hi] by simp
qed

lemma fmul_1e30:
  "fmul (float32 (10 ^ 30)) 0 = 0"
  "fmul (float32 (10 ^ 30)) 1 = 13234890 * 2 ^ 76"
  by (simp_all only: fmul_def float32_1e30 mult_zero_right mult_1_right float32_0
      float32_1e30_representable)

lemma fsub_absorbed:
  "\<bar>s\<bar> < 2 ^ 75 \<Longrightarrow> fsub s (13234890 * 2 ^ 76) = - (13234890 * 2 ^ 76)"
  unfolding fsub_def by (rule float32_absorbed)

lemma fsub_0: "fsub s 0 = float32 s"
  by (simp add: fsub_def)

lemma float32_small:
  "float32 4 = 4" "float32 2 = 2" "float32 (1 / 2) = 1 / 2" "float32 7 = 7" "float32 (7 / 2) = 7 / 2"
      apply (rule float32_representable [where M = "2 ^ 23" and e = 2]; simp add: power_int_def power_divide)
     apply (rule float32_representable [where M = "2 ^ 23" and e = 1]; simp add: power_int_def power_divide)
    apply (rule float32_representable [where M = "2 ^ 23" and e = "- 1"]; simp add: power_int_def power_divide)
   apply (rule float32_representable [where M = "7 * 2 ^ 21" and e = 2]; simp add: power_int_def power_divide)
  apply (rule float32_representable [where M = "7 * 2 ^ 21" and e = 1]; simp add: power_int_def power_divide)
  done


section \<open>The attention score\<close>

lemma upt4: "[0..<4] = [0, 1, 2, 3::nat]"
  by (simp add: upt_rec)

lemma broadcast_op_mask4:
  assumes "shape x = [b, n, q, k]" "shape y = [B, N, q, k]" "B = 1 \<or> B = b" "N = 1 \<or> N = n"
  shows "\<exists>z. broadcast_op f x y = Inr z \<and> shape z = [b, n, q, k] \<and>
    (\<forall>a<b. \<forall>c<n. \<forall>i<q. \<forall>j<k.
       tget z [a, c, i, j] =
         f (tget x [a, c, i, j])
           (tget y [if B = 1 then 0 else a, if N = 1 then 0 else c, i, j]))"
proof -
  have bs: "broadcast_shapes [b, n, q, k] [B, N, q, k] = Some [b, n, q, k]"
    using assms(3,4) by (auto simp: broadcast_shapes_def)
  have bx: "bindex [b, n, q, k] [a, c, i, j] = [a, c, i, j]"
    if "a < b" "c < n" "i < q" "j < k" for a c i j
    using that by (auto simp: bindex_def)
  have bmask: "bindex [B, N, q, k] [a, c, i, j]
      = [if B = 1 then 0 else a, if N = 1 then 0 else c, i, j]"
    if "i < q" "j < k" for a c i j
    using that by (auto simp: bindex_def)
  show ?thesis
    using bs by (simp add: broadcast_op_def assms(1,2) tget_tabulate bx bmask)
qed

lemma broadcast_op_same4:
  assumes "shape x = [b, n, q, k]" "shape y = [b, n, q, k]"
  shows "\<exists>z. broadcast_op f x y = Inr z \<and> shape z = [b, n, q, k] \<and>
    (\<forall>a<b. \<forall>c<n. \<forall>i<q. \<forall>j<k.
       tget z [a, c, i, j] = f (tget x [a, c, i, j]) (tget y [a, c, i, j]))"
proof -
  from broadcast_op_mask4 [OF assms, of f] obtain z where
    z: "broadcast_op f x y = Inr z" "shape z = [b, n, q, k]"
    "\<forall>a<b. \<forall>c<n. \<forall>i<q. \<forall>j<k.
       tget z [a, c, i, j] =
         f (tget x [a, c, i, j])
           (tget y [if b = 1 then 0 else a, if n = 1 then 0 else c, i, j])"
    by auto
  have "tget z [a, c, i, j] = f (tget x [a, c, i, j]) (tget y [a, c, i, j])"
    if "a < b" "c < n" "i < q" "j < k" for a c i j
  proof -
    have "(if b = 1 then 0 else a) = a" "(if n = 1 then 0 else c) = c"
      using that by auto
    then show ?thesis using z(3) that by simp
  qed
  then show ?thesis using z(1,2) by blast
qed

lemma transpose_2301:
  assumes "shape x = [q, k, B, N]"
  shows "\<exists>y. transpose_axes x [2, 3, 0, 1] = Inr y \<and> shape y = [B, N, q, k] \<and>
    (\<forall>a<B. \<forall>c<N. \<forall>i<q. \<forall>j<k. tget y [a, c, i, j] = tget x [i, j, a, c])"
  using assms
  by (simp add: transpose_axes_def index_of_def upt4 tget_tabulate)

lemma attn_score_entries:
  assumes ac: "shape ac = [b, n, q, k]" and bd: "shape bd = [b, n, q, k]"
    and ef: "case ef of None \<Rightarrow> True | Some e \<Rightarrow> shape e = [b, n, q, k]"
    and am: "case attn_mask of None \<Rightarrow> True
             | Some am \<Rightarrow> shape am = [q, k, B, N] \<and> (B = 1 \<or> B = b) \<and> (N = 1 \<or> N = n)"
  shows "\<exists>score. attn_score self ac bd ef attn_mask = Inr score \<and> shape score = [b, n, q, k] \<and>
    (\<forall>a<b. \<forall>c<n. \<forall>i<q. \<forall>j<k.
       tget score [a, c, i, j] =
         (case attn_mask of
            None \<Rightarrow>
              fmul (fadd (fadd (tget ac [a, c, i, j]) (tget bd [a, c, i, j]))
                      (case ef of None \<Rightarrow> 0 | Some e \<Rightarrow> tget e [a, c, i, j]))
                (float32 (scale self))
          | Some am \<Rightarrow>
              fsub (fmul (fadd (fadd (tget ac [a, c, i, j]) (tget bd [a, c, i, j]))
                            (case ef of None \<Rightarrow> 0 | Some e \<Rightarrow> tget e [a, c, i, j]))
                      (float32 (scale self)))
                (fmul (float32 (10 ^ 30))
                   (tget am [i, j, if B = 1 then 0 else a, if N = 1 then 0 else c]))))"
proof -
  from broadcast_op_same4 [OF ac bd, of fadd] obtain acbd where
    acbd: "broadcast_op fadd ac bd = Inr acbd" "shape acbd = [b, n, q, k]"
    "\<forall>a<b. \<forall>c<n. \<forall>i<q. \<forall>j<k.
       tget acbd [a, c, i, j] = fadd (tget ac [a, c, i, j]) (tget bd [a, c, i, j])"
    by blast
  obtain merged where
    mg: "(case ef of
             None \<Rightarrow> Inr (tmap (\<lambda>v. fadd v 0) acbd)
           | Some e \<Rightarrow> broadcast_op fadd acbd e) = Inr merged" "shape merged = [b, n, q, k]"
    "\<forall>a<b. \<forall>c<n. \<forall>i<q. \<forall>j<k.
       tget merged [a, c, i, j] = fadd (fadd (tget ac [a, c, i, j]) (tget bd [a, c, i, j]))
            (case ef of None \<Rightarrow> 0 | Some e \<Rightarrow> tget e [a, c, i, j])"
  proof (cases ef)
    case None
    then show ?thesis
      using that [of "tmap (\<lambda>v. fadd v 0) acbd"] acbd(2,3) by (simp add: tget_tmap)
  next
    case (Some e)
    then have "shape e = [b, n, q, k]" using ef by simp
    from broadcast_op_same4 [OF acbd(2) this, of fadd] obtain z where
      "broadcast_op fadd acbd e = Inr z" "shape z = [b, n, q, k]"
      "\<forall>a<b. \<forall>c<n. \<forall>i<q. \<forall>j<k.
         tget z [a, c, i, j] = fadd (tget acbd [a, c, i, j]) (tget e [a, c, i, j])"
      by blast
    then show ?thesis
      using that [of z] Some acbd(3) by simp
  qed
  let ?score = "tmap (\<lambda>v. fmul v (float32 (scale self))) merged"
  have sc: "shape ?score = [b, n, q, k]"
    "\<forall>a<b. \<forall>c<n. \<forall>i<q. \<forall>j<k.
       tget ?score [a, c, i, j] =
         fmul (fadd (fadd (tget ac [a, c, i, j]) (tget bd [a, c, i, j]))
                 (case ef of None \<Rightarrow> 0 | Some e \<Rightarrow> tget e [a, c, i, j]))
           (float32 (scale self))"
    using mg(2,3) by (simp_all add: tget_tmap)
  have unf: "attn_score self ac bd ef attn_mask =
      (case attn_mask of
            None \<Rightarrow> Inr ?score
          | Some am \<Rightarrow>
              bind (transpose_axes am [2, 3, 0, 1]) (\<lambda>am.
                broadcast_op fsub ?score (tmap (\<lambda>v. fmul (float32 (10 ^ 30)) v) am)))"
    by (simp only: attn_score_def acbd(1) mg(1) bind_Inr Let_def)
  show ?thesis
  proof (cases attn_mask)
    case None
    then show ?thesis using unf sc by simp
  next
    case (Some m)
    then have m: "shape m = [q, k, B, N]" "B = 1 \<or> B = b" "N = 1 \<or> N = n"
      using am by simp_all
    from transpose_2301 [OF m(1)] obtain mt where
      mt: "transpose_axes m [2, 3, 0, 1] = Inr mt" "shape mt = [B, N, q, k]"
      "\<forall>a<B. \<forall>c<N. \<forall>i<q. \<forall>j<k. tget mt [a, c, i, j] = tget m [i, j, a, c]"
      by blast
    let ?big = "tmap (\<lambda>v. fmul (float32 (10 ^ 30)) v) mt"
    have big: "shape ?big = [B, N, q, k]"
      using mt(2) by simp
    from broadcast_op_mask4 [OF sc(1) big m(2,3), of fsub] obtain z where
      z: "broadcast_op fsub ?score ?big = Inr z" "shape z = [b, n, q, k]"
      "\<forall>a<b. \<forall>c<n. \<forall>i<q. \<forall>j<k.
         tget z [a, c, i, j] =
           fsub (tget ?score [a, c, i, j])
             (tget ?big [if B = 1 then 0 else a, if N = 1 then 0 else c, i, j])"
      by blast
    have bg: "tget ?big [if B = 1 then 0 else a, if N = 1 then 0 else c, i, j]
        = fmul (float32 (10 ^ 30)) (tget m [i, j, if B = 1 then 0 else a, if N = 1 then 0 else c])"
      if "a < b" "c < n" "i < q" "j < k" for a c i j
    proof -
      have "(if B = 1 then 0 else a) < B" "(if N = 1 then 0 else c) < N"
        using m(2,3) that by auto
      then show ?thesis
        using mt(2,3) that by (simp add: tget_tmap)
    qed
    have "attn_score self ac bd ef attn_mask = Inr z"
      using unf Some mt(1) z(1) by (simp add: bind_Inr)
    then show ?thesis
      using z(2,3) sc(2) bg Some by (intro exI [of _ z]) simp
  qed
qed


lemma XLNetRelativeAttention_init_scale:
  assumes "XLNetRelativeAttention_init nh dh dm ln_fn drop_fn pq pk pv po pr rr rs rw se = Inr self"
  shows "scale self = 1 / sqrt (real dh)" and "0 < dh" and "d_head self = dh"
  using assms
  by (auto simp: XLNetRelativeAttention_init_def powr_half_sqrt split: if_splits)

lemma rel_attn_scores_no_segments:
  assumes "rel_attn_scores self q_head k_head_h k_head_r None = Inr (ac, bd, ef)"
  shows "ef = None"
  using assms unfolding rel_attn_scores_def
  by (auto simp: bind_def split: sum.splits)

lemma softmax_entries:
  assumes "softmax x 3 = Inr p"
  shows "shape p = shape x"
    and "valid_index (shape x) idx \<Longrightarrow>
      tget p idx = exp (tget x idx) / (\<Sum>j\<leftarrow>[0..<shape x ! 3]. exp (tget x (idx[3 := j])))"
  using assms
  by (auto simp: softmax_def norm_axis_def tget_tabulate split: option.splits if_splits)

text \<open>
  The steps of \<open>rel_attn_core\<close>, read off a call that returns: the score, its softmax
  along the key axis, the probabilities after dropout and head mask, and the two results
  computed from them.
\<close>

lemma rel_attn_core_stages:
  assumes "rel_attn_core self q_head k_head_h v_head_h k_head_r seg_mat attn_mask head_mask
       output_attentions = Inr (attn_vec, probs)"
  shows "\<exists>ac bd ef score p prob.
      rel_attn_scores self q_head k_head_h k_head_r seg_mat = Inr (ac, bd, ef)
    \<and> attn_score self ac bd ef attn_mask = Inr score
    \<and> softmax score 3 = Inr p
    \<and> (case head_mask of
          None \<Rightarrow> Inr (dropout self p)
        | Some hm \<Rightarrow> bind (transpose_axes hm [2, 3, 0, 1])
                       (\<lambda>hm. broadcast_op (*) (dropout self p) hm)) = Inr prob
    \<and> einsum4x4 ''bnij,jbnd->ibnd'' prob v_head_h = Inr attn_vec
    \<and> (if output_attentions
        then \<exists>pt. transpose_axes prob [2, 3, 0, 1] = Inr pt \<and> probs = Some pt
        else probs = None)"
proof -
  obtain ac bd ef where s1: "rel_attn_scores self q_head k_head_h k_head_r seg_mat = Inr (ac, bd, ef)"
    using assms unfolding rel_attn_core_def
    by (cases "rel_attn_scores self q_head k_head_h k_head_r seg_mat") (auto simp: bind_def)
  obtain score where s2: "attn_score self ac bd ef attn_mask = Inr score"
    using assms s1 unfolding rel_attn_core_def
    by (cases "attn_score self ac bd ef attn_mask") (auto simp: bind_def)
  obtain p where s3: "softmax score 3 = Inr p"
    using assms s1 s2 unfolding rel_attn_core_def
    by (cases "softmax score 3") (auto simp: bind_def)
  let ?hm = "case head_mask of
          None \<Rightarrow> Inr (dropout self p)
        | Some hm \<Rightarrow> bind (transpose_axes hm [2, 3, 0, 1])
                       (\<lambda>hm. broadcast_op (*) (dropout self p) hm)"
  have unf: "rel_attn_core self q_head k_head_h v_head_h k_head_r seg_mat attn_mask head_mask
       output_attentions =
     bind ?hm (\<lambda>attn_prob.
     bind (einsum4x4 ''bnij,jbnd->ibnd'' attn_prob v_head_h) (\<lambda>attn_vec.
       if output_attentions
       then bind (transpose_axes attn_prob [2, 3, 0, 1]) (\<lambda>p. Inr (attn_vec, Some p))
       else Inr (attn_vec, None)))"
    unfolding rel_attn_core_def by (simp only: s1 s2 s3 bind_Inr prod.case)
  obtain prob where s4: "?hm = Inr prob"
    using assms unfolding unf by (cases ?hm) (auto simp: bind_def)
  have unf2: "rel_attn_core self q_head k_head_h v_head_h k_head_r seg_mat attn_mask head_mask
       output_attentions =
     bind (einsum4x4 ''bnij,jbnd->ibnd'' prob v_head_h) (\<lambda>attn_vec.
       if output_attentions
       then bind (transpose_axes prob [2, 3, 0, 1]) (\<lambda>p. Inr (attn_vec, Some p))
       else Inr (attn_vec, None))"
    unfolding unf by (simp only: s4 bind_Inr)
  obtain av where s5: "einsum4x4 ''bnij,jbnd->ibnd'' prob v_head_h = Inr av"
    using assms unfolding unf2
    by (cases "einsum4x4 ''bnij,jbnd->ibnd'' prob v_head_h") (auto simp: bind_def)
  have fin: "(if output_attentions
       then bind (transpose_axes prob [2, 3, 0, 1]) (\<lambda>p. Inr (av, Some p))
       else Inr (av, None)) = Inr (attn_vec, probs)"
    using assms unfolding unf2 by (simp only: s5 bind_Inr)
  have s6: "av = attn_vec \<and> (if output_attentions
        then \<exists>pt. transpose_axes prob [2, 3, 0, 1] = Inr pt \<and> probs = Some pt
        else probs = None)"
    using fin by (cases "transpose_axes prob [2, 3, 0, 1]") (auto simp: bind_def split: if_splits)
  show ?thesis
    using s1 s2 s3 s4 s5 s6 by blast
qed


text \<open>
  What the two calls of \<open>einsum4x4\<close> and the relative shift in \<open>rel_attn_scores\<close>
  compute on heads of matching shapes: the content score contracts the query (plus the
  bias \<open>r_w_bias\<close>) with the content keys, and the position score contracts the query
  (plus \<open>r_r_bias\<close>) with the position key at index \<open>q - i + j\<close>.
\<close>

lemma einsum_bnij_unfold:
  "einsum4x4 ''ibnd,jbnd->bnij'' x y =
     bind (transpose_axes x [1, 2, 0, 3]) (\<lambda>x.
     bind (transpose_axes y [1, 2, 0, 3]) (\<lambda>y.
     bind (matmul x y True) (\<lambda>z. transpose_axes z [0, 1, 2, 3])))"
  by (simp add: einsum4x4_def py_set_def set_minus_def set_inter_def Let_def bind_Inr
      numeral_2_eq_2 numeral_3_eq_3)

lemma transpose_1203:
  assumes "shape x = [q, b, n, d]"
  shows "\<exists>y. transpose_axes x [1, 2, 0, 3] = Inr y \<and> shape y = [b, n, q, d] \<and> wf_tensor y \<and>
    (\<forall>a<b. \<forall>c<n. \<forall>i<q. \<forall>t<d. tget y [a, c, i, t] = tget x [i, a, c, t])"
  using assms
  by (simp add: transpose_axes_def index_of_def upt4 tget_tabulate)

lemma transpose_0123:
  assumes "shape x = [b, n, q, k]"
  shows "\<exists>y. transpose_axes x [0, 1, 2, 3] = Inr y \<and> shape y = [b, n, q, k] \<and> wf_tensor y \<and>
    (\<forall>a<b. \<forall>c<n. \<forall>i<q. \<forall>j<k. tget y [a, c, i, j] = tget x [a, c, i, j])"
  using assms
  by (simp add: transpose_axes_def index_of_def upt4 tget_tabulate)

lemma matmul_4d_transpose_y:
  assumes "shape x = [b, n, q, d]" "shape y = [b, n, k, d]"
  shows "\<exists>z. matmul x y True = Inr z \<and> shape z = [b, n, q, k] \<and>
    (\<forall>a<b. \<forall>c<n. \<forall>i<q. \<forall>j<k.
       tget z [a, c, i, j] = (\<Sum>t\<leftarrow>[0..<d]. tget x [a, c, i, t] * tget y [a, c, j, t]))"
proof -
  have bs: "broadcast_shapes [b, n] [b, n] = Some [b, n]"
    by (simp add: broadcast_shapes_def)
  have bi: "bindex [b, n] [a, c] = [a, c]" if "a < b" "c < n" for a c
    using that by (auto simp: bindex_def)
  show ?thesis
    using assms bs by (simp add: matmul_def Let_def tget_tabulate bi)
qed


lemma einsum_bnij_entries:
  assumes x: "shape x = [q, b, n, d]" and y: "shape y = [k, b, n, d]"
  shows "\<exists>z. einsum4x4 ''ibnd,jbnd->bnij'' x y = Inr z \<and> shape z = [b, n, q, k] \<and> wf_tensor z \<and>
    (\<forall>a<b. \<forall>c<n. \<forall>i<q. \<forall>j<k.
       tget z [a, c, i, j] = (\<Sum>t\<leftarrow>[0..<d]. tget x [i, a, c, t] * tget y [j, a, c, t]))"
proof -
  from transpose_1203 [OF x] obtain x' where
    x': "transpose_axes x [1, 2, 0, 3] = Inr x'" "shape x' = [b, n, q, d]"
    "\<forall>a<b. \<forall>c<n. \<forall>i<q. \<forall>t<d. tget x' [a, c, i, t] = tget x [i, a, c, t]"
    by blast
  from transpose_1203 [OF y] obtain y' where
    y': "transpose_axes y [1, 2, 0, 3] = Inr y'" "shape y' = [b, n, k, d]"
    "\<forall>a<b. \<forall>c<n. \<forall>j<k. \<forall>t<d. tget y' [a, c, j, t] = tget y [j, a, c, t]"
    by blast
  from matmul_4d_transpose_y [OF x'(2) y'(2)] obtain z where
    z: "matmul x' y' True = Inr z" "shape z = [b, n, q, k]"
    "\<forall>a<b. \<forall>c<n. \<forall>i<q. \<forall>j<k.
       tget z [a, c, i, j] = (\<Sum>t\<leftarrow>[0..<d]. tget x' [a, c, i, t] * tget y' [a, c, j, t])"
    by blast
  from transpose_0123 [OF z(2)] obtain w where
    w: "transpose_axes z [0, 1, 2, 3] = Inr w" "shape w = [b, n, q, k]" "wf_tensor w"
    "\<forall>a<b. \<forall>c<n. \<forall>i<q. \<forall>j<k. tget w [a, c, i, j] = tget z [a, c, i, j]"
    by blast
  have e: "einsum4x4 ''ibnd,jbnd->bnij'' x y = Inr w"
    by (simp only: einsum_bnij_unfold x'(1) y'(1) z(1) w(1) bind_Inr)
  have "tget w [a, c, i, j] = (\<Sum>t\<leftarrow>[0..<d]. tget x [i, a, c, t] * tget y [j, a, c, t])"
    if "a < b" "c < n" "i < q" "j < k" for a c i j
  proof -
    have "(\<Sum>t\<leftarrow>[0..<d]. tget x' [a, c, i, t] * tget y' [a, c, j, t])
        = (\<Sum>t\<leftarrow>[0..<d]. tget x [i, a, c, t] * tget y [j, a, c, t])"
      by (rule arg_cong [where f = sum_list], rule map_cong) (use that x'(3) y'(3) in simp_all)
    then show ?thesis using w(4) z(3) that by simp
  qed
  then show ?thesis using e w(2,3) by blast
qed

lemma add_bias_entries:
  assumes "shape x = [q, b, n, d]" "shape bias = [n, d]"
  shows "\<exists>z. broadcast_op (+) x bias = Inr z \<and> shape z = [q, b, n, d] \<and>
    (\<forall>i<q. \<forall>a<b. \<forall>c<n. \<forall>t<d. tget z [i, a, c, t] = tget x [i, a, c, t] + tget bias [c, t])"
proof -
  have bs: "broadcast_shapes [q, b, n, d] [n, d] = Some [q, b, n, d]"
    by (simp add: broadcast_shapes_def)
  have bx: "bindex [q, b, n, d] [i, a, c, t] = [i, a, c, t]"
    if "i < q" "a < b" "c < n" "t < d" for i a c t
    using that by (auto simp: bindex_def)
  have bb: "bindex [n, d] [i, a, c, t] = [c, t]" if "c < n" "t < d" for i a c t
    using that by (auto simp: bindex_def)
  show ?thesis
    using bs by (simp add: broadcast_op_def assms tget_tabulate bx bb)
qed

lemma rel_attn_scores_entries:
  assumes qh: "shape q_head = [q, b, n, d]" and kh: "shape k_head_h = [k, b, n, d]"
    and kr: "shape k_head_r = [p, b, n, d]"
    and rw: "shape (r_w_bias self) = [n, d]" and rr: "shape (r_r_bias self) = [n, d]"
    and q: "0 < q" and p: "1 < p" and kpos: "0 < k" and kp: "k < p"
  shows "\<exists>ac bd. rel_attn_scores self q_head k_head_h k_head_r None = Inr (ac, bd, None)
    \<and> shape ac = [b, n, q, k] \<and> shape bd = [b, n, q, k]
    \<and> (\<forall>a<b. \<forall>c<n. \<forall>i<q. \<forall>j<k.
          tget ac [a, c, i, j]
            = (\<Sum>t\<leftarrow>[0..<d]. (tget q_head [i, a, c, t] + tget (r_w_bias self) [c, t])
                               * tget k_head_h [j, a, c, t])
        \<and> (q - i + j < p \<longrightarrow>
              tget bd [a, c, i, j]
                = (\<Sum>t\<leftarrow>[0..<d]. (tget q_head [i, a, c, t] + tget (r_r_bias self) [c, t])
                                   * tget k_head_r [q - i + j, a, c, t])))"
proof -
  from add_bias_entries [OF qh rw] obtain q_w where
    q_w: "broadcast_op (+) q_head (r_w_bias self) = Inr q_w" "shape q_w = [q, b, n, d]"
    "\<forall>i<q. \<forall>a<b. \<forall>c<n. \<forall>t<d.
       tget q_w [i, a, c, t] = tget q_head [i, a, c, t] + tget (r_w_bias self) [c, t]"
    by blast
  from einsum_bnij_entries [OF q_w(2) kh] obtain ac where
    ac: "einsum4x4 ''ibnd,jbnd->bnij'' q_w k_head_h = Inr ac" "shape ac = [b, n, q, k]"
    "\<forall>a<b. \<forall>c<n. \<forall>i<q. \<forall>j<k.
       tget ac [a, c, i, j] = (\<Sum>t\<leftarrow>[0..<d]. tget q_w [i, a, c, t] * tget k_head_h [j, a, c, t])"
    by blast
  from add_bias_entries [OF qh rr] obtain q_r where
    q_r: "broadcast_op (+) q_head (r_r_bias self) = Inr q_r" "shape q_r = [q, b, n, d]"
    "\<forall>i<q. \<forall>a<b. \<forall>c<n. \<forall>t<d.
       tget q_r [i, a, c, t] = tget q_head [i, a, c, t] + tget (r_r_bias self) [c, t]"
    by blast
  from einsum_bnij_entries [OF q_r(2) kr] obtain bd0 where
    bd0: "einsum4x4 ''ibnd,jbnd->bnij'' q_r k_head_r = Inr bd0" "shape bd0 = [b, n, q, p]"
    "wf_tensor bd0"
    "\<forall>a<b. \<forall>c<n. \<forall>i<q. \<forall>j<p.
       tget bd0 [a, c, i, j] = (\<Sum>t\<leftarrow>[0..<d]. tget q_r [i, a, c, t] * tget k_head_r [j, a, c, t])"
    by blast
  have k0: "0 < int k" and k1: "int k \<le> int p - 1"
    using kp kpos by simp_all
  from rel_shift_bnij_entries [OF bd0(3,2) q p k0 k1] obtain bd where
    bd: "rel_shift_bnij bd0 (int k) = Inr bd" "shape bd = [b, n, q, nat (int k)]"
    "\<forall>a<b. \<forall>c<n. \<forall>i<q. \<forall>j<nat (int k).
       tget bd [a, c, i, j] = data bd0 ! (ravel [b, n, q, p] [a, c, 0, 0] + (q + i * (p - 1) + j))
       \<and> (q - i + j < p \<longrightarrow> tget bd [a, c, i, j] = tget bd0 [a, c, i, q - i + j])"
    by blast
  have res: "rel_attn_scores self q_head k_head_h k_head_r None = Inr (ac, bd, None)"
    unfolding rel_attn_scores_def
    by (simp only: q_w(1) ac(1) q_r(1) bd0(1) bind_Inr) (simp add: ac(2) bd(1) bind_Inr)
  have e_ac: "tget ac [a, c, i, j]
            = (\<Sum>t\<leftarrow>[0..<d]. (tget q_head [i, a, c, t] + tget (r_w_bias self) [c, t])
                               * tget k_head_h [j, a, c, t])"
    if "a < b" "c < n" "i < q" "j < k" for a c i j
  proof -
    have "(\<Sum>t\<leftarrow>[0..<d]. tget q_w [i, a, c, t] * tget k_head_h [j, a, c, t])
        = (\<Sum>t\<leftarrow>[0..<d]. (tget q_head [i, a, c, t] + tget (r_w_bias self) [c, t])
                               * tget k_head_h [j, a, c, t])"
      by (rule arg_cong [where f = sum_list], rule map_cong) (use that q_w(3) in simp_all)
    then show ?thesis using ac(3) that by simp
  qed
  have e_bd: "tget bd [a, c, i, j]
                = (\<Sum>t\<leftarrow>[0..<d]. (tget q_head [i, a, c, t] + tget (r_r_bias self) [c, t])
                                   * tget k_head_r [q - i + j, a, c, t])"
    if "a < b" "c < n" "i < q" "j < k" "q - i + j < p" for a c i j
  proof -
    have "(\<Sum>t\<leftarrow>[0..<d]. tget q_r [i, a, c, t] * tget k_head_r [q - i + j, a, c, t])
        = (\<Sum>t\<leftarrow>[0..<d]. (tget q_head [i, a, c, t] + tget (r_r_bias self) [c, t])
                               * tget k_head_r [q - i + j, a, c, t])"
      by (rule arg_cong [where f = sum_list], rule map_cong) (use that q_r(3) in simp_all)
    moreover have "tget bd [a, c, i, j] = tget bd0 [a, c, i, q - i + j]"
    proof -
      have jk: "j < nat (int k)" using that(4) by simp
      from bd(3) [rule_format, OF that(1) that(2) that(3) jk]
      have "q - i + j < p \<longrightarrow> tget bd [a, c, i, j] = tget bd0 [a, c, i, q - i + j]"
        by (rule conjunct2)
      with that(5) show ?thesis by blast
    qed
    ultimately show ?thesis using bd0(4) that by simp
  qed
  show ?thesis
    using res ac(2) bd(2) e_ac e_bd by (intro exI [of _ ac] exI [of _ bd]) simp
qed

lemma rel_attn_scores_then_score:
  assumes qh: "shape q_head = [q, b, n, d]" and kh: "shape k_head_h = [k, b, n, d]"
    and kr: "shape k_head_r = [p, b, n, d]"
    and rw: "shape (r_w_bias self) = [n, d]" and rr: "shape (r_r_bias self) = [n, d]"
    and q: "0 < q" and p: "1 < p" and kpos: "0 < k" and kp: "k < p"
    and am: "case attn_mask of None \<Rightarrow> True
             | Some am \<Rightarrow> shape am = [q, k, B, N] \<and> (B = 1 \<or> B = b) \<and> (N = 1 \<or> N = n)"
  shows "\<exists>ac bd score.
      rel_attn_scores self q_head k_head_h k_head_r None = Inr (ac, bd, None)
    \<and> shape ac = [b, n, q, k] \<and> shape bd = [b, n, q, k]
    \<and> attn_score self ac bd None attn_mask = Inr score \<and> shape score = [b, n, q, k]
    \<and> (\<forall>a<b. \<forall>c<n. \<forall>i<q. \<forall>j<k.
          tget score [a, c, i, j] =
            (case attn_mask of
               None \<Rightarrow>
                 fmul (fadd (fadd (tget ac [a, c, i, j]) (tget bd [a, c, i, j])) 0)
                   (float32 (scale self))
             | Some am \<Rightarrow>
                 fsub (fmul (fadd (fadd (tget ac [a, c, i, j]) (tget bd [a, c, i, j])) 0)
                         (float32 (scale self)))
                   (fmul (float32 (10 ^ 30))
                      (tget am [i, j, if B = 1 then 0 else a, if N = 1 then 0 else c]))))"
proof -
  from rel_attn_scores_entries [OF qh kh kr rw rr q p kpos kp] obtain ac bd where
    s: "rel_attn_scores self q_head k_head_h k_head_r None = Inr (ac, bd, None)"
    "shape ac = [b, n, q, k]" "shape bd = [b, n, q, k]"
    by blast
  have ef: "case None :: real tensor option of None \<Rightarrow> True | Some e \<Rightarrow> shape e = [b, n, q, k]"
    by simp
  from attn_score_entries [OF s(2,3) ef am, of self] obtain score where
    sc: "attn_score self ac bd None attn_mask = Inr score" "shape score = [b, n, q, k]"
    "\<forall>a<b. \<forall>c<n. \<forall>i<q. \<forall>j<k.
       tget score [a, c, i, j] =
         (case attn_mask of
            None \<Rightarrow>
              fmul (fadd (fadd (tget ac [a, c, i, j]) (tget bd [a, c, i, j]))
                      (case None :: real tensor option of None \<Rightarrow> 0 | Some e \<Rightarrow> tget e [a, c, i, j]))
                (float32 (scale self))
          | Some am \<Rightarrow>
              fsub (fmul (fadd (fadd (tget ac [a, c, i, j]) (tget bd [a, c, i, j]))
                            (case None :: real tensor option of None \<Rightarrow> 0 | Some e \<Rightarrow> tget e [a, c, i, j]))
                      (float32 (scale self)))
                (fmul (float32 (10 ^ 30))
                   (tget am [i, j, if B = 1 then 0 else a, if N = 1 then 0 else c])))"
    by (elim exE conjE)
  show ?thesis
    using s sc(1,2) sc(3)
    by (intro exI [of _ ac] exI [of _ bd] exI [of _ score]) (simp cong: option.case_cong)
qed

text \<open>
  Claim C2. The scale is \<open>1 / sqrt d_head\<close> for the \<open>d_head\<close> given to the constructor;
  without a segment matrix the segment score is absent and the number \<open>0\<close> is added in its
  place; the score before the softmax is \<open>(ac + bd + ef) * scale\<close>, and when a mask is
  given, that score less \<open>1e30\<close> times the entry of the mask for the same query and key
  position, every operation being the \<open>float32\<close> operation. So an entry of the score
  whose mask value is \<open>0\<close> is kept, and one whose mask value is \<open>1\<close> becomes
  \<open>-float32(1e30) = -(13234890 \<cdot> 2^76)\<close> whenever the score is below \<open>2^75\<close> in
  magnitude. The formula is stated for scores below \<open>2^100\<close>, a scale of at most \<open>1\<close>
  and mask values of at most \<open>1\<close> in magnitude, where no operation overflows. The
  attention probabilities are the softmax of that score along the last (key) axis, and the
  two results of \<open>rel_attn_core\<close> are computed from them. On heads of matching shapes
  the scores have the shape \<open>[b, n, q, k]\<close> the formula is stated for.
\<close>

theorem rel_attn_core_score_formula:
  "(\<forall>made. XLNetRelativeAttention_init nh dh dm ln_fn drop_fn pq pk pv po pr rr rs rw se = Inr made
        \<longrightarrow> d_head made = dh \<and> scale made = 1 / sqrt (real dh))
   \<and> (\<forall>ac bd ef. rel_attn_scores self q_head k_head_h k_head_r None = Inr (ac, bd, ef)
        \<longrightarrow> ef = None)
   \<and> (\<forall>ac bd ef b n q k B N.
        shape ac = [b, n, q, k] \<and> shape bd = [b, n, q, k]
        \<and> (case ef of None \<Rightarrow> True | Some e \<Rightarrow> shape e = [b, n, q, k])
        \<and> (case attn_mask of None \<Rightarrow> True
            | Some am \<Rightarrow> shape am = [q, k, B, N] \<and> (B = 1 \<or> B = b) \<and> (N = 1 \<or> N = n))
        \<and> entries_within (2 ^ 100) ac \<and> entries_within (2 ^ 100) bd
        \<and> (case ef of None \<Rightarrow> True | Some e \<Rightarrow> entries_within (2 ^ 100) e)
        \<and> \<bar>scale self\<bar> \<le> 1
        \<and> (case attn_mask of None \<Rightarrow> True | Some am \<Rightarrow> entries_within 1 am)
        \<longrightarrow> (\<exists>score. attn_score self ac bd ef attn_mask = Inr score
              \<and> shape score = [b, n, q, k]
              \<and> (\<forall>a<b. \<forall>c<n. \<forall>i<q. \<forall>j<k.
                    tget score [a, c, i, j] =
                      (case attn_mask of
                         None \<Rightarrow>
                           fmul (fadd (fadd (tget ac [a, c, i, j]) (tget bd [a, c, i, j]))
                                   (case ef of None \<Rightarrow> 0 | Some e \<Rightarrow> tget e [a, c, i, j]))
                             (float32 (scale self))
                       | Some am \<Rightarrow>
                           fsub (fmul (fadd (fadd (tget ac [a, c, i, j]) (tget bd [a, c, i, j]))
                                         (case ef of None \<Rightarrow> 0 | Some e \<Rightarrow> tget e [a, c, i, j]))
                                   (float32 (scale self)))
                             (fmul (float32 (10 ^ 30))
                                (tget am [i, j, if B = 1 then 0 else a, if N = 1 then 0 else c])))
                  \<and> (\<forall>am. attn_mask = Some am
                         \<and> tget am [i, j, if B = 1 then 0 else a, if N = 1 then 0 else c] = 0
                       \<longrightarrow> tget score [a, c, i, j] =
                             float32 (fmul (fadd (fadd (tget ac [a, c, i, j]) (tget bd [a, c, i, j]))
                                              (case ef of None \<Rightarrow> 0 | Some e \<Rightarrow> tget e [a, c, i, j]))
                                        (float32 (scale self))))
                  \<and> (\<forall>am. attn_mask = Some am
                         \<and> tget am [i, j, if B = 1 then 0 else a, if N = 1 then 0 else c] = 1
                         \<and> \<bar>fmul (fadd (fadd (tget ac [a, c, i, j]) (tget bd [a, c, i, j]))
                                     (case ef of None \<Rightarrow> 0 | Some e \<Rightarrow> tget e [a, c, i, j]))
                               (float32 (scale self))\<bar> < 2 ^ 75
                       \<longrightarrow> tget score [a, c, i, j] = - (13234890 * 2 ^ 76)))))
   \<and> (\<forall>attn_vec probs.
        rel_attn_core self q_head k_head_h v_head_h k_head_r seg_mat attn_mask head_mask
          output_attentions = Inr (attn_vec, probs)
        \<longrightarrow> (\<exists>ac bd ef score p prob.
               rel_attn_scores self q_head k_head_h k_head_r seg_mat = Inr (ac, bd, ef)
             \<and> attn_score self ac bd ef attn_mask = Inr score
             \<and> softmax score 3 = Inr p
             \<and> shape p = shape score
             \<and> (\<forall>idx. valid_index (shape score) idx \<longrightarrow>
                   tget p idx = exp (tget score idx)
                     / (\<Sum>j\<leftarrow>[0..<shape score ! 3]. exp (tget score (idx[3 := j]))))
             \<and> (case head_mask of
                   None \<Rightarrow> Inr (dropout self p)
                 | Some hm \<Rightarrow> bind (transpose_axes hm [2, 3, 0, 1])
                                (\<lambda>hm. broadcast_op (*) (dropout self p) hm)) = Inr prob
             \<and> einsum4x4 ''bnij,jbnd->ibnd'' prob v_head_h = Inr attn_vec
             \<and> (if output_attentions
                 then \<exists>pt. transpose_axes prob [2, 3, 0, 1] = Inr pt \<and> probs = Some pt
                 else probs = None)))
   \<and> (\<forall>b n q k d p B N.
        shape q_head = [q, b, n, d] \<and> shape k_head_h = [k, b, n, d]
        \<and> shape k_head_r = [p, b, n, d]
        \<and> shape (r_w_bias self) = [n, d] \<and> shape (r_r_bias self) = [n, d]
        \<and> 0 < q \<and> 1 < p \<and> 0 < k \<and> k < p
        \<and> (case attn_mask of None \<Rightarrow> True
            | Some am \<Rightarrow> shape am = [q, k, B, N] \<and> (B = 1 \<or> B = b) \<and> (N = 1 \<or> N = n))
        \<longrightarrow> (\<exists>ac bd score.
               rel_attn_scores self q_head k_head_h k_head_r None = Inr (ac, bd, None)
             \<and> shape ac = [b, n, q, k] \<and> shape bd = [b, n, q, k]
             \<and> attn_score self ac bd None attn_mask = Inr score \<and> shape score = [b, n, q, k]))"
proof -
  have sc: "\<forall>made. XLNetRelativeAttention_init nh dh dm ln_fn drop_fn pq pk pv po pr rr rs rw se
        = Inr made \<longrightarrow> d_head made = dh \<and> scale made = 1 / sqrt (real dh)"
    by (metis XLNetRelativeAttention_init_scale(1,3))
  have seg: "\<forall>ac bd ef. rel_attn_scores self q_head k_head_h k_head_r None = Inr (ac, bd, ef)
        \<longrightarrow> ef = None"
    using rel_attn_scores_no_segments by blast
  have form: "\<exists>score. attn_score self ac bd ef attn_mask = Inr score
              \<and> shape score = [b, n, q, k]
              \<and> (\<forall>a<b. \<forall>c<n. \<forall>i<q. \<forall>j<k.
                    tget score [a, c, i, j] =
                      (case attn_mask of
                         None \<Rightarrow>
                           fmul (fadd (fadd (tget ac [a, c, i, j]) (tget bd [a, c, i, j]))
                                   (case ef of None \<Rightarrow> 0 | Some e \<Rightarrow> tget e [a, c, i, j]))
                             (float32 (scale self))
                       | Some am \<Rightarrow>
                           fsub (fmul (fadd (fadd (tget ac [a, c, i, j]) (tget bd [a, c, i, j]))
                                         (case ef of None \<Rightarrow> 0 | Some e \<Rightarrow> tget e [a, c, i, j]))
                                   (float32 (scale self)))
                             (fmul (float32 (10 ^ 30))
                                (tget am [i, j, if B = 1 then 0 else a, if N = 1 then 0 else c])))
                  \<and> (\<forall>am. attn_mask = Some am
                         \<and> tget am [i, j, if B = 1 then 0 else a, if N = 1 then 0 else c] = 0
                       \<longrightarrow> tget score [a, c, i, j] =
                             float32 (fmul (fadd (fadd (tget ac [a, c, i, j]) (tget bd [a, c, i, j]))
                                              (case ef of None \<Rightarrow> 0 | Some e \<Rightarrow> tget e [a, c, i, j]))
                                        (float32 (scale self))))
                  \<and> (\<forall>am. attn_mask = Some am
                         \<and> tget am [i, j, if B = 1 then 0 else a, if N = 1 then 0 else c] = 1
                         \<and> \<bar>fmul (fadd (fadd (tget ac [a, c, i, j]) (tget bd [a, c, i, j]))
                                     (case ef of None \<Rightarrow> 0 | Some e \<Rightarrow> tget e [a, c, i, j]))
                               (float32 (scale self))\<bar> < 2 ^ 75
                       \<longrightarrow> tget score [a, c, i, j] = - (13234890 * 2 ^ 76)))"
    if h: "shape ac = [b, n, q, k] \<and> shape bd = [b, n, q, k]
        \<and> (case ef of None \<Rightarrow> True | Some e \<Rightarrow> shape e = [b, n, q, k])
        \<and> (case attn_mask of None \<Rightarrow> True
            | Some am \<Rightarrow> shape am = [q, k, B, N] \<and> (B = 1 \<or> B = b) \<and> (N = 1 \<or> N = n))
        \<and> entries_within (2 ^ 100) ac \<and> entries_within (2 ^ 100) bd
        \<and> (case ef of None \<Rightarrow> True | Some e \<Rightarrow> entries_within (2 ^ 100) e)
        \<and> \<bar>scale self\<bar> \<le> 1
        \<and> (case attn_mask of None \<Rightarrow> True | Some am \<Rightarrow> entries_within 1 am)"
    for ac bd ef b n q k B N
  proof -
    have h1: "shape ac = [b, n, q, k]" and h2: "shape bd = [b, n, q, k]"
      and h3: "case ef of None \<Rightarrow> True | Some e \<Rightarrow> shape e = [b, n, q, k]"
      and h4: "case attn_mask of None \<Rightarrow> True
            | Some am \<Rightarrow> shape am = [q, k, B, N] \<and> (B = 1 \<or> B = b) \<and> (N = 1 \<or> N = n)"
      using h by simp_all
    from attn_score_entries [OF h1 h2 h3 h4, of self] obtain score where
      s: "attn_score self ac bd ef attn_mask = Inr score" "shape score = [b, n, q, k]"
      and e: "\<forall>a<b. \<forall>c<n. \<forall>i<q. \<forall>j<k.
       tget score [a, c, i, j] =
         (case attn_mask of
            None \<Rightarrow>
              fmul (fadd (fadd (tget ac [a, c, i, j]) (tget bd [a, c, i, j]))
                      (case ef of None \<Rightarrow> 0 | Some e \<Rightarrow> tget e [a, c, i, j]))
                (float32 (scale self))
          | Some am \<Rightarrow>
              fsub (fmul (fadd (fadd (tget ac [a, c, i, j]) (tget bd [a, c, i, j]))
                            (case ef of None \<Rightarrow> 0 | Some e \<Rightarrow> tget e [a, c, i, j]))
                      (float32 (scale self)))
                (fmul (float32 (10 ^ 30))
                   (tget am [i, j, if B = 1 then 0 else a, if N = 1 then 0 else c])))"
      by (elim exE conjE)
    have z: "tget score [a, c, i, j] =
          float32 (fmul (fadd (fadd (tget ac [a, c, i, j]) (tget bd [a, c, i, j]))
                           (case ef of None \<Rightarrow> 0 | Some e \<Rightarrow> tget e [a, c, i, j]))
                     (float32 (scale self)))"
      if "a < b" "c < n" "i < q" "j < k" "attn_mask = Some am"
        "tget am [i, j, if B = 1 then 0 else a, if N = 1 then 0 else c] = 0" for a c i j am
    proof -
      have "tget score [a, c, i, j] =
          fsub (fmul (fadd (fadd (tget ac [a, c, i, j]) (tget bd [a, c, i, j]))
                            (case ef of None \<Rightarrow> 0 | Some e \<Rightarrow> tget e [a, c, i, j]))
                      (float32 (scale self)))
               (fmul (float32 (10 ^ 30)) 0)"
        using e [rule_format, OF that(1-4)] that(5,6) by (simp only: option.case)
      then show ?thesis
        by (simp only: fmul_1e30(1) fsub_0)
    qed
    have o: "tget score [a, c, i, j] = - (13234890 * 2 ^ 76)"
      if "a < b" "c < n" "i < q" "j < k" "attn_mask = Some am"
        "tget am [i, j, if B = 1 then 0 else a, if N = 1 then 0 else c] = 1"
        "\<bar>fmul (fadd (fadd (tget ac [a, c, i, j]) (tget bd [a, c, i, j]))
                 (case ef of None \<Rightarrow> 0 | Some e \<Rightarrow> tget e [a, c, i, j]))
           (float32 (scale self))\<bar> < 2 ^ 75" for a c i j am
    proof -
      have "tget score [a, c, i, j] =
          fsub (fmul (fadd (fadd (tget ac [a, c, i, j]) (tget bd [a, c, i, j]))
                            (case ef of None \<Rightarrow> 0 | Some e \<Rightarrow> tget e [a, c, i, j]))
                      (float32 (scale self)))
               (fmul (float32 (10 ^ 30)) 1)"
        using e [rule_format, OF that(1-4)] that(5,6) by (simp only: option.case)
      also have "\<dots> = - (13234890 * 2 ^ 76)"
        unfolding fmul_1e30(2) using that(7) by (rule fsub_absorbed)
      finally show ?thesis .
    qed
    show ?thesis
      using s e z o by (intro exI [of _ score]) blast
  qed
  have core: "\<exists>ac bd ef score p prob.
               rel_attn_scores self q_head k_head_h k_head_r seg_mat = Inr (ac, bd, ef)
             \<and> attn_score self ac bd ef attn_mask = Inr score
             \<and> softmax score 3 = Inr p
             \<and> shape p = shape score
             \<and> (\<forall>idx. valid_index (shape score) idx \<longrightarrow>
                   tget p idx = exp (tget score idx)
                     / (\<Sum>j\<leftarrow>[0..<shape score ! 3]. exp (tget score (idx[3 := j]))))
             \<and> (case head_mask of
                   None \<Rightarrow> Inr (dropout self p)
                 | Some hm \<Rightarrow> bind (transpose_axes hm [2, 3, 0, 1])
                                (\<lambda>hm. broadcast_op (*) (dropout self p) hm)) = Inr prob
             \<and> einsum4x4 ''bnij,jbnd->ibnd'' prob v_head_h = Inr attn_vec
             \<and> (if output_attentions
                 then \<exists>pt. transpose_axes prob [2, 3, 0, 1] = Inr pt \<and> probs = Some pt
                 else probs = None)"
    if "rel_attn_core self q_head k_head_h v_head_h k_head_r seg_mat attn_mask head_mask
          output_attentions = Inr (attn_vec, probs)" for attn_vec probs
  proof -
    from rel_attn_core_stages [OF that] obtain ac bd ef score p prob where
      st: "rel_attn_scores self q_head k_head_h k_head_r seg_mat = Inr (ac, bd, ef)"
      "attn_score self ac bd ef attn_mask = Inr score" "softmax score 3 = Inr p"
      "(case head_mask of
          None \<Rightarrow> Inr (dropout self p)
        | Some hm \<Rightarrow> bind (transpose_axes hm [2, 3, 0, 1])
                       (\<lambda>hm. broadcast_op (*) (dropout self p) hm)) = Inr prob"
      "einsum4x4 ''bnij,jbnd->ibnd'' prob v_head_h = Inr attn_vec"
      "if output_attentions
        then \<exists>pt. transpose_axes prob [2, 3, 0, 1] = Inr pt \<and> probs = Some pt
        else probs = None"
      by (elim exE conjE)
    have "shape p = shape score"
      and "\<forall>idx. valid_index (shape score) idx \<longrightarrow>
                   tget p idx = exp (tget score idx)
                     / (\<Sum>j\<leftarrow>[0..<shape score ! 3]. exp (tget score (idx[3 := j])))"
      using softmax_entries [OF st(3)] by simp_all
    with st show ?thesis
      by (intro exI [of _ ac] exI [of _ bd] exI [of _ ef] exI [of _ score] exI [of _ p]
          exI [of _ prob]) (simp only: simp_thms)
  qed
  have whole: "\<exists>ac bd score.
               rel_attn_scores self q_head k_head_h k_head_r None = Inr (ac, bd, None)
             \<and> shape ac = [b, n, q, k] \<and> shape bd = [b, n, q, k]
             \<and> attn_score self ac bd None attn_mask = Inr score \<and> shape score = [b, n, q, k]"
    if h: "shape q_head = [q, b, n, d] \<and> shape k_head_h = [k, b, n, d]
        \<and> shape k_head_r = [p, b, n, d]
        \<and> shape (r_w_bias self) = [n, d] \<and> shape (r_r_bias self) = [n, d]
        \<and> 0 < q \<and> 1 < p \<and> 0 < k \<and> k < p
        \<and> (case attn_mask of None \<Rightarrow> True
            | Some am \<Rightarrow> shape am = [q, k, B, N] \<and> (B = 1 \<or> B = b) \<and> (N = 1 \<or> N = n))"
    for b n q k d p B N
  proof -
    have "\<exists>ac bd score.
      rel_attn_scores self q_head k_head_h k_head_r None = Inr (ac, bd, None)
    \<and> shape ac = [b, n, q, k] \<and> shape bd = [b, n, q, k]
    \<and> attn_score self ac bd None attn_mask = Inr score \<and> shape score = [b, n, q, k]
    \<and> (\<forall>a<b. \<forall>c<n. \<forall>i<q. \<forall>j<k.
          tget score [a, c, i, j] =
            (case attn_mask of
               None \<Rightarrow>
                 fmul (fadd (fadd (tget ac [a, c, i, j]) (tget bd [a, c, i, j])) 0)
                   (float32 (scale self))
             | Some am \<Rightarrow>
                 fsub (fmul (fadd (fadd (tget ac [a, c, i, j]) (tget bd [a, c, i, j])) 0)
                         (float32 (scale self)))
                   (fmul (float32 (10 ^ 30))
                      (tget am [i, j, if B = 1 then 0 else a, if N = 1 then 0 else c]))))"
      by (rule rel_attn_scores_then_score [where p = p and d = d]) (use h in simp_all)
    then show ?thesis
      by blast
  qed
  show ?thesis
    using sc seg form core whole by (intro conjI allI impI) blast+
qed


theorem rel_attn_core_score_formula_witness:
  "(\<exists>made. XLNetRelativeAttention_init 1 4 4 (\<lambda>x. x) (\<lambda>x. x)
        (zeros [4, 4]) (zeros [4, 4]) (zeros [4, 4]) (zeros [4, 4]) (zeros [4, 4])
        (zeros [1, 4]) (zeros [1, 4]) (zeros [1, 4]) (zeros [2, 1, 4]) = Inr made
      \<and> d_head made = 4 \<and> scale made = 1 / 2)
   \<and> (\<exists>score.
        attn_score
          \<lparr>n_head = 1, d_head = 4, attn_d_model = 4, scale = 1 / 2,
           w_q = zeros [4, 4], w_k = zeros [4, 4], w_v = zeros [4, 4], w_o = zeros [4, 4],
           w_r = zeros [4, 4], r_r_bias = zeros [1, 4], r_s_bias = zeros [1, 4],
           r_w_bias = zeros [1, 4], seg_embed = zeros [2, 1, 4],
           layer_norm = (\<lambda>x. x), dropout = (\<lambda>x. x)\<rparr>
          \<lparr>shape = [1, 1, 1, 2], data = [5, 1]\<rparr> \<lparr>shape = [1, 1, 1, 2], data = [2, 3]\<rparr> None
          (Some \<lparr>shape = [1, 2, 1, 1], data = [0, 1]\<rparr>) = Inr score
      \<and> shape score = [1, 1, 1, 2]
      \<and> tget score [0, 0, 0, 0] = 7 / 2
      \<and> tget score [0, 0, 0, 1] = - (13234890 * 2 ^ 76))"
proof -
  let ?self = "\<lparr>n_head = 1, d_head = 4, attn_d_model = 4, scale = 1 / 2,
           w_q = zeros [4, 4], w_k = zeros [4, 4], w_v = zeros [4, 4], w_o = zeros [4, 4],
           w_r = zeros [4, 4], r_r_bias = zeros [1, 4], r_s_bias = zeros [1, 4],
           r_w_bias = zeros [1, 4], seg_embed = zeros [2, 1, 4],
           layer_norm = (\<lambda>x. x), dropout = (\<lambda>x. x)\<rparr>"
  let ?ac = "\<lparr>shape = [1, 1, 1, 2], data = [5, 1::real]\<rparr>"
  let ?bd = "\<lparr>shape = [1, 1, 1, 2], data = [2, 3::real]\<rparr>"
  let ?am = "\<lparr>shape = [1, 2, 1, 1], data = [0, 1::real]\<rparr>"
  note T = rel_attn_core_score_formula [where nh = 1 and dh = 4 and dm = 4
      and ln_fn = "\<lambda>x. x" and drop_fn = "\<lambda>x. x"
      and pq = "zeros [4, 4]" and pk = "zeros [4, 4]" and pv = "zeros [4, 4]"
      and po = "zeros [4, 4]" and pr = "zeros [4, 4]"
      and rr = "zeros [1, 4]" and rs = "zeros [1, 4]" and rw = "zeros [1, 4]"
      and se = "zeros [2, 1, 4]" and self = ?self and attn_mask = "Some ?am"]
  obtain made where made: "XLNetRelativeAttention_init 1 4 4 (\<lambda>x. x) (\<lambda>x. x)
        (zeros [4, 4]) (zeros [4, 4]) (zeros [4, 4]) (zeros [4, 4]) (zeros [4, 4])
        (zeros [1, 4]) (zeros [1, 4]) (zeros [1, 4]) (zeros [2, 1, 4]) = Inr made"
    by (simp add: XLNetRelativeAttention_init_def)
  have "d_head made = 4 \<and> scale made = 1 / sqrt (real 4)"
    using T [THEN conjunct1, rule_format, OF made] .
  then have s: "d_head made = 4" "scale made = 1 / 2"
    using real_sqrt_four by simp_all
  have pre: "shape ?ac = [1, 1, 1, 2] \<and> shape ?bd = [1, 1, 1, 2]
        \<and> (case None :: real tensor option of None \<Rightarrow> True | Some e \<Rightarrow> shape e = [1, 1, 1, 2])
        \<and> (case Some ?am of None \<Rightarrow> True
            | Some am \<Rightarrow> shape am = [1, 2, 1, 1] \<and> (1 = 1 \<or> 1 = (1::nat)) \<and> (1 = 1 \<or> 1 = (1::nat)))
        \<and> entries_within (2 ^ 100) ?ac \<and> entries_within (2 ^ 100) ?bd
        \<and> (case None :: real tensor option of None \<Rightarrow> True | Some e \<Rightarrow> entries_within (2 ^ 100) e)
        \<and> \<bar>scale ?self\<bar> \<le> 1
        \<and> (case Some ?am of None \<Rightarrow> True | Some am \<Rightarrow> entries_within 1 am)"
    by (simp add: entries_within_def)
  from T [THEN conjunct2, THEN conjunct2, THEN conjunct1, rule_format, OF pre]
  obtain score where sc: "attn_score ?self ?ac ?bd None (Some ?am) = Inr score"
    "shape score = [1, 1, 1, 2]"
    and e: "\<forall>a<1. \<forall>c<1. \<forall>i<1. \<forall>j<2.
       tget score [a, c, i, j] =
         (case Some ?am of
            None \<Rightarrow>
              fmul (fadd (fadd (tget ?ac [a, c, i, j]) (tget ?bd [a, c, i, j]))
                      (case None :: real tensor option of None \<Rightarrow> 0 | Some e \<Rightarrow> tget e [a, c, i, j]))
                (float32 (scale ?self))
          | Some am \<Rightarrow>
              fsub (fmul (fadd (fadd (tget ?ac [a, c, i, j]) (tget ?bd [a, c, i, j]))
                            (case None :: real tensor option of None \<Rightarrow> 0 | Some e \<Rightarrow> tget e [a, c, i, j]))
                      (float32 (scale ?self)))
                (fmul (float32 (10 ^ 30))
                   (tget am [i, j, if 1 = (1::nat) then 0 else a, if 1 = (1::nat) then 0 else c])))
       \<and> (\<forall>am. Some ?am = Some am
              \<and> tget am [i, j, if 1 = (1::nat) then 0 else a, if 1 = (1::nat) then 0 else c] = 0
            \<longrightarrow> tget score [a, c, i, j] =
                  float32 (fmul (fadd (fadd (tget ?ac [a, c, i, j]) (tget ?bd [a, c, i, j]))
                                   (case None :: real tensor option of None \<Rightarrow> 0 | Some e \<Rightarrow> tget e [a, c, i, j]))
                             (float32 (scale ?self))))
       \<and> (\<forall>am. Some ?am = Some am
              \<and> tget am [i, j, if 1 = (1::nat) then 0 else a, if 1 = (1::nat) then 0 else c] = 1
              \<and> \<bar>fmul (fadd (fadd (tget ?ac [a, c, i, j]) (tget ?bd [a, c, i, j]))
                          (case None :: real tensor option of None \<Rightarrow> 0 | Some e \<Rightarrow> tget e [a, c, i, j]))
                    (float32 (scale ?self))\<bar> < 2 ^ 75
            \<longrightarrow> tget score [a, c, i, j] = - (13234890 * 2 ^ 76))"
    by (elim exE conjE)
  have m0: "fmul (fadd (fadd 5 2) 0) (float32 (1 / 2)) = 7 / 2"
    and m1: "fmul (fadd (fadd 1 3) 0) (float32 (1 / 2)) = 2"
    by (simp_all add: fadd_def fmul_def float32_small)
  have e0: "tget score [0, 0, 0, 0] = float32 (7 / 2)"
    using e [rule_format, of 0 0 0 0, THEN conjunct2, THEN conjunct1, rule_format, of ?am]
    by (simp add: tget_def numel_def m0)
  have "\<bar>2 :: real\<bar> < 2 ^ 75"
    by simp
  then have e1: "tget score [0, 0, 0, 1] = - (13234890 * 2 ^ 76)"
    using e [rule_format, of 0 0 0 1, THEN conjunct2, THEN conjunct2, rule_format, of ?am]
    by (simp add: tget_def numel_def m1)
  show ?thesis
    using made s sc e0 e1 by (simp add: float32_small)
qed


section \<open>The content-only path with memory\<close>

lemma matmul_3d_2d:
  assumes "shape x = [s, b, dm]" "shape w = [dm, nd]"
  shows "\<exists>y. matmul x w False = Inr y \<and> shape y = [s, b, nd] \<and> wf_tensor y"
  using assms by (simp add: matmul_def Let_def broadcast_shapes_def)

lemma reshape4_positive:
  assumes "wf_tensor y" "0 < q" "0 < b" "0 < n" "0 < d"
  shows "reshape y [int q, int b, int n, int d] =
     (if numel (shape y) = q * (b * (n * d))
      then Inr \<lparr>shape = [q, b, n, d], data = data y\<rparr>
      else Inl (ShapeError ''number of elements differs''))"
proof -
  have "(int q * (int b * (int n * int d)) = int (numel (shape y)))
      = (numel (shape y) = q * (b * (n * d)))"
    by (metis of_nat_mult of_nat_eq_iff)
  then show ?thesis
    using assms by (simp add: reshape_def Let_def upt4 wf_tensor_def)
qed

lemma heads_length:
  assumes "shape x = [s, b, dm]" "shape w = [dm, n * d]" "0 < q" "0 < b" "0 < n" "0 < d"
  shows "heads x w [int q, int b, int n, int d] =
     (if s = q then heads x w [int q, int b, int n, int d]
      else Inl (ShapeError ''number of elements differs''))"
    and "s = q \<Longrightarrow> \<exists>y. heads x w [int q, int b, int n, int d] = Inr y \<and> shape y = [q, b, n, d]"
proof -
  from matmul_3d_2d [OF assms(1,2)] obtain y where
    y: "matmul x w False = Inr y" "shape y = [s, b, n * d]" "wf_tensor y"
    by blast
  have r: "reshape y [int q, int b, int n, int d] =
     (if s = q
      then Inr \<lparr>shape = [q, b, n, d], data = data y\<rparr>
      else Inl (ShapeError ''number of elements differs''))"
    using reshape4_positive [OF y(3) assms(3-6)] assms(4-6)
    by (simp add: y(2) numel_def)
  show "heads x w [int q, int b, int n, int d] =
     (if s = q then heads x w [int q, int b, int n, int d]
      else Inl (ShapeError ''number of elements differs''))"
    using y(1) r by (simp add: heads_def bind_Inr)
  show "\<exists>y. heads x w [int q, int b, int n, int d] = Inr y \<and> shape y = [q, b, n, d]" if "s = q"
    using y(1) r that by (simp add: heads_def bind_Inr)
qed

lemma content_path_with_memory:
  assumes h: "shape h = [qlen, bsz, dm]" and m: "shape m = [mlen, bsz, dm]"
    and wq: "shape (w_q self) = [dm, n_head self * d_head self]"
    and wk: "shape (w_k self) = [dm, n_head self * d_head self]"
    and pos: "0 < mlen" "0 < qlen" "0 < bsz" "0 < n_head self" "0 < d_head self"
  shows "XLNetRelativeAttention_forward self h None attn_mask_h attn_mask_g r seg_mat (Some m)
       target_mapping head_mask output_attentions
     = Inl (ShapeError ''number of elements differs'')"
    and "\<exists>cat k_head_h. concat_mems (Some m) h = Inr cat
       \<and> heads cat (w_k self) [int (shape cat ! 0), int (shape cat ! 1),
             int (n_head self), int (d_head self)] = Inr k_head_h
       \<and> shape k_head_h = [mlen + qlen, bsz, n_head self, d_head self]"
proof -
  from concat2_axis0 [OF m h] obtain cat where
    cat: "concat2 m h 0 = Inr cat" "shape cat = [mlen + qlen, bsz, dm]"
    by blast
  have cm: "concat_mems (Some m) h = Inr cat"
    using cat(1) m by (simp add: concat_mems_def)
  from heads_length(2) [OF h wq pos(2,3,4,5) refl] obtain qh where
    qh: "heads h (w_q self) [int qlen, int bsz, int (n_head self), int (d_head self)] = Inr qh"
    by blast
  have kh: "heads cat (w_k self) [int qlen, int bsz, int (n_head self), int (d_head self)]
      = Inl (ShapeError ''number of elements differs'')"
    using heads_length(1) [OF cat(2) wk pos(2,3,4,5)] pos(1) by simp
  show "XLNetRelativeAttention_forward self h None attn_mask_h attn_mask_g r seg_mat (Some m)
       target_mapping head_mask output_attentions
     = Inl (ShapeError ''number of elements differs'')"
    unfolding XLNetRelativeAttention_forward_def Let_def
    by (simp only: option.case cm bind_Inr h nth_Cons_0 nth_Cons_Suc One_nat_def qh kh bind_Inl)
  have pos': "0 < mlen + qlen" using pos(1) by simp
  from heads_length(2) [OF cat(2) wk pos' pos(3,4,5) refl] obtain k where
    "heads cat (w_k self) [int (mlen + qlen), int bsz, int (n_head self), int (d_head self)] = Inr k"
    "shape k = [mlen + qlen, bsz, n_head self, d_head self]"
    by blast
  then show "\<exists>cat k_head_h. concat_mems (Some m) h = Inr cat
       \<and> heads cat (w_k self) [int (shape cat ! 0), int (shape cat ! 1),
             int (n_head self), int (d_head self)] = Inr k_head_h
       \<and> shape k_head_h = [mlen + qlen, bsz, n_head self, d_head self]"
    using cm cat(2) by simp
qed


text \<open>
  Claim C3 describes key and value heads of sequence length \<open>mlen + qlen\<close> in the
  content-only path. The code there reshapes \<open>matmul(cat, self.k)\<close>, which has
  \<open>mlen + qlen\<close> positions, to \<open>[h.shape[0], h.shape[1], n_head, d_head]\<close>, that is to
  \<open>qlen\<close> positions, and \<open>reshape\<close> raises as soon as \<open>mlen > 0\<close>
  (lemma \<open>content_path_with_memory\<close>). The two-stream path reshapes the same product to
  \<open>[cat.shape[0], cat.shape[1], n_head, d_head]\<close>, which gives the heads the claim
  describes. The theorem evaluates both at one input.
\<close>

theorem content_path_memory_failing_input:
  "XLNetRelativeAttention_forward
     \<lparr>n_head = 1, d_head = 1, attn_d_model = 1, scale = 1,
      w_q = \<lparr>shape = [1, 1], data = [1]\<rparr>, w_k = \<lparr>shape = [1, 1], data = [1]\<rparr>,
      w_v = \<lparr>shape = [1, 1], data = [1]\<rparr>, w_o = \<lparr>shape = [1, 1], data = [1]\<rparr>,
      w_r = \<lparr>shape = [1, 1], data = [1]\<rparr>,
      r_r_bias = zeros [1, 1], r_s_bias = zeros [1, 1], r_w_bias = zeros [1, 1],
      seg_embed = zeros [2, 1, 1], layer_norm = (\<lambda>x. x), dropout = (\<lambda>x. x)\<rparr>
     \<lparr>shape = [1, 1, 1], data = [1]\<rparr> None None None
     \<lparr>shape = [3, 1, 1], data = [1, 2, 3]\<rparr> None
     (Some \<lparr>shape = [1, 1, 1], data = [5]\<rparr>) None None False
   = Inl (ShapeError ''number of elements differs'')
   \<and> (\<exists>cat k_head_h.
        concat_mems (Some \<lparr>shape = [1, 1, 1], data = [5]\<rparr>) \<lparr>shape = [1, 1, 1], data = [1]\<rparr>
          = Inr cat
      \<and> heads cat \<lparr>shape = [1, 1], data = [1]\<rparr>
            [int (shape cat ! 0), int (shape cat ! 1), 1, 1] = Inr k_head_h
      \<and> shape k_head_h = [2, 1, 1, 1])"
proof -
  let ?self = "\<lparr>n_head = 1, d_head = 1, attn_d_model = 1, scale = 1,
      w_q = \<lparr>shape = [1, 1], data = [1]\<rparr>, w_k = \<lparr>shape = [1, 1], data = [1]\<rparr>,
      w_v = \<lparr>shape = [1, 1], data = [1]\<rparr>, w_o = \<lparr>shape = [1, 1], data = [1]\<rparr>,
      w_r = \<lparr>shape = [1, 1], data = [1]\<rparr>,
      r_r_bias = zeros [1, 1], r_s_bias = zeros [1, 1], r_w_bias = zeros [1, 1],
      seg_embed = zeros [2, 1, 1], layer_norm = (\<lambda>x. x), dropout = (\<lambda>x. x)\<rparr>"
  let ?h = "\<lparr>shape = [1, 1, 1], data = [1::real]\<rparr>"
  let ?m = "\<lparr>shape = [1, 1, 1], data = [5::real]\<rparr>"
  have h: "shape ?h = [1, 1, 1]" and m: "shape ?m = [1, 1, 1]"
    and wq: "shape (w_q ?self) = [1, n_head ?self * d_head ?self]"
    and wk: "shape (w_k ?self) = [1, n_head ?self * d_head ?self]"
    and pos: "(0::nat) < 1" "0 < n_head ?self" "0 < d_head ?self"
    by simp_all
  note r = content_path_with_memory [OF h m wq wk pos(1) pos(1) pos(1) pos(2) pos(3)]
  from r(1) [of None None "\<lparr>shape = [3, 1, 1], data = [1, 2, 3]\<rparr>" None None None False] r(2)
  show ?thesis by (simp add: numeral_2_eq_2)
qed

section \<open>Rows of the softmax\<close>



















end
